theory Spec2Isabelle
  imports Main "HOL-Library.Sublist" "HOL-Library.AList"
begin

section \<open>The toplevel property access rule (src/tslint/noToplevelPropertyAccessRule.ts)\<close>

text \<open>
  The rule walks a TypeScript syntax tree. Only the part of a node that the rule reads is
  kept: its kind (the \<open>ts.isXxx\<close> guards compare \<open>node.kind\<close>), the start and end offsets
  that \<open>addFailureAtNode\<close> records, and the children in the order \<open>ts.forEachChild\<close>
  visits them. Kinds the rule never tests are \<open>OtherKind\<close> with their name.
\<close>

datatype syntax_kind =
    SourceFile
  | FunctionDeclaration
  | FunctionExpression
  | ClassDeclaration
  | ClassExpression
  | ArrowFunction
  | MethodDeclaration
  | InterfaceDeclaration
  | PropertyAccessExpression
  | ElementAccessExpression
  | OtherKind string

datatype node = Node (kind: syntax_kind) (node_start: nat) (node_end: nat) (children: "node list")

datatype rule_failure = RuleFailure (failure_start: nat) (failure_end: nat) (failure_message: string)

record source_file =
  fileName :: string
  root :: node

definition FAILURE_STRING :: string where
  "FAILURE_STRING = ''Avoid toplevel property access.''"

text \<open>The first \<open>if\<close> of the callback: the seven definition constructs.\<close>

definition isDefinitionConstruct :: "node \<Rightarrow> bool" where
  "isDefinitionConstruct n =
     (kind n = FunctionDeclaration \<or> kind n = FunctionExpression \<or>
      kind n = ClassDeclaration \<or> kind n = ClassExpression \<or> kind n = ArrowFunction \<or>
      kind n = MethodDeclaration \<or> kind n = InterfaceDeclaration)"

text \<open>The second \<open>if\<close> of the callback.\<close>

definition isAccessExpression :: "node \<Rightarrow> bool" where
  "isAccessExpression n =
     (kind n = PropertyAccessExpression \<or> kind n = ElementAccessExpression)"

text \<open>\<open>ctx.addFailureAtNode(node, msg)\<close> appends one failure spanning the node.\<close>

definition addFailureAtNode :: "node \<Rightarrow> string \<Rightarrow> rule_failure list \<Rightarrow> rule_failure list" where
  "addFailureAtNode n msg failures = failures @ [RuleFailure (node_start n) (node_end n) msg]"

text \<open>
  \<open>cb\<close> is the callback of \<open>walk\<close>; \<open>forEachChild_cb cs\<close> is \<open>ts.forEachChild(node, cb)\<close> on
  a node whose children are \<open>cs\<close>. \<open>ts.forEachChild\<close> stops at the first child for which the
  callback returns a truthy value and returns that value, otherwise \<open>undefined\<close>; the value
  returned is modelled as \<open>unit option\<close> (\<open>None\<close> is \<open>undefined\<close>). The failures collected in
  the walk context are threaded through.
\<close>

fun cb :: "node \<Rightarrow> rule_failure list \<Rightarrow> unit option \<times> rule_failure list"
and forEachChild_cb :: "node list \<Rightarrow> rule_failure list \<Rightarrow> unit option \<times> rule_failure list" where
  "cb (Node k s e cs) failures =
     (if isDefinitionConstruct (Node k s e cs) then (None, failures)
      else
        let failures' =
              (if isAccessExpression (Node k s e cs)
               then addFailureAtNode (Node k s e cs) FAILURE_STRING failures
               else failures)
        in forEachChild_cb cs failures')"
| "forEachChild_cb [] failures = (None, failures)"
| "forEachChild_cb (c # cs) failures =
     (case cb c failures of
        (Some r, failures') \<Rightarrow> (Some r, failures')
      | (None, failures') \<Rightarrow> forEachChild_cb cs failures')"

text \<open>\<open>walk(ctx)\<close> starts at the children of the source file with no failure recorded.\<close>

definition walk :: "source_file \<Rightarrow> rule_failure list" where
  "walk sf = snd (forEachChild_cb (children (root sf)) [])"

text \<open>
  \<open>Rule.apply\<close>: \<open>String.prototype.includes\<close> is the contiguous-substring test, and
  \<open>applyWithFunction\<close> returns the failures the walk collected.
\<close>

definition str_includes :: "string \<Rightarrow> string \<Rightarrow> bool" where
  "str_includes s sub = sublist sub s"

definition apply_rule :: "string list \<Rightarrow> source_file \<Rightarrow> rule_failure list" where
  "apply_rule args sf =
     (if length args > 0 \<and> \<not> list_ex (\<lambda>path. str_includes (fileName sf) path) args
      then []
      else walk sf)"

subsection \<open>The nodes the specification calls reachable\<close>

text \<open>
  Following the specification's words: the nodes met by a depth-first traversal that does
  not enter the subtree of an opaque definition, in the order met.
\<close>

fun toplevel_nodes :: "node \<Rightarrow> node list"
and toplevel_nodes_list :: "node list \<Rightarrow> node list" where
  "toplevel_nodes (Node k s e cs) =
     (if isDefinitionConstruct (Node k s e cs) then []
      else Node k s e cs # toplevel_nodes_list cs)"
| "toplevel_nodes_list [] = []"
| "toplevel_nodes_list (c # cs) = toplevel_nodes c @ toplevel_nodes_list cs"

definition failure_at :: "node \<Rightarrow> rule_failure" where
  "failure_at n = RuleFailure (node_start n) (node_end n) ''Avoid toplevel property access.''"

subsection \<open>Example modules\<close>

text \<open>\<open>function f() { a.b; }\<close>\<close>

definition module_function_only :: source_file where
  "module_function_only =
     \<lparr> fileName = ''f.ts'',
       root = Node SourceFile 0 23
         [Node FunctionDeclaration 0 23
            [Node (OtherKind ''Identifier'') 9 10 [],
             Node (OtherKind ''Block'') 13 23
               [Node (OtherKind ''ExpressionStatement'') 15 19
                  [Node PropertyAccessExpression 15 18
                     [Node (OtherKind ''Identifier'') 15 16 [],
                      Node (OtherKind ''Identifier'') 17 18 []]]]]] \<rparr>"

text \<open>\<open>a.b.c;\<close>\<close>

definition module_chained_access :: source_file where
  "module_chained_access =
     \<lparr> fileName = ''c.ts'',
       root = Node SourceFile 0 6
         [Node (OtherKind ''ExpressionStatement'') 0 6
            [Node PropertyAccessExpression 0 5
               [Node PropertyAccessExpression 0 3
                  [Node (OtherKind ''Identifier'') 0 1 [],
                   Node (OtherKind ''Identifier'') 2 3 []],
                Node (OtherKind ''Identifier'') 4 5 []]]] \<rparr>"

section \<open>The host: file tree, console, path library and bundler\<close>

text \<open>
  The checker and the command line run on Node. What they use of it is modelled here: a
  file tree (files with their text, and directories), the lines written with
  \<open>console.log\<close>, and a journal of the file-tree operations performed, so that "nothing was
  written" can be told from "the same text was written again". The \<open>fs\<close> functions fail as
  Node's do on the shape of the tree (missing entry, missing parent, directory in place of a
  file, non-empty directory); permissions and devices are not modelled.
\<close>

type_synonym path = string

datatype entry = File string | Dir

datatype fs_event =
    Mkdtemp path
  | WriteFile path string
  | Unlink path
  | Rmdir path
  | Mkdir path
  | BundleWrite "path option"

datatype error =
    Thrown string
  | ENOENT path
  | EEXIST path
  | EISDIR path
  | ENOTDIR path
  | ENOTEMPTY path
  | PipelineFault string
  | SyntaxError
  | TypeError
  | RangeError

record world =
  fs :: "(path \<times> entry) list"
  console :: "string list"
  journal :: "fs_event list"

text \<open>The options the checker hands to Rollup and to its plugins.\<close>

record terser_config =
  mangle :: bool
  compress_defaults :: bool
  global_defs :: "(string \<times> string) list"
  output_comments :: bool
  output_beautify :: bool

text \<open>The Terser options of the earlier version of the checker.\<close>

record terser_config_v1 =
  v1_module :: bool
  v1_ecma :: nat
  v1_mangle :: bool
  v1_output_comments :: bool
  v1_output_beautify :: bool
  v1_compress_defaults :: bool
  v1_conditionals :: bool
  v1_unused :: bool
  v1_side_effects :: bool
  v1_pure_getters :: bool
  v1_passes :: nat
  v1_global_defs :: "(string \<times> string) list"
  v1_reduce_vars :: bool
  v1_reduce_funcs :: bool
  v1_evaluate :: bool
  v1_dead_code :: bool

datatype plugin =
    NodeResolve
  | BuildOptimizer "string list"
  | Terser terser_config
  | TerserV1 terser_config_v1
  | Filesize

record treeshake_options =
  treeshake_propertyReadSideEffects :: bool
  pureExternalModules :: bool
  annotations :: bool

record input_options =
  input :: path
  plugins :: "plugin list"
  treeshake :: "treeshake_options option"
  onwarn_silenced :: bool

record output_options =
  out_file :: "path option"
  format :: string
  sourcemap :: bool

datatype rollup_output = OutputChunk (code: string) | OutputAsset (source: string)

fun isAsset :: "rollup_output \<Rightarrow> bool" where
  "isAsset (OutputChunk c) = False"
| "isAsset (OutputAsset a) = True"

text \<open>
  A bundle as Rollup returns it: the files it depends on, \<open>generate\<close>, and \<open>write\<close>, which
  changes the file tree (the output file and its source map) and may fail.
\<close>

record rollup_bundle =
  watchFiles :: "path list"
  generate :: "output_options \<Rightarrow> error + rollup_output list"
  bundle_write :: "output_options \<Rightarrow> (path \<times> entry) list \<Rightarrow> error option \<times> (path \<times> entry) list"

text \<open>
  The command line's types (cli.ts): the checker options a test or the command line may
  give, and a test of a test file. A field that may be left out is an \<open>option\<close>;
  \<open>esModules\<close> of a test is a string or an array of strings.
\<close>

record CheckerCLIOptions =
  cli_cwd :: "path option"
  cli_output :: "string option"
  cli_pureGetters :: "bool option"
  cli_resolveExternals :: "bool option"
  cli_printDependencies :: "bool option"
  cli_useBuildOptimizer :: "bool option"
  cli_useMinifier :: "bool option"
  cli_warnings :: "bool option"

record Test =
  test_esModules :: "string + string list"
  test_options :: "CheckerCLIOptions option"
  expectedOutput :: string

text \<open>
  What is not code of this repository is a parameter: Node's \<open>path\<close> and \<open>os\<close> functions,
  \<open>process.cwd()\<close>, the random suffix \<open>mkdtempSync\<close> settles on, Rollup itself,
  \<open>JSON.parse\<close> of a test file followed by the read of its \<open>tests\<close>, what
  \<open>writeFileSync\<close> makes of \<open>undefined\<close> data (the text "undefined" up to Node 12, a
  TypeError from Node 14), and the number of stack frames a recursion may use before a
  RangeError.
\<close>

record host =
  resolve :: "path \<Rightarrow> string \<Rightarrow> path"
  join :: "path \<Rightarrow> string \<Rightarrow> path"
  dirname :: "path \<Rightarrow> path"
  tmpdir :: path
  process_cwd :: path
  mkdtemp_suffix :: "world \<Rightarrow> string"
  rollup :: "input_options \<Rightarrow> (path \<times> entry) list \<Rightarrow> error + rollup_bundle"
  JSON_parse_tests :: "string \<Rightarrow> error + Test list"
  undefined_data :: "error + string"
  stack_frames :: nat

subsection \<open>Node's fs functions\<close>

definition lookup :: "world \<Rightarrow> path \<Rightarrow> entry option" where
  "lookup w p = map_of (fs w) p"

definition existsSync :: "world \<Rightarrow> path \<Rightarrow> bool" where
  "existsSync w p = (lookup w p \<noteq> None)"

definition readFileSync :: "world \<Rightarrow> path \<Rightarrow> error + string" where
  "readFileSync w p =
     (case lookup w p of
        Some (File c) \<Rightarrow> Inr c
      | Some Dir \<Rightarrow> Inl (EISDIR p)
      | None \<Rightarrow> Inl (ENOENT p))"

definition writeFileSync :: "host \<Rightarrow> path \<Rightarrow> string \<Rightarrow> world \<Rightarrow> (error + unit) \<times> world" where
  "writeFileSync h p c w =
     (case lookup w p of
        Some Dir \<Rightarrow> (Inl (EISDIR p), w)
      | _ \<Rightarrow>
        (case lookup w (dirname h p) of
           Some Dir \<Rightarrow>
             (Inr (), w\<lparr>fs := AList.update p (File c) (fs w),
                        journal := journal w @ [WriteFile p c]\<rparr>)
         | Some (File x) \<Rightarrow> (Inl (ENOTDIR p), w)
         | None \<Rightarrow> (Inl (ENOENT p), w)))"

definition unlinkSync :: "path \<Rightarrow> world \<Rightarrow> (error + unit) \<times> world" where
  "unlinkSync p w =
     (case lookup w p of
        Some (File c) \<Rightarrow>
          (Inr (), w\<lparr>fs := AList.delete p (fs w), journal := journal w @ [Unlink p]\<rparr>)
      | Some Dir \<Rightarrow> (Inl (EISDIR p), w)
      | None \<Rightarrow> (Inl (ENOENT p), w))"

definition hasChildren :: "host \<Rightarrow> world \<Rightarrow> path \<Rightarrow> bool" where
  "hasChildren h w p = list_ex (\<lambda>(q, x). q \<noteq> p \<and> dirname h q = p) (fs w)"

definition rmdirSync :: "host \<Rightarrow> path \<Rightarrow> world \<Rightarrow> (error + unit) \<times> world" where
  "rmdirSync h p w =
     (case lookup w p of
        Some Dir \<Rightarrow>
          (if hasChildren h w p then (Inl (ENOTEMPTY p), w)
           else (Inr (), w\<lparr>fs := AList.delete p (fs w), journal := journal w @ [Rmdir p]\<rparr>))
      | Some (File c) \<Rightarrow> (Inl (ENOTDIR p), w)
      | None \<Rightarrow> (Inl (ENOENT p), w))"

definition mkdirSync :: "host \<Rightarrow> path \<Rightarrow> world \<Rightarrow> (error + unit) \<times> world" where
  "mkdirSync h p w =
     (if existsSync w p then (Inl (EEXIST p), w)
      else
        (case lookup w (dirname h p) of
           Some Dir \<Rightarrow>
             (Inr (), w\<lparr>fs := AList.update p Dir (fs w), journal := journal w @ [Mkdir p]\<rparr>)
         | Some (File x) \<Rightarrow> (Inl (ENOTDIR p), w)
         | None \<Rightarrow> (Inl (ENOENT p), w)))"

definition mkdtempSync :: "host \<Rightarrow> path \<Rightarrow> world \<Rightarrow> (error + path) \<times> world" where
  "mkdtempSync h pre w =
     (let p = pre @ mkdtemp_suffix h w in
      if existsSync w p then (Inl (EEXIST p), w)
      else
        (case lookup w (dirname h p) of
           Some Dir \<Rightarrow>
             (Inr p, w\<lparr>fs := AList.update p Dir (fs w), journal := journal w @ [Mkdtemp p]\<rparr>)
         | Some (File x) \<Rightarrow> (Inl (ENOTDIR p), w)
         | None \<Rightarrow> (Inl (ENOENT p), w)))"

definition console_log :: "string \<Rightarrow> world \<Rightarrow> world" where
  "console_log s w = w\<lparr>console := console w @ [s]\<rparr>"

subsection \<open>JavaScript string and array built-ins\<close>

text \<open>\<open>Array.prototype.join(sep)\<close>.\<close>

fun js_join :: "string \<Rightarrow> string list \<Rightarrow> string" where
  "js_join sep [] = []"
| "js_join sep [x] = x"
| "js_join sep (x # y # ys) = x @ sep @ js_join sep (y # ys)"

text \<open>\<open>s.replace(/\\/g, '/')\<close>: every backslash (character 0x5C) becomes a slash.\<close>

definition replace_backslashes :: "string \<Rightarrow> string" where
  "replace_backslashes s = map (\<lambda>c. if c = CHR 0x5C then CHR ''/'' else c) s"

text \<open>A string is truthy when it is not empty.\<close>

definition truthy :: "string \<Rightarrow> bool" where
  "truthy s = (s \<noteq> [])"

section \<open>The checker (checker.ts, current version)\<close>

record CheckSideEffectsOptions =
  cwd :: "path option"
  esModules :: "string list"
  output_target :: "string option"
  propertyReadSideEffects :: "bool option"
  globalDefs :: "(string \<times> string) list option"
  sideEffectFreeModules :: "string list option"
  resolveExternals :: "bool option"
  printDependencies :: "bool option"
  useBuildOptimizer :: "bool option"
  useMinifier :: "bool option"
  warnings :: "bool option"

text \<open>A destructured parameter with a default: \<open>undefined\<close> takes the default.\<close>

definition withDefault :: "'a \<Rightarrow> 'a option \<Rightarrow> 'a" where
  "withDefault d x = (case x of None \<Rightarrow> d | Some v \<Rightarrow> v)"

definition cwdOf :: "host \<Rightarrow> CheckSideEffectsOptions \<Rightarrow> path" where
  "cwdOf h opts = withDefault (process_cwd h) (cwd opts)"

text \<open>Line 177: the resolved module paths, with forward slashes.\<close>

definition resolvedEsModules :: "host \<Rightarrow> CheckSideEffectsOptions \<Rightarrow> path list" where
  "resolvedEsModules h opts =
     map (\<lambda>m. replace_backslashes (resolve h (cwdOf h opts) m)) (esModules opts)"

text \<open>Lines 178 to 181.\<close>

definition outputFilePath :: "host \<Rightarrow> CheckSideEffectsOptions \<Rightarrow> path option" where
  "outputFilePath h opts =
     (case output_target opts of
        None \<Rightarrow> None
      | Some out \<Rightarrow> if truthy out then Some (resolve h (cwdOf h opts) out) else None)"

text \<open>Line 184.\<close>

definition missingModules :: "host \<Rightarrow> CheckSideEffectsOptions \<Rightarrow> world \<Rightarrow> path list" where
  "missingModules h opts w = filter (\<lambda>m. \<not> existsSync w m) (resolvedEsModules h opts)"

definition missingModulesMessage :: "path list \<Rightarrow> string" where
  "missingModulesMessage missing =
     ''Could not find the following modules: '' @ js_join '','' missing @ ''.'' @
     [CHR 0x0A] @
     ''Please provide relative/absolute paths to the ES modules you want to check.''"

text \<open>Line 194: the text written to the temporary entry file.\<close>

definition entrySource :: "path list \<Rightarrow> string" where
  "entrySource resolved =
     js_join [CHR 0x0A] (map (\<lambda>m. ''import '' @ [CHR 0x27] @ m @ [CHR 0x27] @ '';'') resolved)"

definition terserConfig :: "CheckSideEffectsOptions \<Rightarrow> terser_config" where
  "terserConfig opts =
     \<lparr> mangle = False,
       compress_defaults = False,
       global_defs = withDefault [] (globalDefs opts),
       output_comments = False,
       output_beautify = True \<rparr>"

definition inputOptions :: "CheckSideEffectsOptions \<Rightarrow> path \<Rightarrow> input_options" where
  "inputOptions opts tmpInputFilename =
     \<lparr> input = tmpInputFilename,
       plugins =
         (if withDefault False (resolveExternals opts) then [NodeResolve] else []) @
         (if withDefault True (useBuildOptimizer opts)
          then [BuildOptimizer (withDefault [[]] (sideEffectFreeModules opts))] else []) @
         (if withDefault True (useMinifier opts) then [Terser (terserConfig opts)] else []),
       treeshake =
         Some \<lparr> treeshake_propertyReadSideEffects =
                   withDefault True (propertyReadSideEffects opts),
                pureExternalModules = False,
                annotations = True \<rparr>,
       onwarn_silenced = (\<not> withDefault False (warnings opts)) \<rparr>"

definition outputOptions :: "host \<Rightarrow> CheckSideEffectsOptions \<Rightarrow> output_options" where
  "outputOptions h opts =
     \<lparr> out_file = outputFilePath h opts, format = ''esm'', sourcemap = True \<rparr>"

definition sourceMapInstructions :: string where
  "sourceMapInstructions =
     [CHR 0x0A] @
     ''  Open http://sokra.github.io/source-map-visualization/ and drag the'' @ [CHR 0x0A] @
     ''  output js and js.map to see where the remaining code comes from.'' @ [CHR 0x0A]"

text \<open>Lines 273 to 276: the code of the chunks, assets left out, joined by newlines.\<close>

definition chunkCode :: "rollup_output list \<Rightarrow> string" where
  "chunkCode outputs = js_join [CHR 0x0A] (map code (filter (\<lambda>c. \<not> isAsset c) outputs))"

text \<open>
  \<open>checkSideEffects\<close>, lines 162 to 278. The result is the value returned (\<open>None\<close> is
  \<open>undefined\<close>) or the error thrown, with the world as it is then.
\<close>

definition checkSideEffects ::
  "host \<Rightarrow> CheckSideEffectsOptions \<Rightarrow> world \<Rightarrow> (error + string option) \<times> world" where
  "checkSideEffects h opts w =
     (if length (missingModules h opts w) > 0
      then (Inl (Thrown (missingModulesMessage (missingModules h opts w))), w)
      else
       (case mkdtempSync h (join h (tmpdir h) ''check-side-effects-'') w of
          (Inl e, w1) \<Rightarrow> (Inl e, w1)
        | (Inr tmpDir, w1) \<Rightarrow>
         (let tmpInputFilename = resolve h tmpDir ''./index.js'' in
         (case writeFileSync h tmpInputFilename (entrySource (resolvedEsModules h opts)) w1 of
            (Inl e, w2) \<Rightarrow> (Inl e, w2)
          | (Inr u, w2) \<Rightarrow>
           (case rollup h (inputOptions opts tmpInputFilename) (fs w2) of
              Inl e \<Rightarrow> (Inl e, w2)
            | Inr bndl \<Rightarrow>
             (let w3 = (if withDefault False (printDependencies opts)
                        then foldl (\<lambda>w' f. console_log f w') w2 (watchFiles bndl)
                        else w2);
                  written =
                    (case outputFilePath h opts of
                       Some out \<Rightarrow>
                         (case bundle_write bndl (outputOptions h opts) (fs w3) of
                            (Some e, fs') \<Rightarrow>
                              (Inl e, w3\<lparr>fs := fs',
                                          journal := journal w3 @ [BundleWrite (Some out)]\<rparr>)
                          | (None, fs') \<Rightarrow>
                              (Inr None, w3\<lparr>fs := fs',
                                             journal := journal w3 @ [BundleWrite (Some out)]\<rparr>))
                     | None \<Rightarrow>
                         (case generate bndl (outputOptions h opts) of
                            Inl e \<Rightarrow> (Inl e, w3)
                          | Inr outs \<Rightarrow> (Inr (Some outs), w3)))
              in
             (case written of
                (Inl e, w4) \<Rightarrow> (Inl e, w4)
              | (Inr outputs, w4) \<Rightarrow>
               (case unlinkSync tmpInputFilename w4 of
                  (Inl e, w5) \<Rightarrow> (Inl e, w5)
                | (Inr u5, w5) \<Rightarrow>
                 (case rmdirSync h tmpDir w5 of
                    (Inl e, w6) \<Rightarrow> (Inl e, w6)
                  | (Inr u6, w6) \<Rightarrow>
                    (case outputs of
                       None \<Rightarrow> (Inr None, console_log sourceMapInstructions w6)
                     | Some outs \<Rightarrow> (Inr (Some (chunkCode outs)), w6)))))))))))"

section \<open>The checker, earlier version\<close>

text \<open>
  The source also holds an earlier version of \<open>checker.ts\<close> (the first 137 lines of the
  same file). It writes the entry file into the working directory instead of a scratch
  directory, always runs Terser with a larger set of options, and removes the entry file
  only after writing a bundle to disk.
\<close>

record CheckSideEffectsOptions_v1 =
  v1_cwd :: path
  v1_esModules :: "string list"
  v1_outputFilePath :: "string option"
  v1_pureGetters :: "bool option"
  v1_globalDefs :: "(string \<times> string) list option"
  v1_sideEffectFreeModules :: "string list option"
  v1_resolveExternals :: "bool option"
  v1_printDependencies :: "bool option"
  v1_useBuildOptimizer :: "bool option"
  v1_warnings :: "bool option"

definition resolvedEsModules_v1 :: "host \<Rightarrow> CheckSideEffectsOptions_v1 \<Rightarrow> path list" where
  "resolvedEsModules_v1 h opts =
     map (\<lambda>m. replace_backslashes (resolve h (v1_cwd opts) m)) (v1_esModules opts)"

text \<open>Lines 39 to 41: \<open>outputFilePath\<close> after the reassignment.\<close>

definition outputFilePath_v1 :: "host \<Rightarrow> CheckSideEffectsOptions_v1 \<Rightarrow> path option" where
  "outputFilePath_v1 h opts =
     (case v1_outputFilePath opts of
        None \<Rightarrow> None
      | Some out \<Rightarrow> if truthy out then Some (resolve h (v1_cwd opts) out) else Some out)"

definition missingModules_v1 :: "host \<Rightarrow> CheckSideEffectsOptions_v1 \<Rightarrow> world \<Rightarrow> path list" where
  "missingModules_v1 h opts w = filter (\<lambda>m. \<not> existsSync w m) (resolvedEsModules_v1 h opts)"

definition terserConfig_v1 :: "CheckSideEffectsOptions_v1 \<Rightarrow> terser_config_v1" where
  "terserConfig_v1 opts =
     \<lparr> v1_module = True, v1_ecma = 6, v1_mangle = False,
       v1_output_comments = False, v1_output_beautify = True,
       v1_compress_defaults = False, v1_conditionals = True, v1_unused = True,
       v1_side_effects = True, v1_pure_getters = withDefault True (v1_pureGetters opts),
       v1_passes = 3, v1_global_defs = withDefault [] (v1_globalDefs opts),
       v1_reduce_vars = True, v1_reduce_funcs = True, v1_evaluate = True,
       v1_dead_code = True \<rparr>"

definition outputGiven_v1 :: "host \<Rightarrow> CheckSideEffectsOptions_v1 \<Rightarrow> bool" where
  "outputGiven_v1 h opts =
     (case outputFilePath_v1 h opts of None \<Rightarrow> False | Some out \<Rightarrow> truthy out)"

definition inputOptions_v1 :: "host \<Rightarrow> CheckSideEffectsOptions_v1 \<Rightarrow> path \<Rightarrow> input_options" where
  "inputOptions_v1 h opts tmpInputFilename =
     \<lparr> input = tmpInputFilename,
       plugins =
         (if withDefault False (v1_resolveExternals opts) then [NodeResolve] else []) @
         (if withDefault True (v1_useBuildOptimizer opts)
          then [BuildOptimizer (withDefault [[]] (v1_sideEffectFreeModules opts))] else []) @
         [TerserV1 (terserConfig_v1 opts)] @
         (if outputGiven_v1 h opts then [Filesize] else []),
       treeshake = None,
       onwarn_silenced = (\<not> withDefault False (v1_warnings opts)) \<rparr>"

definition outputOptions_v1 :: "host \<Rightarrow> CheckSideEffectsOptions_v1 \<Rightarrow> output_options" where
  "outputOptions_v1 h opts =
     \<lparr> out_file = outputFilePath_v1 h opts, format = ''esm'', sourcemap = True \<rparr>"

text \<open>\<open>checkSideEffects\<close>, lines 24 to 137.\<close>

definition checkSideEffects_v1 ::
  "host \<Rightarrow> CheckSideEffectsOptions_v1 \<Rightarrow> world \<Rightarrow> (error + string option) \<times> world" where
  "checkSideEffects_v1 h opts w =
     (if length (missingModules_v1 h opts w) > 0
      then (Inl (Thrown (missingModulesMessage (missingModules_v1 h opts w))), w)
      else
       (let tmpInputFilename = resolve h (v1_cwd opts) ''./check-side-effects.tmp-input.js'' in
       (case writeFileSync h tmpInputFilename (entrySource (resolvedEsModules_v1 h opts)) w of
          (Inl e, w1) \<Rightarrow> (Inl e, w1)
        | (Inr u, w1) \<Rightarrow>
         (case rollup h (inputOptions_v1 h opts tmpInputFilename) (fs w1) of
            Inl e \<Rightarrow> (Inl e, w1)
          | Inr bndl \<Rightarrow>
           (let w2 = (if withDefault False (v1_printDependencies opts)
                      then foldl (\<lambda>w' f. console_log f w') w1 (watchFiles bndl)
                      else w1)
            in
            (if outputGiven_v1 h opts then
               (case bundle_write bndl (outputOptions_v1 h opts) (fs w2) of
                  (Some e, fs') \<Rightarrow>
                    (Inl e, w2\<lparr>fs := fs',
                                journal := journal w2 @ [BundleWrite (outputFilePath_v1 h opts)]\<rparr>)
                | (None, fs') \<Rightarrow>
                   (case unlinkSync tmpInputFilename
                           (w2\<lparr>fs := fs',
                                journal := journal w2 @ [BundleWrite (outputFilePath_v1 h opts)]\<rparr>) of
                      (Inl e, w3) \<Rightarrow> (Inl e, w3)
                    | (Inr u3, w3) \<Rightarrow> (Inr None, console_log sourceMapInstructions w3)))
             else
               (case generate bndl (outputOptions_v1 h opts) of
                  Inl e \<Rightarrow> (Inl e, w2)
                | Inr outs \<Rightarrow> (Inr (Some (chunkCode outs)), w2))))))))"

definition default_options_v1 :: "path \<Rightarrow> string list \<Rightarrow> CheckSideEffectsOptions_v1" where
  "default_options_v1 dir ms =
     \<lparr> v1_cwd = dir, v1_esModules = ms, v1_outputFilePath = None, v1_pureGetters = None,
       v1_globalDefs = None, v1_sideEffectFreeModules = None, v1_resolveExternals = None,
       v1_printDependencies = None, v1_useBuildOptimizer = None, v1_warnings = None \<rparr>"

section \<open>The command line and the test harness (cli.ts, current version)\<close>

text \<open>
  \<open>main\<close> is modelled from the options that \<open>minimist\<close> returns: \<open>arg_positional\<close> is
  \<open>options._\<close>.
\<close>

record ParsedCliOptions =
  arg_help :: bool
  arg_cwd :: path
  arg_output :: "string option"
  arg_pureGetters :: bool
  arg_resolveExternals :: bool
  arg_printDependencies :: bool
  arg_useBuildOptimizer :: bool
  arg_useMinifier :: bool
  arg_warnings :: bool
  arg_test :: "string option"
  arg_update :: bool
  arg_positional :: "string list"

text \<open>\<open>_recursiveMkDir\<close>; each call takes one of the stack frames left.\<close>

fun recursiveMkDir :: "host \<Rightarrow> nat \<Rightarrow> path \<Rightarrow> world \<Rightarrow> (error + unit) \<times> world" where
  "recursiveMkDir h 0 p w = (Inl RangeError, w)"
| "recursiveMkDir h (Suc frames) p w =
     (if \<not> existsSync w p then
        (case recursiveMkDir h frames (dirname h p) w of
           (Inl e, w1) \<Rightarrow> (Inl e, w1)
         | (Inr u, w1) \<Rightarrow> mkdirSync h p w1)
      else (Inr (), w))"

text \<open>\<open>isNodeBinary\<close>.\<close>

definition isNodeBinary :: "string \<Rightarrow> bool" where
  "isNodeBinary str = (suffix ''node'' str \<or> suffix ''node.exe'' str)"

definition helpText :: string where
  "helpText = js_join [CHR 0x0A]
     ['''',
      ''check-side-effects [ES modules to check] [--option-name]'',
      '''',
      ''Checks side effects from importing given ES modules.'',
      '''',
      ''Options:'',
      ''    --help                    Show this message.'',
      ''    --cwd                     Override working directory to run the process in.'',
      ''    --output                  Output the bundle to this path. Useful to trace the sourcemaps.'',
      ''    --pure-getters            Assume there are no side effects from getters. [Default: false]'',
      ''    --resolve-externals       Resolve external dependencies. [Default: false]'',
      ''    --print-dependencies      Print all the module dependencies. [Default: false]'',
      ''    --use-build-optimizer     Run Build Optimizer over all modules. [Default: true]'',
      ''    --use-minifier'' @ [CHR 0x09] @
        ''          Run minifier over the final bundle to remove comments. [Default: true]'',
      ''    --warnings                Show all warnings. [Default: false]'',
      ''    --test                    Read a series of tests from a JSON file.'',
      ''    --update                  Update the test results. [Default: false]'',
      '''',
      ''Example:'',
      ''    check-side-effects ./path/to/library/module.js'',
      '''']"

definition showHelp :: "world \<Rightarrow> world" where
  "showHelp w = console_log helpText w"

text \<open>
  The object \<open>{ esModules, cwd: options.cwd, ...test.options }\<close> as the checker reads it:
  a field of \<open>test.options\<close> that is present wins; \<open>pureGetters\<close> is not a parameter of the
  checker and is dropped.
\<close>

definition testCheckerOptions ::
  "ParsedCliOptions \<Rightarrow> string list \<Rightarrow> CheckerCLIOptions option \<Rightarrow> CheckSideEffectsOptions" where
  "testCheckerOptions options ms topts =
     (case topts of
        None \<Rightarrow>
          \<lparr> cwd = Some (arg_cwd options), esModules = ms, output_target = None,
            propertyReadSideEffects = None, globalDefs = None, sideEffectFreeModules = None,
            resolveExternals = None, printDependencies = None, useBuildOptimizer = None,
            useMinifier = None, warnings = None \<rparr>
      | Some t \<Rightarrow>
          \<lparr> cwd = (case cli_cwd t of None \<Rightarrow> Some (arg_cwd options) | Some c \<Rightarrow> Some c),
            esModules = ms, output_target = cli_output t,
            propertyReadSideEffects = None, globalDefs = None, sideEffectFreeModules = None,
            resolveExternals = cli_resolveExternals t,
            printDependencies = cli_printDependencies t,
            useBuildOptimizer = cli_useBuildOptimizer t,
            useMinifier = cli_useMinifier t,
            warnings = cli_warnings t \<rparr>)"

text \<open>The options of a run without a test file.\<close>

definition cliCheckerOptions :: "ParsedCliOptions \<Rightarrow> string list \<Rightarrow> CheckSideEffectsOptions" where
  "cliCheckerOptions options ms =
     \<lparr> cwd = Some (arg_cwd options), esModules = ms, output_target = arg_output options,
       propertyReadSideEffects = None, globalDefs = None, sideEffectFreeModules = None,
       resolveExternals = Some (arg_resolveExternals options),
       printDependencies = Some (arg_printDependencies options),
       useBuildOptimizer = Some (arg_useBuildOptimizer options),
       useMinifier = Some (arg_useMinifier options),
       warnings = Some (arg_warnings options) \<rparr>"

definition unresolvedEsModules :: "Test \<Rightarrow> string list" where
  "unresolvedEsModules t = (case test_esModules t of Inl m \<Rightarrow> [m] | Inr ms \<Rightarrow> ms)"

text \<open>Lines 584 and 591 to 595: the options \<open>checkSideEffects\<close> is run with for a test.\<close>

definition testOptions ::
  "host \<Rightarrow> ParsedCliOptions \<Rightarrow> path \<Rightarrow> Test \<Rightarrow> CheckSideEffectsOptions" where
  "testOptions h options testFileDir t =
     testCheckerOptions options
       (map (\<lambda>esm. resolve h testFileDir esm) (unresolvedEsModules t)) (test_options t)"

definition esModulesDescription :: "Test \<Rightarrow> string" where
  "esModulesDescription t = js_join '' '' (unresolvedEsModules t)"

definition expectedOutputPath :: "host \<Rightarrow> ParsedCliOptions \<Rightarrow> Test \<Rightarrow> path" where
  "expectedOutputPath h options t = resolve h (arg_cwd options) (expectedOutput t)"

text \<open>Lines 600 to 608: the expected output, empty when the file is not there.\<close>

definition loadExpectedOutput :: "world \<Rightarrow> path \<Rightarrow> error + string" where
  "loadExpectedOutput w p = (if existsSync w p then readFileSync w p else Inr '''')"

text \<open>\<open>writeFileSync(path, result, 'utf-8')\<close> where \<open>result\<close> may be \<open>undefined\<close>.\<close>

definition writeResultSync ::
  "host \<Rightarrow> path \<Rightarrow> string option \<Rightarrow> world \<Rightarrow> (error + unit) \<times> world" where
  "writeResultSync h p result w =
     (case result of
        Some text \<Rightarrow> writeFileSync h p text w
      | None \<Rightarrow>
        (case undefined_data h of
           Inl e \<Rightarrow> (Inl e, w)
         | Inr text \<Rightarrow> writeFileSync h p text w))"

text \<open>
  The body of the loop over the tests (lines 582 to 618), from the failed expectations so
  far to those after this test. \<open>result != expectedOutput\<close> compares a string or \<open>undefined\<close>
  with a string: \<open>undefined\<close> differs from every string.
\<close>

definition runTest ::
  "host \<Rightarrow> ParsedCliOptions \<Rightarrow> path \<Rightarrow> Test \<Rightarrow> string list \<Rightarrow> world
     \<Rightarrow> (error + string list) \<times> world" where
  "runTest h options testFileDir t failedExpectations w =
     (let w1 = console_log (''Testing '' @ esModulesDescription t) w
      in
      (case checkSideEffects h (testOptions h options testFileDir t) w1 of
         (Inl e, w2) \<Rightarrow> (Inl e, w2)
       | (Inr result, w2) \<Rightarrow>
         (case loadExpectedOutput w2 (expectedOutputPath h options t) of
            Inl e \<Rightarrow> (Inl e, w2)
          | Inr expected \<Rightarrow>
            (if result \<noteq> Some expected then
               (if arg_update options then
                  (case recursiveMkDir h (stack_frames h)
                          (dirname h (expectedOutputPath h options t)) w2 of
                     (Inl e, w3) \<Rightarrow> (Inl e, w3)
                   | (Inr u, w3) \<Rightarrow>
                     (case writeResultSync h (expectedOutputPath h options t) result w3 of
                        (Inl e, w4) \<Rightarrow> (Inl e, w4)
                      | (Inr u4, w4) \<Rightarrow>
                          (Inr (failedExpectations @ [esModulesDescription t]), w4)))
                else (Inr (failedExpectations @ [esModulesDescription t]), w2))
             else (Inr failedExpectations, w2)))))"

text \<open>The loop \<open>for (const test of testJson.tests)\<close>; a throw ends it.\<close>

fun runTests ::
  "host \<Rightarrow> ParsedCliOptions \<Rightarrow> path \<Rightarrow> Test list \<Rightarrow> string list \<Rightarrow> world
     \<Rightarrow> (error + string list) \<times> world" where
  "runTests h options testFileDir [] failedExpectations w = (Inr failedExpectations, w)"
| "runTests h options testFileDir (t # ts) failedExpectations w =
     (case runTest h options testFileDir t failedExpectations w of
        (Inl e, w1) \<Rightarrow> (Inl e, w1)
      | (Inr failedExpectations1, w1) \<Rightarrow>
          runTests h options testFileDir ts failedExpectations1 w1)"

definition failedExpectationsDescription :: "string list \<Rightarrow> string" where
  "failedExpectationsDescription failedExpectations =
     js_join [CHR 0x0A] (map (\<lambda>s. ''  '' @ s) failedExpectations)"

definition testsFailedMessage :: "string list \<Rightarrow> string" where
  "testsFailedMessage failedExpectations =
     ''Tests failed for modules:'' @ [CHR 0x0A] @
     failedExpectationsDescription failedExpectations @ [CHR 0x0A] @
     [CHR 0x0A] @
     ''To update the expectations, run this command again with the --update flag.'' @
     [CHR 0x0A]"

definition testsUpdatedMessage :: "string list \<Rightarrow> string" where
  "testsUpdatedMessage failedExpectations =
     ''Test expectations updated for modules:'' @ [CHR 0x0A] @
     failedExpectationsDescription failedExpectations @ [CHR 0x0A]"

text \<open>Lines 620 to 634: the report after the loop.\<close>

definition reportTests ::
  "ParsedCliOptions \<Rightarrow> string list \<Rightarrow> world \<Rightarrow> (error + string option) \<times> world" where
  "reportTests options failedExpectations w =
     (let w1 = console_log '''' w in
      if length failedExpectations > 0 then
        (if arg_update options
         then (Inr None, console_log (testsUpdatedMessage failedExpectations) w1)
         else (Inl (Thrown (testsFailedMessage failedExpectations)), w1))
      else (Inr None, console_log ''All tests passed.'' w1))"

text \<open>\<open>main\<close>, lines 530 to 662, after the command line is parsed.\<close>

definition main :: "host \<Rightarrow> ParsedCliOptions \<Rightarrow> world \<Rightarrow> (error + string option) \<times> world" where
  "main h options w =
     (if arg_help options then (Inr None, showHelp w)
      else
       (case (case arg_test options of None \<Rightarrow> None
              | Some tf \<Rightarrow> if truthy tf then Some tf else None) of
          Some tf \<Rightarrow>
           (let testFilePath = resolve h (arg_cwd options) tf in
            if \<not> existsSync w testFilePath
            then (Inl (Thrown (''Could not find the test file: '' @ testFilePath @ ''.'')), w)
            else
             (let w1 = console_log (''Loading tests from '' @ testFilePath @ [CHR 0x0A]) w in
              (case readFileSync w1 testFilePath of
                 Inl e \<Rightarrow> (Inl e, w1)
               | Inr text \<Rightarrow>
                 (case JSON_parse_tests h text of
                    Inl e \<Rightarrow> (Inl e, w1)
                  | Inr tests \<Rightarrow>
                    (case runTests h options (dirname h testFilePath) tests [] w1 of
                       (Inl e, w2) \<Rightarrow> (Inl e, w2)
                     | (Inr failedExpectations, w2) \<Rightarrow>
                         reportTests options failedExpectations w2)))))
        | None \<Rightarrow>
           (case arg_positional options of
              [] \<Rightarrow> (Inl TypeError, w)
            | first # rest \<Rightarrow>
               (let ms = (if isNodeBinary first
                          then drop 2 (arg_positional options)
                          else drop 1 (arg_positional options))
                in if length ms = 0
                   then (Inl (Thrown
                     ''You must provide at least one ES module. Use --help for usage information.''), w)
                   else checkSideEffects h (cliCheckerOptions options ms) w))))"

section \<open>An example host\<close>

text \<open>
  A small POSIX-like host on which the functions above can be run: paths are resolved by
  concatenation, the temporary directory is \<open>/tmp\<close>, and the bundler echoes the text of
  its entry file as the one chunk of residual code (and, on \<open>write\<close>, stores it with an
  empty source map). \<open>failing_host\<close> is the same host with a bundler that raises.
\<close>

definition example_resolve :: "path \<Rightarrow> string \<Rightarrow> path" where
  "example_resolve base p =
     (if take 1 p = ''/'' then p
      else if take 2 p = ''./'' then base @ ''/'' @ drop 2 p
      else base @ ''/'' @ p)"

definition example_dirname :: "path \<Rightarrow> path" where
  "example_dirname p =
     (let d = rev (drop 1 (dropWhile (\<lambda>c. c \<noteq> CHR ''/'') (rev p)))
      in if d = [] then ''/'' else d)"

definition echo_rollup :: "input_options \<Rightarrow> (path \<times> entry) list \<Rightarrow> error + rollup_bundle" where
  "echo_rollup io tree =
     (case map_of tree (input io) of
        Some (File c) \<Rightarrow>
          Inr \<lparr> watchFiles = [input io],
                generate = (\<lambda>oo. Inr [OutputChunk c]),
                bundle_write = (\<lambda>oo tree'.
                  (case out_file oo of
                     Some f \<Rightarrow> (None, AList.update (f @ ''.map'') (File ''{}'')
                                         (AList.update f (File c) tree'))
                   | None \<Rightarrow> (Some TypeError, tree'))) \<rparr>
      | _ \<Rightarrow> Inl (PipelineFault ''Could not resolve entry module''))"

definition example_host :: host where
  "example_host =
     \<lparr> resolve = example_resolve,
       join = (\<lambda>a b. a @ ''/'' @ b),
       dirname = example_dirname,
       tmpdir = ''/tmp'',
       process_cwd = ''/proj'',
       mkdtemp_suffix = (\<lambda>w. ''Ab12Cd''),
       rollup = echo_rollup,
       JSON_parse_tests = (\<lambda>text. Inl SyntaxError),
       undefined_data = Inr ''undefined'',
       stack_frames = 100 \<rparr>"

definition failing_host :: host where
  "failing_host =
     example_host\<lparr> rollup := (\<lambda>io tree. Inl (PipelineFault ''Unexpected token'')) \<rparr>"

definition example_world :: world where
  "example_world =
     \<lparr> fs = [(''/'', Dir), (''/tmp'', Dir), (''/proj'', Dir),
             (''/proj/a.js'', File ''a.b;''), (''/proj/b.js'', File '''')],
       console = [],
       journal = [] \<rparr>"

definition default_options :: "string list \<Rightarrow> CheckSideEffectsOptions" where
  "default_options ms =
     \<lparr> cwd = None, esModules = ms, output_target = None, propertyReadSideEffects = None,
       globalDefs = None, sideEffectFreeModules = None, resolveExternals = None,
       printDependencies = None, useBuildOptimizer = None, useMinifier = None,
       warnings = None \<rparr>"

text \<open>
  The same host with a \<open>resolve\<close> that joins with a backslash, as on Windows.
\<close>

definition backslash_host :: host where
  "backslash_host =
     example_host\<lparr> resolve := (\<lambda>base p.
        if take 1 p = ''/'' then p
        else if take 2 p = ''./'' then base @ [CHR 0x5C] @ drop 2 p
        else base @ [CHR 0x5C] @ p) \<rparr>"

text \<open>
  A project with a test file and one stored baseline, the command line
  \<open>--cwd /proj --test tests.json\<close>, and hosts whose \<open>JSON.parse\<close> yields a given suite.
  The first test matches its baseline; the second has none yet, two directories deep; the
  last two share one baseline path.
\<close>

definition example_cli :: ParsedCliOptions where
  "example_cli =
     \<lparr> arg_help = False, arg_cwd = ''/proj'', arg_output = None, arg_pureGetters = False,
       arg_resolveExternals = False, arg_printDependencies = False,
       arg_useBuildOptimizer = True, arg_useMinifier = True, arg_warnings = False,
       arg_test = Some ''tests.json'', arg_update = False,
       arg_positional = [''node'', ''cli.js''] \<rparr>"

definition test_a :: Test where
  "test_a = \<lparr> test_esModules = Inl ''a.js'', test_options = None,
              expectedOutput = ''expected/a.txt'' \<rparr>"

definition test_b :: Test where
  "test_b = \<lparr> test_esModules = Inr [''a.js'', ''./b.js''], test_options = None,
              expectedOutput = ''new/out/b.txt'' \<rparr>"

definition test_c :: Test where
  "test_c = \<lparr> test_esModules = Inl ''a.js'', test_options = None,
              expectedOutput = ''shared.txt'' \<rparr>"

definition test_d :: Test where
  "test_d = \<lparr> test_esModules = Inl ''b.js'', test_options = None,
              expectedOutput = ''shared.txt'' \<rparr>"

definition suite_host :: "Test list \<Rightarrow> host" where
  "suite_host tests = example_host\<lparr> JSON_parse_tests := (\<lambda>text. Inr tests) \<rparr>"

definition suite_tree :: "(path \<times> entry) list" where
  "suite_tree =
     [(''/'', Dir), (''/tmp'', Dir), (''/proj'', Dir),
      (''/proj/a.js'', File ''a.b;''), (''/proj/b.js'', File ''''),
      (''/proj/tests.json'', File ''{}''), (''/proj/expected'', Dir),
      (''/proj/expected/a.txt'',
         File (''import '' @ [CHR 0x27] @ ''/proj/a.js'' @ [CHR 0x27] @ '';''))]"

definition suite_world :: world where
  "suite_world = \<lparr> fs = suite_tree, console = [], journal = [] \<rparr>"

text \<open>
  A bundler whose residual code depends on the text of the modules: it reads the import
  lines of its entry file and returns the texts of the imported modules, one after the
  other, as the one chunk (nothing is shaken off). \<open>reading_host\<close> is the example host with
  this bundler.
\<close>

fun split_on :: "char \<Rightarrow> string \<Rightarrow> string list" where
  "split_on c [] = [[]]"
| "split_on c (x # xs) =
     (if x = c then [] # split_on c xs
      else (case split_on c xs of [] \<Rightarrow> [[x]] | l # ls \<Rightarrow> (x # l) # ls))"

text \<open>
  An import line is \<open>import '<path>';\<close>: eight characters before the path and two after it.
\<close>

definition imported_paths :: "string \<Rightarrow> path list" where
  "imported_paths src =
     map (\<lambda>l. take (length l - 10) (drop 8 l))
       (filter (\<lambda>l. l \<noteq> []) (split_on (CHR 0x0A) src))"

definition module_text :: "(path \<times> entry) list \<Rightarrow> path \<Rightarrow> string option" where
  "module_text tree m = (case map_of tree m of Some (File c) \<Rightarrow> Some c | _ \<Rightarrow> None)"

definition reading_rollup :: "input_options \<Rightarrow> (path \<times> entry) list \<Rightarrow> error + rollup_bundle" where
  "reading_rollup io tree =
     (case map_of tree (input io) of
        Some (File src) \<Rightarrow>
          (case those (map (module_text tree) (imported_paths src)) of
             Some texts \<Rightarrow>
               Inr \<lparr> watchFiles = input io # imported_paths src,
                     generate = (\<lambda>oo. Inr [OutputChunk (concat texts)]),
                     bundle_write = (\<lambda>oo tree'.
                       (case out_file oo of
                          Some f \<Rightarrow> (None, AList.update (f @ ''.map'') (File ''{}'')
                                              (AList.update f (File (concat texts)) tree'))
                        | None \<Rightarrow> (Some TypeError, tree'))) \<rparr>
           | None \<Rightarrow> Inl (PipelineFault ''Could not resolve import''))
      | _ \<Rightarrow> Inl (PipelineFault ''Could not resolve entry module''))"

definition reading_host :: "Test list \<Rightarrow> host" where
  "reading_host tests = (suite_host tests)\<lparr> rollup := reading_rollup \<rparr>"

text \<open>
  Further tests for the project above: one that asks for the bundle on disk, one whose
  expected-output path lies below a file, one with an empty module whose expected-output
  path is the directory of the next one's, one whose expected-output file is a module that
  another one reads, one whose expected-output path is the scratch entry file, and one
  whose expected-output path has no existing ancestor once the root is taken away.
\<close>

definition test_on_disk :: Test where
  "test_on_disk =
     \<lparr> test_esModules = Inl ''a.js'',
       test_options = Some \<lparr> cli_cwd = None, cli_output = Some ''out.js'', cli_pureGetters = None,
                             cli_resolveExternals = None, cli_printDependencies = None,
                             cli_useBuildOptimizer = None, cli_useMinifier = None,
                             cli_warnings = None \<rparr>,
       expectedOutput = ''expected/e.txt'' \<rparr>"

definition test_under_file :: Test where
  "test_under_file = \<lparr> test_esModules = Inl ''a.js'', test_options = None,
                       expectedOutput = ''a.js/f.txt'' \<rparr>"

definition test_empty :: Test where
  "test_empty = \<lparr> test_esModules = Inl ''b.js'', test_options = None,
                  expectedOutput = ''out'' \<rparr>"

definition test_below :: Test where
  "test_below = \<lparr> test_esModules = Inl ''a.js'', test_options = None,
                  expectedOutput = ''out/h.txt'' \<rparr>"

definition test_reads_b :: Test where
  "test_reads_b = \<lparr> test_esModules = Inl ''b.js'', test_options = None,
                    expectedOutput = ''expected/i.txt'' \<rparr>"

definition test_writes_b :: Test where
  "test_writes_b = \<lparr> test_esModules = Inl ''a.js'', test_options = None,
                     expectedOutput = ''b.js'' \<rparr>"

definition test_in_scratch :: Test where
  "test_in_scratch = \<lparr> test_esModules = Inl ''a.js'', test_options = None,
                       expectedOutput = ''/tmp/check-side-effects-Ab12Cd/index.js'' \<rparr>"

definition test_unrooted :: Test where
  "test_unrooted = \<lparr> test_esModules = Inl ''a.js'', test_options = None,
                     expectedOutput = ''/mnt/u.txt'' \<rparr>"

section \<open>Properties of the rule\<close>

lemma cb_never_truthy:
  "fst (cb n failures) = None"
  "fst (forEachChild_cb cs failures) = None"
  by (induction n failures and cs failures rule: cb_forEachChild_cb.induct)
     (auto simp: Let_def split: prod.splits option.splits)

lemma walk_appends:
  "snd (cb n failures) =
     failures @ map failure_at (filter isAccessExpression (toplevel_nodes n))"
  "snd (forEachChild_cb cs failures) =
     failures @ map failure_at (filter isAccessExpression (toplevel_nodes_list cs))"
proof (induction n failures and cs failures rule: cb_forEachChild_cb.induct)
  case (1 k s e cs failures)
  then show ?case
    by (simp add: Let_def addFailureAtNode_def failure_at_def FAILURE_STRING_def)
next
  case (2 failures)
  then show ?case by simp
next
  case (3 c cs failures)
  obtain r failures' where c: "cb c failures = (r, failures')"
    by (cases "cb c failures")
  with cb_never_truthy(1)[of c failures] have r: "r = None" by simp
  from 3 c r show ?case by simp
qed

text \<open>
  C3. The walk stops at a definition construct (function declaration or expression, class
  declaration or expression, arrow function, method declaration, interface declaration):
  whatever its subtree holds, the callback returns at once with the failures it was given,
  so no failure is recorded for any node below it. The module \<open>function f() { a.b; }\<close> yields
  no failure.
\<close>

theorem definition_construct_not_entered:
  "(k \<in> {FunctionDeclaration, FunctionExpression, ClassDeclaration, ClassExpression,
          ArrowFunction, MethodDeclaration, InterfaceDeclaration}
      \<longrightarrow> cb (Node k s e subtree) failures = (None, failures))
   \<and> walk module_function_only = []
   \<and> apply_rule [] module_function_only = []"
  by (auto simp: isDefinitionConstruct_def walk_def apply_rule_def module_function_only_def)

theorem definition_construct_not_entered_witness:
  "ArrowFunction \<in> {FunctionDeclaration, FunctionExpression, ClassDeclaration, ClassExpression,
          ArrowFunction, MethodDeclaration, InterfaceDeclaration}
   \<and> cb (Node ArrowFunction 4 20
            [Node PropertyAccessExpression 10 13 [], Node ElementAccessExpression 14 18 []])
         [RuleFailure 0 3 ''Avoid toplevel property access.'']
       = (None, [RuleFailure 0 3 ''Avoid toplevel property access.''])"
  using definition_construct_not_entered
    [of ArrowFunction 4 20
        "[Node PropertyAccessExpression 10 13 [], Node ElementAccessExpression 14 18 []]"
        "[RuleFailure 0 3 ''Avoid toplevel property access.'']"]
  by simp

text \<open>
  C4. The failures of a file are, in traversal order, exactly one failure per property-access
  or element-access node that is not inside a definition construct, each at that node's
  span and with the message "Avoid toplevel property access."; the walk goes on below such
  a node, so \<open>a.b.c;\<close> yields two failures, one for \<open>a.b.c\<close> and one for \<open>a.b\<close>.
\<close>

theorem one_failure_per_toplevel_access:
  "walk sf =
     map (\<lambda>n. RuleFailure (node_start n) (node_end n) ''Avoid toplevel property access.'')
       (filter (\<lambda>n. kind n = PropertyAccessExpression \<or> kind n = ElementAccessExpression)
          (toplevel_nodes_list (children (root sf))))
   \<and> walk module_chained_access =
       [RuleFailure 0 5 ''Avoid toplevel property access.'',
        RuleFailure 0 3 ''Avoid toplevel property access.'']"
proof -
  have a: "isAccessExpression =
             (\<lambda>n. kind n = PropertyAccessExpression \<or> kind n = ElementAccessExpression)"
    by (rule ext) (simp add: isAccessExpression_def)
  have b: "failure_at =
             (\<lambda>n. RuleFailure (node_start n) (node_end n) ''Avoid toplevel property access.'')"
    by (rule ext) (simp add: failure_at_def)
  have "walk sf = map failure_at (filter isAccessExpression
                    (toplevel_nodes_list (children (root sf))))"
    by (simp add: walk_def walk_appends(2))
  moreover have "walk module_chained_access =
       [RuleFailure 0 5 ''Avoid toplevel property access.'',
        RuleFailure 0 3 ''Avoid toplevel property access.'']"
    by (simp add: walk_def module_chained_access_def isDefinitionConstruct_def
          isAccessExpression_def addFailureAtNode_def FAILURE_STRING_def Let_def)
  ultimately show ?thesis
    by (simp add: a b)
qed

section \<open>Properties of the checker\<close>

lemma lookup_unlinkSync:
  "unlinkSync p w = (Inr u, w') \<Longrightarrow> lookup w' q = (if q = p then None else lookup w q)"
  by (auto simp: unlinkSync_def lookup_def delete_conv split: option.splits entry.splits)

lemma lookup_rmdirSync:
  "rmdirSync h p w = (Inr u, w') \<Longrightarrow> lookup w' q = (if q = p then None else lookup w q)"
  by (auto simp: rmdirSync_def lookup_def delete_conv split: option.splits entry.splits if_splits)

lemma lookup_console_log [simp]: "lookup (console_log s w) q = lookup w q"
  by (simp add: console_log_def lookup_def)

lemma journal_console_log [simp]: "journal (console_log s w) = journal w"
  by (simp add: console_log_def)

lemma fs_console_log [simp]: "fs (console_log s w) = fs w"
  by (simp add: console_log_def)

lemma journal_foldl_console_log [simp]:
  "journal (foldl (\<lambda>w' f. console_log f w') w fs') = journal w"
  by (induction fs' arbitrary: w) simp_all

lemma fs_foldl_console_log [simp]:
  "fs (foldl (\<lambda>w' f. console_log f w') w fs') = fs w"
  by (induction fs' arbitrary: w) simp_all

lemma mkdtempSync_Inr:
  "mkdtempSync h pre w = (Inr d, w1) \<Longrightarrow>
     d = pre @ mkdtemp_suffix h w \<and> journal w1 = journal w @ [Mkdtemp d] \<and>
     console w1 = console w \<and> fs w1 = AList.update d Dir (fs w) \<and> lookup w d = None"
  by (auto simp: mkdtempSync_def Let_def existsSync_def
           split: if_splits option.splits entry.splits)

lemma writeFileSync_Inr:
  "writeFileSync h p c w = (Inr u, w1) \<Longrightarrow>
     journal w1 = journal w @ [WriteFile p c] \<and> console w1 = console w \<and>
     fs w1 = AList.update p (File c) (fs w)"
  by (auto simp: writeFileSync_def split: option.splits entry.splits)

lemma unlinkSync_Inr:
  "unlinkSync p w = (Inr u, w1) \<Longrightarrow>
     journal w1 = journal w @ [Unlink p] \<and> console w1 = console w \<and>
     fs w1 = AList.delete p (fs w)"
  by (auto simp: unlinkSync_def split: option.splits entry.splits)

lemma rmdirSync_Inr:
  "rmdirSync h p w = (Inr u, w1) \<Longrightarrow>
     journal w1 = journal w @ [Rmdir p] \<and> console w1 = console w \<and>
     fs w1 = AList.delete p (fs w)"
  by (auto simp: rmdirSync_def split: option.splits entry.splits if_splits)

lemma checkSideEffects_returns:
  assumes "checkSideEffects h opts w = (Inr r, w')"
  obtains w1 w2 b w3 outputs w4 w5 w6 d where
    "missingModules h opts w = []"
    "mkdtempSync h (join h (tmpdir h) ''check-side-effects-'') w = (Inr d, w1)"
    "writeFileSync h (resolve h d ''./index.js'') (entrySource (resolvedEsModules h opts)) w1 = (Inr (), w2)"
    "rollup h (inputOptions opts (resolve h d ''./index.js'')) (fs w2) = Inr b"
    "w3 = (if withDefault False (printDependencies opts)
           then foldl (\<lambda>w' f. console_log f w') w2 (watchFiles b) else w2)"
    "case outputFilePath h opts of
       Some out \<Rightarrow> \<exists>fs'. bundle_write b (outputOptions h opts) (fs w3) = (None, fs') \<and> outputs = None \<and>
                  w4 = w3\<lparr>fs := fs', journal := journal w3 @ [BundleWrite (Some out)]\<rparr>
     | None \<Rightarrow> \<exists>outs. generate b (outputOptions h opts) = Inr outs \<and> outputs = Some outs \<and> w4 = w3"
    "unlinkSync (resolve h d ''./index.js'') w4 = (Inr (), w5)"
    "rmdirSync h d w5 = (Inr (), w6)"
    "case outputs of None \<Rightarrow> r = None \<and> w' = console_log sourceMapInstructions w6
       | Some outs \<Rightarrow> r = Some (chunkCode outs) \<and> w' = w6"
  using assms unfolding checkSideEffects_def
  by (auto simp: Let_def split: if_splits prod.splits sum.splits option.splits)

lemma checkSideEffects_release:
  assumes "checkSideEffects h opts w = (Inr r, w')"
  shows "\<not> existsSync w' (join h (tmpdir h) ''check-side-effects-'' @ mkdtemp_suffix h w) \<and>
         \<not> existsSync w'
             (resolve h (join h (tmpdir h) ''check-side-effects-'' @ mkdtemp_suffix h w)
                ''./index.js'') \<and>
         (\<exists>mid. journal w' =
            journal w @
            [Mkdtemp (join h (tmpdir h) ''check-side-effects-'' @ mkdtemp_suffix h w)] @ mid @
            [Unlink (resolve h (join h (tmpdir h) ''check-side-effects-'' @ mkdtemp_suffix h w)
                       ''./index.js''),
             Rmdir (join h (tmpdir h) ''check-side-effects-'' @ mkdtemp_suffix h w)])"
proof -
  from assms obtain w1 w2 b w3 outputs w4 w5 w6 d where
    mm: "missingModules h opts w = []"
    and mk: "mkdtempSync h (join h (tmpdir h) ''check-side-effects-'') w = (Inr d, w1)"
    and wr: "writeFileSync h (resolve h d ''./index.js'') (entrySource (resolvedEsModules h opts)) w1 = (Inr (), w2)"
    and ro: "rollup h (inputOptions opts (resolve h d ''./index.js'')) (fs w2) = Inr b"
    and w3: "w3 = (if withDefault False (printDependencies opts)
           then foldl (\<lambda>w' f. console_log f w') w2 (watchFiles b) else w2)"
    and out: "case outputFilePath h opts of
       Some out \<Rightarrow> \<exists>fs'. bundle_write b (outputOptions h opts) (fs w3) = (None, fs') \<and> outputs = None \<and>
                  w4 = w3\<lparr>fs := fs', journal := journal w3 @ [BundleWrite (Some out)]\<rparr>
     | None \<Rightarrow> \<exists>outs. generate b (outputOptions h opts) = Inr outs \<and> outputs = Some outs \<and> w4 = w3"
    and un: "unlinkSync (resolve h d ''./index.js'') w4 = (Inr (), w5)"
    and rm: "rmdirSync h d w5 = (Inr (), w6)"
    and fin: "case outputs of None \<Rightarrow> r = None \<and> w' = console_log sourceMapInstructions w6
       | Some outs \<Rightarrow> r = Some (chunkCode outs) \<and> w' = w6"
    by (rule checkSideEffects_returns)
  let ?f = "resolve h d ''./index.js''"
  from mkdtempSync_Inr[OF mk] have d: "d = join h (tmpdir h) ''check-side-effects-'' @ mkdtemp_suffix h w"
    and j1: "journal w1 = journal w @ [Mkdtemp d]" by simp_all
  from writeFileSync_Inr[OF wr] have j2: "journal w2 = journal w1 @ [WriteFile ?f (entrySource (resolvedEsModules h opts))]"
    by simp
  from w3 have j3: "journal w3 = journal w2" by simp
  from out j3 obtain m4 where j4: "journal w4 = journal w2 @ m4"
    by (cases "outputFilePath h opts") auto
  from unlinkSync_Inr[OF un] have j5: "journal w5 = journal w4 @ [Unlink ?f]" by simp
  from rmdirSync_Inr[OF rm] have j6: "journal w6 = journal w5 @ [Rmdir d]" by simp
  from fin have l: "\<And>q. lookup w' q = lookup w6 q" and j7: "journal w' = journal w6"
    by (cases outputs; simp)+
  have "lookup w6 d = None" using lookup_rmdirSync[OF rm, of d] by simp
  moreover have "lookup w6 ?f = None"
    using lookup_rmdirSync[OF rm, of ?f] lookup_unlinkSync[OF un, of ?f] by simp
  moreover have "journal w' = journal w @ [Mkdtemp d] @
      ([WriteFile ?f (entrySource (resolvedEsModules h opts))] @ m4) @ [Unlink ?f, Rmdir d]"
    by (simp add: j7 j6 j5 j4 j2 j1)
  ultimately show ?thesis
    unfolding existsSync_def l d[symmetric] by blast
qed

text \<open>
  C1, as amended. Whenever \<open>checkSideEffects\<close> returns, in either output mode, the
  scratch directory it made and the entry file in it no longer exist, and the journal shows
  the directory made first and the file and the directory removed last; and when a module
  reference is missing, the world is left as it was. (Nothing is said here of an invocation
  in which the bundler raises: see the counterexample below.)
\<close>

theorem scratch_entry_released_on_return:
  assumes "checkSideEffects h opts w = (r, w')"
  shows "(missingModules h opts w \<noteq> [] \<longrightarrow> w' = w) \<and>
         ((\<exists>x. r = Inr x) \<longrightarrow>
            \<not> existsSync w' (join h (tmpdir h) ''check-side-effects-'' @ mkdtemp_suffix h w) \<and>
            \<not> existsSync w'
                (resolve h (join h (tmpdir h) ''check-side-effects-'' @ mkdtemp_suffix h w)
                   ''./index.js'') \<and>
            (\<exists>mid. journal w' =
               journal w @
               [Mkdtemp (join h (tmpdir h) ''check-side-effects-'' @ mkdtemp_suffix h w)] @ mid @
               [Unlink (resolve h (join h (tmpdir h) ''check-side-effects-'' @ mkdtemp_suffix h w)
                          ''./index.js''),
                Rmdir (join h (tmpdir h) ''check-side-effects-'' @ mkdtemp_suffix h w)]))"
proof (rule conjI)
  show "missingModules h opts w \<noteq> [] \<longrightarrow> w' = w"
  proof (rule impI)
    assume "missingModules h opts w \<noteq> []"
    then have "checkSideEffects h opts w =
                 (Inl (Thrown (missingModulesMessage (missingModules h opts w))), w)"
      by (simp add: checkSideEffects_def)
    with assms show "w' = w" by simp
  qed
next
  show "(\<exists>x. r = Inr x) \<longrightarrow>
            \<not> existsSync w' (join h (tmpdir h) ''check-side-effects-'' @ mkdtemp_suffix h w) \<and>
            \<not> existsSync w'
                (resolve h (join h (tmpdir h) ''check-side-effects-'' @ mkdtemp_suffix h w)
                   ''./index.js'') \<and>
            (\<exists>mid. journal w' =
               journal w @
               [Mkdtemp (join h (tmpdir h) ''check-side-effects-'' @ mkdtemp_suffix h w)] @ mid @
               [Unlink (resolve h (join h (tmpdir h) ''check-side-effects-'' @ mkdtemp_suffix h w)
                          ''./index.js''),
                Rmdir (join h (tmpdir h) ''check-side-effects-'' @ mkdtemp_suffix h w)])"
  proof (rule impI)
    assume "\<exists>x. r = Inr x"
    then obtain x where "r = Inr x" by blast
    with assms have "checkSideEffects h opts w = (Inr x, w')" by simp
    then show "\<not> existsSync w' (join h (tmpdir h) ''check-side-effects-'' @ mkdtemp_suffix h w) \<and>
            \<not> existsSync w'
                (resolve h (join h (tmpdir h) ''check-side-effects-'' @ mkdtemp_suffix h w)
                   ''./index.js'') \<and>
            (\<exists>mid. journal w' =
               journal w @
               [Mkdtemp (join h (tmpdir h) ''check-side-effects-'' @ mkdtemp_suffix h w)] @ mid @
               [Unlink (resolve h (join h (tmpdir h) ''check-side-effects-'' @ mkdtemp_suffix h w)
                          ''./index.js''),
                Rmdir (join h (tmpdir h) ''check-side-effects-'' @ mkdtemp_suffix h w)])"
      by (rule checkSideEffects_release)
  qed
qed

lemmas example_defs =
  example_host_def failing_host_def backslash_host_def example_world_def default_options_def
  example_resolve_def example_dirname_def echo_rollup_def

lemmas checker_defs =
  checkSideEffects_def missingModules_def resolvedEsModules_def cwdOf_def withDefault_def
  replace_backslashes_def existsSync_def lookup_def mkdtempSync_def writeFileSync_def
  unlinkSync_def rmdirSync_def hasChildren_def entrySource_def inputOptions_def
  outputOptions_def outputFilePath_def truthy_def chunkCode_def console_log_def
  terserConfig_def missingModulesMessage_def

theorem scratch_entry_released_on_return_witness:
  "fst (checkSideEffects example_host (default_options [''a.js'', ''./b.js'']) example_world) =
     Inr (Some (''import '' @ [CHR 0x27] @ ''/proj/a.js'' @ [CHR 0x27] @ '';'' @ [CHR 0x0A] @
                ''import '' @ [CHR 0x27] @ ''/proj/b.js'' @ [CHR 0x27] @ '';'')) \<and>
   \<not> existsSync
       (snd (checkSideEffects example_host (default_options [''a.js'', ''./b.js'']) example_world))
       ''/tmp/check-side-effects-Ab12Cd'' \<and>
   \<not> existsSync
       (snd (checkSideEffects example_host (default_options [''a.js'', ''./b.js'']) example_world))
       ''/tmp/check-side-effects-Ab12Cd/index.js''"
proof -
  let ?run = "checkSideEffects example_host (default_options [''a.js'', ''./b.js'']) example_world"
  have r: "fst ?run =
     Inr (Some (''import '' @ [CHR 0x27] @ ''/proj/a.js'' @ [CHR 0x27] @ '';'' @ [CHR 0x0A] @
                ''import '' @ [CHR 0x27] @ ''/proj/b.js'' @ [CHR 0x27] @ '';''))"
    by (simp add: example_defs checker_defs Let_def)
  have "?run = (fst ?run, snd ?run)" by simp
  from scratch_entry_released_on_return[OF this] r show ?thesis
    by (simp add: example_host_def example_resolve_def)
qed

text \<open>
  C1 as stated fails: when the bundler raises, \<open>checkSideEffects\<close> throws with the scratch
  directory and the entry file still in place.
\<close>

theorem scratch_entry_survives_bundler_failure:
  "fst (checkSideEffects failing_host (default_options [''a.js'']) example_world) =
     Inl (PipelineFault ''Unexpected token'') \<and>
   existsSync (snd (checkSideEffects failing_host (default_options [''a.js'']) example_world))
     ''/tmp/check-side-effects-Ab12Cd/index.js'' \<and>
   existsSync (snd (checkSideEffects failing_host (default_options [''a.js'']) example_world))
     ''/tmp/check-side-effects-Ab12Cd'' \<and>
   \<not> existsSync example_world ''/tmp/check-side-effects-Ab12Cd/index.js'' \<and>
   \<not> existsSync example_world ''/tmp/check-side-effects-Ab12Cd''"
  by (simp add: example_defs checker_defs Let_def)

lemma sublist_js_join: "x \<in> set xs \<Longrightarrow> sublist x (js_join sep xs)"
proof (induction sep xs rule: js_join.induct)
  case (1 sep)
  then show ?case by simp
next
  case (2 sep y)
  then show ?case by simp
next
  case (3 sep y z zs)
  show ?case
  proof (cases "x = y")
    case True
    then show ?thesis by (simp add: sublist_append)
  next
    case False
    with 3 have "sublist x (js_join sep (z # zs))" by simp
    then show ?thesis
      unfolding js_join.simps by (metis sublist_append)
  qed
qed

lemma sublist_missingModulesMessage:
  "x \<in> set xs \<Longrightarrow> sublist x (missingModulesMessage xs)"
  unfolding missingModulesMessage_def
  by (meson sublist_js_join sublist_append)

text \<open>
  C2. When at least one module reference does not resolve to an existing file,
  \<open>checkSideEffects\<close> throws one message that joins every missing path with commas, and
  the world is the one it was called in: no directory or file has been made. Every missing
  path occurs in the message.
\<close>

theorem missing_modules_fail_before_entry:
  assumes "\<exists>m\<in>set (esModules opts).
             \<not> existsSync w (replace_backslashes (resolve h (cwdOf h opts) m))"
  shows "checkSideEffects h opts w =
           (Inl (Thrown
              (''Could not find the following modules: '' @
               js_join '',''
                 (filter (\<lambda>p. \<not> existsSync w p)
                    (map (\<lambda>m. replace_backslashes (resolve h (cwdOf h opts) m))
                       (esModules opts))) @
               ''.'' @ [CHR 0x0A] @
               ''Please provide relative/absolute paths to the ES modules you want to check.'')),
            w) \<and>
         (\<forall>m\<in>set (esModules opts).
            \<not> existsSync w (replace_backslashes (resolve h (cwdOf h opts) m)) \<longrightarrow>
            (\<exists>e. fst (checkSideEffects h opts w) = Inl (Thrown e) \<and>
                 sublist (replace_backslashes (resolve h (cwdOf h opts) m)) e))"
proof -
  let ?missing = "missingModules h opts w"
  from assms have ne: "?missing \<noteq> []"
    by (auto simp: missingModules_def resolvedEsModules_def filter_empty_conv)
  then have run: "checkSideEffects h opts w = (Inl (Thrown (missingModulesMessage ?missing)), w)"
    by (simp add: checkSideEffects_def)
  have "\<And>m. m \<in> set (esModules opts) \<Longrightarrow>
          \<not> existsSync w (replace_backslashes (resolve h (cwdOf h opts) m)) \<Longrightarrow>
          sublist (replace_backslashes (resolve h (cwdOf h opts) m)) (missingModulesMessage ?missing)"
    by (rule sublist_missingModulesMessage)
       (auto simp: missingModules_def resolvedEsModules_def)
  with run show ?thesis
    by (simp add: missingModulesMessage_def missingModules_def resolvedEsModules_def)
qed

theorem missing_modules_fail_before_entry_witness:
  "(\<exists>m\<in>set (esModules (default_options [''a.js'', ''./c.js'', ''d.js''])).
      \<not> existsSync example_world
          (replace_backslashes
             (resolve example_host
                (cwdOf example_host (default_options [''a.js'', ''./c.js'', ''d.js''])) m))) \<and>
   checkSideEffects example_host (default_options [''a.js'', ''./c.js'', ''d.js'']) example_world =
     (Inl (Thrown
        (''Could not find the following modules: /proj/c.js,/proj/d.js.'' @ [CHR 0x0A] @
         ''Please provide relative/absolute paths to the ES modules you want to check.'')),
      example_world)"
proof -
  have h: "\<exists>m\<in>set (esModules (default_options [''a.js'', ''./c.js'', ''d.js''])).
      \<not> existsSync example_world
          (replace_backslashes
             (resolve example_host
                (cwdOf example_host (default_options [''a.js'', ''./c.js'', ''d.js''])) m))"
    by (simp add: example_defs checker_defs)
  from missing_modules_fail_before_entry[OF h] h show ?thesis
    by (simp add: example_defs checker_defs)
qed

lemma mkdtempSync_journal:
  "mkdtempSync h pre w = (x, w1) \<Longrightarrow>
     journal w1 = journal w @ (case x of Inr d \<Rightarrow> [Mkdtemp d] | Inl e \<Rightarrow> []) \<and>
     (\<forall>d. x = Inr d \<longrightarrow> d = pre @ mkdtemp_suffix h w)"
  by (auto simp: mkdtempSync_def Let_def split: if_splits option.splits entry.splits)

lemma writeFileSync_journal:
  "writeFileSync h p c w = (x, w1) \<Longrightarrow>
     journal w1 = journal w @ (case x of Inr u \<Rightarrow> [WriteFile p c] | Inl e \<Rightarrow> [])"
  by (auto simp: writeFileSync_def split: option.splits entry.splits)

lemma unlinkSync_journal:
  "unlinkSync p w = (x, w1) \<Longrightarrow>
     journal w1 = journal w @ (case x of Inr u \<Rightarrow> [Unlink p] | Inl e \<Rightarrow> [])"
  by (auto simp: unlinkSync_def split: option.splits entry.splits)

lemma rmdirSync_journal:
  "rmdirSync h p w = (x, w1) \<Longrightarrow>
     journal w1 = journal w @ (case x of Inr u \<Rightarrow> [Rmdir p] | Inl e \<Rightarrow> [])"
  by (auto simp: rmdirSync_def split: option.splits entry.splits if_splits)

lemma checkSideEffects_journal:
  assumes "checkSideEffects h opts w = (r, w')"
  shows "\<exists>evs. journal w' = journal w @ evs \<and>
           (\<forall>p c. WriteFile p c \<in> set evs \<longrightarrow>
              p = resolve h (join h (tmpdir h) ''check-side-effects-'' @ mkdtemp_suffix h w)
                    ''./index.js'' \<and>
              c = entrySource (resolvedEsModules h opts))"
  using assms unfolding checkSideEffects_def
  by (auto simp: Let_def
           dest!: mkdtempSync_journal writeFileSync_journal unlinkSync_journal rmdirSync_journal
           split: if_splits prod.splits sum.splits option.splits)

lemma set_js_join: "set (js_join sep xs) \<subseteq> set sep \<union> \<Union> (set ` set xs)"
  by (induction sep xs rule: js_join.induct) auto

lemma entrySource_no_backslash:
  "CHR 0x5C \<notin> set (entrySource (map replace_backslashes ps))"
proof -
  have "CHR 0x5C \<notin> set [CHR 0x0A] \<union>
          \<Union> (set ` set (map (\<lambda>m. ''import '' @ [CHR 0x27] @ m @ [CHR 0x27] @ '';'')
                             (map replace_backslashes ps)))"
    by (auto simp: replace_backslashes_def)
  with set_js_join show ?thesis
    unfolding entrySource_def by blast
qed

lemma checkSideEffects_returns_journal:
  assumes "checkSideEffects h opts w = (Inr r, w')"
  shows "\<exists>rest. journal w' =
           journal w @
           [Mkdtemp (join h (tmpdir h) ''check-side-effects-'' @ mkdtemp_suffix h w),
            WriteFile
              (resolve h (join h (tmpdir h) ''check-side-effects-'' @ mkdtemp_suffix h w)
                 ''./index.js'')
              (entrySource (resolvedEsModules h opts))] @ rest"
  using assms unfolding checkSideEffects_def
  by (auto simp: Let_def
           dest!: mkdtempSync_journal writeFileSync_journal unlinkSync_journal rmdirSync_journal
           split: if_splits prod.splits sum.splits option.splits)

text \<open>
  C8. The only file \<open>checkSideEffects\<close> itself writes is the entry file in its scratch
  directory, and the text written is one statement \<open>import '<path>';\<close> per module
  reference, in the order given, joined by newlines, where the path is the resolved
  reference with every backslash replaced by a slash; the text holds no backslash. Whenever
  the function returns, that write has taken place.
\<close>

theorem entry_file_one_import_per_module:
  assumes "checkSideEffects h opts w = (r, w')"
  shows "(\<exists>evs. journal w' = journal w @ evs \<and>
            (\<forall>p c. WriteFile p c \<in> set evs \<longrightarrow>
               p = resolve h (join h (tmpdir h) ''check-side-effects-'' @ mkdtemp_suffix h w)
                     ''./index.js'' \<and>
               c = js_join [CHR 0x0A]
                     (map (\<lambda>m. ''import '' @ [CHR 0x27] @
                                 map (\<lambda>c. if c = CHR 0x5C then CHR ''/'' else c)
                                   (resolve h (cwdOf h opts) m) @
                                 [CHR 0x27] @ '';'')
                        (esModules opts))) \<and>
            ((\<exists>x. r = Inr x) \<longrightarrow>
               WriteFile
                 (resolve h (join h (tmpdir h) ''check-side-effects-'' @ mkdtemp_suffix h w)
                    ''./index.js'')
                 (js_join [CHR 0x0A]
                    (map (\<lambda>m. ''import '' @ [CHR 0x27] @
                                map (\<lambda>c. if c = CHR 0x5C then CHR ''/'' else c)
                                  (resolve h (cwdOf h opts) m) @
                                [CHR 0x27] @ '';'')
                       (esModules opts))) \<in> set evs)) \<and>
         CHR 0x5C \<notin> set (js_join [CHR 0x0A]
                    (map (\<lambda>m. ''import '' @ [CHR 0x27] @
                                map (\<lambda>c. if c = CHR 0x5C then CHR ''/'' else c)
                                  (resolve h (cwdOf h opts) m) @
                                [CHR 0x27] @ '';'')
                       (esModules opts)))"
proof -
  let ?f = "resolve h (join h (tmpdir h) ''check-side-effects-'' @ mkdtemp_suffix h w) ''./index.js''"
  let ?src = "entrySource (resolvedEsModules h opts)"
  have src: "?src = js_join [CHR 0x0A]
                    (map (\<lambda>m. ''import '' @ [CHR 0x27] @
                                map (\<lambda>c. if c = CHR 0x5C then CHR ''/'' else c)
                                  (resolve h (cwdOf h opts) m) @
                                [CHR 0x27] @ '';'')
                       (esModules opts))"
    by (simp add: entrySource_def resolvedEsModules_def replace_backslashes_def comp_def)
  from checkSideEffects_journal[OF assms] obtain evs where
    evs: "journal w' = journal w @ evs"
    and only: "\<forall>p c. WriteFile p c \<in> set evs \<longrightarrow> p = ?f \<and> c = ?src"
    by blast
  have "WriteFile ?f ?src \<in> set evs" if "r = Inr x" for x
  proof -
    from assms that have "checkSideEffects h opts w = (Inr x, w')" by simp
    from checkSideEffects_returns_journal[OF this] evs show ?thesis by auto
  qed
  moreover have "CHR 0x5C \<notin> set ?src"
    unfolding resolvedEsModules_def
    using entrySource_no_backslash[of "map (\<lambda>m. resolve h (cwdOf h opts) m) (esModules opts)"]
    by (simp add: comp_def)
  ultimately show ?thesis
    using evs only unfolding src by blast
qed

theorem entry_file_one_import_per_module_witness:
  "fst (checkSideEffects backslash_host (default_options [''a.js'', ''./b.js'']) example_world) =
     Inr (Some (''import '' @ [CHR 0x27] @ ''/proj/a.js'' @ [CHR 0x27] @ '';'' @ [CHR 0x0A] @
                ''import '' @ [CHR 0x27] @ ''/proj/b.js'' @ [CHR 0x27] @ '';'')) \<and>
   resolve backslash_host ''/proj'' ''a.js'' = ''/proj'' @ [CHR 0x5C] @ ''a.js'' \<and>
   WriteFile (''/tmp/check-side-effects-Ab12Cd'' @ [CHR 0x5C] @ ''index.js'')
     (''import '' @ [CHR 0x27] @ ''/proj/a.js'' @ [CHR 0x27] @ '';'' @ [CHR 0x0A] @
      ''import '' @ [CHR 0x27] @ ''/proj/b.js'' @ [CHR 0x27] @ '';'')
     \<in> set (journal (snd (checkSideEffects backslash_host
                               (default_options [''a.js'', ''./b.js'']) example_world)))"
proof -
  let ?run = "checkSideEffects backslash_host (default_options [''a.js'', ''./b.js'']) example_world"
  have r: "fst ?run =
     Inr (Some (''import '' @ [CHR 0x27] @ ''/proj/a.js'' @ [CHR 0x27] @ '';'' @ [CHR 0x0A] @
                ''import '' @ [CHR 0x27] @ ''/proj/b.js'' @ [CHR 0x27] @ '';''))"
    by (simp add: example_defs checker_defs Let_def)
  have run: "?run = (fst ?run, snd ?run)" by simp
  from entry_file_one_import_per_module[OF run] r show ?thesis
    by (auto simp: example_defs cwdOf_def withDefault_def)
qed

text \<open>
  C9. When \<open>checkSideEffects\<close> returns and an output path was given (a non-empty string),
  the value returned is \<open>undefined\<close>; otherwise it is the code of the chunks that
  \<open>generate\<close> produced, assets left out, joined by newlines.
\<close>

theorem residual_text_only_in_memory:
  assumes "checkSideEffects h opts w = (Inr r, w')"
  shows "if \<exists>out. output_target opts = Some out \<and> out \<noteq> []
         then r = None
         else \<exists>io tree b outs.
                rollup h io tree = Inr b \<and> generate b (outputOptions h opts) = Inr outs \<and>
                r = Some (js_join [CHR 0x0A] (map code (filter (\<lambda>c. \<not> isAsset c) outs)))"
proof -
  from assms obtain w1 w2 b w3 outputs w4 w5 w6 d where
    mm: "missingModules h opts w = []"
    and mk: "mkdtempSync h (join h (tmpdir h) ''check-side-effects-'') w = (Inr d, w1)"
    and wr: "writeFileSync h (resolve h d ''./index.js'') (entrySource (resolvedEsModules h opts)) w1 = (Inr (), w2)"
    and ro: "rollup h (inputOptions opts (resolve h d ''./index.js'')) (fs w2) = Inr b"
    and w3: "w3 = (if withDefault False (printDependencies opts)
           then foldl (\<lambda>w' f. console_log f w') w2 (watchFiles b) else w2)"
    and out: "case outputFilePath h opts of
       Some out \<Rightarrow> \<exists>fs'. bundle_write b (outputOptions h opts) (fs w3) = (None, fs') \<and> outputs = None \<and>
                  w4 = w3\<lparr>fs := fs', journal := journal w3 @ [BundleWrite (Some out)]\<rparr>
     | None \<Rightarrow> \<exists>outs. generate b (outputOptions h opts) = Inr outs \<and> outputs = Some outs \<and> w4 = w3"
    and un: "unlinkSync (resolve h d ''./index.js'') w4 = (Inr (), w5)"
    and rm: "rmdirSync h d w5 = (Inr (), w6)"
    and fin: "case outputs of None \<Rightarrow> r = None \<and> w' = console_log sourceMapInstructions w6
       | Some outs \<Rightarrow> r = Some (chunkCode outs) \<and> w' = w6"
    by (rule checkSideEffects_returns)
  show ?thesis
  proof (cases "\<exists>out. output_target opts = Some out \<and> out \<noteq> []")
    case True
    then obtain p where "outputFilePath h opts = Some p"
      by (auto simp: outputFilePath_def truthy_def)
    with out fin True show ?thesis by auto
  next
    case False
    then have "outputFilePath h opts = None"
      by (auto simp: outputFilePath_def truthy_def split: option.splits)
    with out obtain outs where g: "generate b (outputOptions h opts) = Inr outs"
      and o: "outputs = Some outs"
      by auto
    from fin o have "r = Some (js_join [CHR 0x0A] (map code (filter (\<lambda>c. \<not> isAsset c) outs)))"
      by (simp add: chunkCode_def)
    with ro g have "\<exists>io tree b outs.
                rollup h io tree = Inr b \<and> generate b (outputOptions h opts) = Inr outs \<and>
                r = Some (js_join [CHR 0x0A] (map code (filter (\<lambda>c. \<not> isAsset c) outs)))"
      by (intro exI conjI)
    with False show ?thesis by (simp only: if_False)
  qed
qed

theorem residual_text_only_in_memory_witness:
  "fst (checkSideEffects example_host
          ((default_options [''a.js''])\<lparr>output_target := Some ''out.js''\<rparr>) example_world) =
     Inr None \<and>
   fst (checkSideEffects example_host (default_options [''a.js'']) example_world) =
     Inr (Some (''import '' @ [CHR 0x27] @ ''/proj/a.js'' @ [CHR 0x27] @ '';''))"
proof -
  let ?disk = "checkSideEffects example_host
          ((default_options [''a.js''])\<lparr>output_target := Some ''out.js''\<rparr>) example_world"
  let ?mem = "checkSideEffects example_host (default_options [''a.js'']) example_world"
  have m: "fst ?mem = Inr (Some (''import '' @ [CHR 0x27] @ ''/proj/a.js'' @ [CHR 0x27] @ '';''))"
    by (simp add: example_defs checker_defs Let_def)
  have "\<exists>r. fst ?disk = Inr r"
    by (simp add: example_defs checker_defs Let_def)
  then obtain r where r: "?disk = (Inr r, snd ?disk)"
    by (metis prod.collapse)
  from residual_text_only_in_memory[OF r] have "r = None"
    by (simp add: default_options_def)
  with r have "fst ?disk = Inr None"
    by (metis fst_conv)
  with m show ?thesis by simp
qed

section \<open>Properties of the test harness\<close>

lemma loadExpectedOutput_fs:
  "fs w1 = fs w2 \<Longrightarrow> loadExpectedOutput w1 p = loadExpectedOutput w2 p"
  by (simp add: loadExpectedOutput_def existsSync_def readFileSync_def lookup_def)

lemma recursiveMkDir_exists:
  "existsSync w p \<Longrightarrow> recursiveMkDir h (Suc frames) p w = (Inr (), w)"
  by simp

lemma mkdirSync_Inr:
  "lookup w p = None \<Longrightarrow> lookup w (dirname h p) = Some Dir \<Longrightarrow>
   \<exists>w1. mkdirSync h p w = (Inr (), w1) \<and>
        (\<forall>q. lookup w1 q = (if q = p then Some Dir else lookup w q)) \<and>
        console w1 = console w \<and> journal w1 = journal w @ [Mkdir p]"
  by (simp add: mkdirSync_def existsSync_def lookup_def update_conv')

lemma funpow_cycle_contradiction:
  assumes "(f ^^ j) d = d" and "0 < j" and "j \<le> n"
  shows "(f ^^ n) d = (f ^^ (n - j)) d"
proof -
  have "(f ^^ n) d = (f ^^ ((n - j) + j)) d" using assms by simp
  also have "\<dots> = (f ^^ (n - j)) ((f ^^ j) d)" by (simp only: funpow_add o_apply)
  finally show ?thesis using assms by simp
qed

lemma recursiveMkDir_creates:
  assumes "lookup w ((dirname h ^^ n) d) = Some Dir"
    and "\<forall>k<n. lookup w ((dirname h ^^ k) d) = None"
    and "n < frames"
  shows "\<exists>w1. recursiveMkDir h frames d w = (Inr (), w1) \<and>
           (\<forall>q. lookup w1 q =
                 (if \<exists>k<n. q = (dirname h ^^ k) d then Some Dir else lookup w q)) \<and>
           console w1 = console w \<and>
           journal w1 = journal w @ map (\<lambda>k. Mkdir ((dirname h ^^ k) d)) (rev [0..<n])"
  using assms
proof (induction n arbitrary: d frames)
  case 0
  then obtain fr where "frames = Suc fr" by (cases frames) auto
  with 0 show ?case by (simp add: existsSync_def)
next
  case (Suc n)
  then obtain fr where fr: "frames = Suc fr" "n < fr" by (cases frames) auto
  from Suc.prems(2) have dnone: "lookup w d = None" by force
  have a: "lookup w ((dirname h ^^ n) (dirname h d)) = Some Dir"
    using Suc.prems(1) by (simp add: funpow_swap1)
  have b: "\<forall>k<n. lookup w ((dirname h ^^ k) (dirname h d)) = None"
  proof (intro allI impI)
    fix k assume "k < n"
    then have "Suc k < Suc n" by simp
    with Suc.prems(2) have "lookup w ((dirname h ^^ Suc k) d) = None" by blast
    then show "lookup w ((dirname h ^^ k) (dirname h d)) = None" by (simp add: funpow_swap1)
  qed
  from Suc.IH[OF a b fr(2)] obtain w1 where
    r: "recursiveMkDir h fr (dirname h d) w = (Inr (), w1)"
    and l: "\<forall>q. lookup w1 q =
                 (if \<exists>k<n. q = (dirname h ^^ k) (dirname h d) then Some Dir else lookup w q)"
    and c: "console w1 = console w"
    and j: "journal w1 = journal w @ map (\<lambda>k. Mkdir ((dirname h ^^ k) (dirname h d))) (rev [0..<n])"
    by blast
  have notcyc: "\<not> (\<exists>k<n. d = (dirname h ^^ k) (dirname h d))"
  proof
    assume "\<exists>k<n. d = (dirname h ^^ k) (dirname h d)"
    then obtain k where k: "k < n" "d = (dirname h ^^ Suc k) d" by (auto simp: funpow_swap1)
    then have "(dirname h ^^ Suc n) d = (dirname h ^^ (Suc n - Suc k)) d"
      using funpow_cycle_contradiction[where f="dirname h" and j="Suc k" and d=d and n="Suc n"] by simp
    moreover have "Suc n - Suc k < Suc n" by simp
    ultimately have "lookup w ((dirname h ^^ Suc n) d) = None"
      using Suc.prems(2) by metis
    with Suc.prems(1) show False by simp
  qed
  with l dnone have d1: "lookup w1 d = None" by simp
  have p1: "lookup w1 (dirname h d) = Some Dir"
  proof (cases n)
    case 0
    with l a show ?thesis by simp
  next
    case (Suc m)
    then have "\<exists>k<n. dirname h d = (dirname h ^^ k) (dirname h d)"
      by (intro exI[of _ 0]) simp
    with l show ?thesis by simp
  qed
  from mkdirSync_Inr[OF d1 p1] obtain w2 where
    m: "mkdirSync h d w1 = (Inr (), w2)"
    and l2: "\<forall>q. lookup w2 q = (if q = d then Some Dir else lookup w1 q)"
    and c2: "console w2 = console w1"
    and j2: "journal w2 = journal w1 @ [Mkdir d]"
    by blast
  have run: "recursiveMkDir h frames d w = (Inr (), w2)"
    using fr dnone r m by (simp add: existsSync_def)
  have look: "lookup w2 q =
                 (if \<exists>k<Suc n. q = (dirname h ^^ k) d then Some Dir else lookup w q)" for q
  proof -
    have "(\<exists>k<Suc n. q = (dirname h ^^ k) d) \<longleftrightarrow>
          (q = d \<or> (\<exists>k<n. q = (dirname h ^^ k) (dirname h d)))"
    proof
      assume "\<exists>k<Suc n. q = (dirname h ^^ k) d"
      then obtain k where k: "k < Suc n" "q = (dirname h ^^ k) d" by blast
      show "q = d \<or> (\<exists>k<n. q = (dirname h ^^ k) (dirname h d))"
      proof (cases k)
        case 0
        with k show ?thesis by simp
      next
        case (Suc m)
        with k have "m < n" "q = (dirname h ^^ m) (dirname h d)" by (simp_all add: funpow_swap1)
        then show ?thesis by blast
      qed
    next
      assume "q = d \<or> (\<exists>k<n. q = (dirname h ^^ k) (dirname h d))"
      then show "\<exists>k<Suc n. q = (dirname h ^^ k) d"
      proof
        assume "q = d"
        then show ?thesis by (intro exI[of _ 0]) simp
      next
        assume "\<exists>k<n. q = (dirname h ^^ k) (dirname h d)"
        then obtain k where "k < n" "q = (dirname h ^^ k) (dirname h d)" by blast
        then show ?thesis by (intro exI[of _ "Suc k"]) (simp add: funpow_swap1)
      qed
    qed
    with l l2 show ?thesis by auto
  qed
  have jj: "journal w2 = journal w @ map (\<lambda>k. Mkdir ((dirname h ^^ k) d)) (rev [0..<Suc n])"
  proof -
    have "map (\<lambda>k. Mkdir ((dirname h ^^ k) d)) (rev [0..<Suc n]) =
          map (\<lambda>k. Mkdir ((dirname h ^^ k) (dirname h d))) (rev [0..<n]) @ [Mkdir d]"
    proof -
      have "[0..<Suc n] = 0 # map Suc [0..<n]"
        by (simp add: upt_conv_Cons map_Suc_upt del: upt_Suc)
      then show ?thesis
        by (simp add: rev_map funpow_swap1 comp_def del: upt_Suc)
    qed
    with j j2 show ?thesis by simp
  qed
  from run look c c2 jj show ?case by auto
qed

lemma writeFileSync_ok:
  "lookup w p \<noteq> Some Dir \<Longrightarrow> lookup w (dirname h p) = Some Dir \<Longrightarrow>
   \<exists>w1. writeFileSync h p c w = (Inr (), w1) \<and>
        (\<forall>q. lookup w1 q = (if q = p then Some (File c) else lookup w q)) \<and>
        console w1 = console w \<and> journal w1 = journal w @ [WriteFile p c]"
  by (cases "lookup w p")
     (auto simp: writeFileSync_def lookup_def update_conv' split: entry.splits)

lemma runTest_returned:
  assumes "checkSideEffects h (testOptions h options dir t)
             (console_log (''Testing '' @ esModulesDescription t) w) = (Inr result, w2)"
    and "loadExpectedOutput w2 (expectedOutputPath h options t) = Inr e"
  shows "runTest h options dir t failed w =
     (if result \<noteq> Some e then
        (if arg_update options then
           (case recursiveMkDir h (stack_frames h)
                   (dirname h (expectedOutputPath h options t)) w2 of
              (Inl x, w3) \<Rightarrow> (Inl x, w3)
            | (Inr u, w3) \<Rightarrow>
              (case writeResultSync h (expectedOutputPath h options t) result w3 of
                 (Inl x, w4) \<Rightarrow> (Inl x, w4)
               | (Inr u4, w4) \<Rightarrow> (Inr (failed @ [esModulesDescription t]), w4)))
         else (Inr (failed @ [esModulesDescription t]), w2))
      else (Inr failed, w2))"
  using assms by (simp add: runTest_def Let_def)

lemma loadExpectedOutput_missing:
  "\<not> existsSync w p \<Longrightarrow> loadExpectedOutput w p = Inr []"
  by (simp add: loadExpectedOutput_def)

text \<open>
  C7. When a test's expected-output file does not exist once its extraction has returned,
  the harness compares the result with the empty string instead of raising: outside update
  mode the loop goes on to the next test, the case counted as failed exactly when the
  result is not the empty string; in update mode a non-empty result is then written as the
  new baseline (here with the parent directory in place), and an empty one passes.
\<close>

theorem missing_baseline_is_empty_expected:
  assumes "checkSideEffects h (testOptions h options dir t)
             (console_log (''Testing '' @ esModulesDescription t) w) = (Inr result, w2)"
    and "\<not> existsSync w2 (expectedOutputPath h options t)"
  shows "(\<not> arg_update options \<longrightarrow>
            runTests h options dir (t # ts) failed w =
              runTests h options dir ts
                (if result = Some [] then failed else failed @ [esModulesDescription t]) w2) \<and>
         (arg_update options \<and> result = Some [] \<longrightarrow>
            runTests h options dir (t # ts) failed w = runTests h options dir ts failed w2) \<and>
         (arg_update options \<and> 0 < stack_frames h \<and>
          lookup w2 (dirname h (expectedOutputPath h options t)) = Some Dir \<longrightarrow>
            (\<forall>r. result = Some r \<and> r \<noteq> [] \<longrightarrow>
               (\<exists>w4. runTests h options dir (t # ts) failed w =
                       runTests h options dir ts (failed @ [esModulesDescription t]) w4 \<and>
                     readFileSync w4 (expectedOutputPath h options t) = Inr r)))"
proof -
  let ?p = "expectedOutputPath h options t"
  from assms(2) have e: "loadExpectedOutput w2 ?p = Inr []"
    by (rule loadExpectedOutput_missing)
  note step = runTest_returned[OF assms(1) e, of failed]
  have a: "\<not> arg_update options \<Longrightarrow>
            runTests h options dir (t # ts) failed w =
              runTests h options dir ts
                (if result = Some [] then failed else failed @ [esModulesDescription t]) w2"
    by (simp add: step)
  have b: "arg_update options \<and> result = Some [] \<Longrightarrow>
            runTests h options dir (t # ts) failed w = runTests h options dir ts failed w2"
    by (simp add: step)
  have c: "\<exists>w4. runTests h options dir (t # ts) failed w =
                       runTests h options dir ts (failed @ [esModulesDescription t]) w4 \<and>
                     readFileSync w4 ?p = Inr r"
    if up: "arg_update options" and st: "0 < stack_frames h"
      and par: "lookup w2 (dirname h ?p) = Some Dir"
      and r: "result = Some r" "r \<noteq> []" for r
  proof -
    from st obtain fr where fr: "stack_frames h = Suc fr" by (cases "stack_frames h") auto
    from par have mk: "recursiveMkDir h (stack_frames h) (dirname h ?p) w2 = (Inr (), w2)"
      by (simp add: fr existsSync_def)
    from assms(2) have "lookup w2 ?p \<noteq> Some Dir" by (simp add: existsSync_def)
    from writeFileSync_ok[OF this par, of r] obtain w4 where
      wr: "writeFileSync h ?p r w2 = (Inr (), w4)"
      and l: "\<forall>q. lookup w4 q = (if q = ?p then Some (File r) else lookup w2 q)"
      by blast
    from l have "readFileSync w4 ?p = Inr r" by (simp add: readFileSync_def)
    moreover have "runTests h options dir (t # ts) failed w =
                       runTests h options dir ts (failed @ [esModulesDescription t]) w4"
      using up r mk wr by (simp add: step writeResultSync_def)
    ultimately show ?thesis by blast
  qed
  from a b c show ?thesis by blast
qed

text \<open>
  C10. In update mode, a test whose extraction result equals the stored expected text leaves
  the world exactly as the extraction left it and the loop goes on: the harness performs no
  file-tree operation for it. Whatever happens, the only file the harness step can write is
  that test's expected-output path, and only when the result differs.
\<close>

theorem matching_baseline_not_written:
  assumes "arg_update options"
    and "checkSideEffects h (testOptions h options dir t)
           (console_log (''Testing '' @ esModulesDescription t) w) = (Inr result, w2)"
    and "loadExpectedOutput w2 (expectedOutputPath h options t) = Inr e"
  shows "(result = Some e \<longrightarrow>
            runTest h options dir t failed w = (Inr failed, w2) \<and>
            runTests h options dir (t # ts) failed w = runTests h options dir ts failed w2) \<and>
         (journal (snd (runTest h options dir t failed w)) \<noteq> journal w2 \<longrightarrow> result \<noteq> Some e) \<and>
         (\<exists>evs. journal (snd (runTest h options dir t failed w)) = journal w2 @ evs \<and>
            (\<forall>p c. WriteFile p c \<in> set evs \<longrightarrow>
               p = expectedOutputPath h options t \<and> result \<noteq> Some e))"
proof -
  let ?p = "expectedOutputPath h options t"
  note step = runTest_returned[OF assms(2) assms(3), of failed]
  have a: "result = Some e \<Longrightarrow> runTest h options dir t failed w = (Inr failed, w2)"
    by (simp add: step)
  then have b: "result = Some e \<Longrightarrow>
      runTests h options dir (t # ts) failed w = runTests h options dir ts failed w2"
    by simp
  have c: "\<exists>evs. journal (snd (runTest h options dir t failed w)) = journal w2 @ evs \<and>
            (\<forall>p c. WriteFile p c \<in> set evs \<longrightarrow> p = ?p \<and> result \<noteq> Some e)"
  proof (cases "result = Some e")
    case True
    with a show ?thesis by simp
  next
    case False
    have mkj: "\<exists>evs. journal w3 = journal w0 @ evs \<and> (\<forall>p c. WriteFile p c \<notin> set evs)"
      if "recursiveMkDir h fr d w0 = (x, w3)" for fr d w0 x w3
      using that
    proof (induction fr arbitrary: d w0 x w3)
      case 0
      then show ?case by simp
    next
      case (Suc fr)
      show ?case
      proof (cases "existsSync w0 d")
        case True
        with Suc.prems show ?thesis by simp
      next
        case ne: False
        obtain y w1 where r: "recursiveMkDir h fr (dirname h d) w0 = (y, w1)"
          by (cases "recursiveMkDir h fr (dirname h d) w0")
        from Suc.IH[OF r] obtain evs where
          evs: "journal w1 = journal w0 @ evs" "\<forall>p c. WriteFile p c \<notin> set evs" by blast
        show ?thesis
        proof (cases y)
          case (Inl err)
          with Suc.prems ne r evs show ?thesis by auto
        next
          case (Inr u)
          with Suc.prems ne r have m: "mkdirSync h d w1 = (x, w3)" by simp
          then have "journal w3 = journal w1 \<or> journal w3 = journal w1 @ [Mkdir d]"
            by (auto simp: mkdirSync_def split: if_splits option.splits entry.splits)
          with evs show ?thesis by auto
        qed
      qed
    qed
    obtain x w3 where mk: "recursiveMkDir h (stack_frames h) (dirname h ?p) w2 = (x, w3)"
      by (cases "recursiveMkDir h (stack_frames h) (dirname h ?p) w2")
    from mkj[OF mk] obtain evs where
      evs: "journal w3 = journal w2 @ evs" "\<forall>p c. WriteFile p c \<notin> set evs" by blast
    show ?thesis
    proof (cases x)
      case (Inl err)
      with False assms(1) mk evs show ?thesis by (auto simp: step)
    next
      case (Inr u)
      obtain y w4 where wr: "writeResultSync h ?p result w3 = (y, w4)"
        by (cases "writeResultSync h ?p result w3")
      then have "\<exists>c. journal w4 = journal w3 \<or> journal w4 = journal w3 @ [WriteFile ?p c]"
        by (auto simp: writeResultSync_def writeFileSync_def
                 split: option.splits entry.splits sum.splits)
      then obtain c where "journal w4 = journal w3 \<or> journal w4 = journal w3 @ [WriteFile ?p c]"
        by blast
      moreover have "snd (runTest h options dir t failed w) = w4"
        using False assms(1) mk Inr wr by (cases y) (simp_all add: step)
      ultimately show ?thesis using evs False by auto
    qed
  qed
  have d: "journal (snd (runTest h options dir t failed w)) \<noteq> journal w2 \<Longrightarrow> result \<noteq> Some e"
    using a by auto
  from a b c d show ?thesis by blast
qed

lemma runTests_compare_only:
  assumes nup: "\<not> arg_update options"
    and ext: "\<forall>t\<in>set tests. \<forall>w1. fs w1 = tree \<longrightarrow>
                (\<exists>w2. checkSideEffects h (testOptions h options dir t) w1 = (Inr (res t), w2) \<and>
                      fs w2 = tree)"
    and base: "\<forall>t\<in>set tests. \<forall>w1. fs w1 = tree \<longrightarrow>
                 loadExpectedOutput w1 (expectedOutputPath h options t) = Inr (base t)"
    and w0: "fs w0 = tree"
  shows "\<exists>w'. runTests h options dir tests failed w0 =
                (Inr (failed @ map esModulesDescription
                                 (filter (\<lambda>t. res t \<noteq> Some (base t)) tests)), w') \<and>
              fs w' = tree"
  using ext base w0
proof (induction tests arbitrary: failed w0)
  case Nil
  then show ?case by simp
next
  case (Cons t ts)
  let ?w1 = "console_log (''Testing '' @ esModulesDescription t) w0"
  from Cons.prems(3) have "fs ?w1 = tree" by simp
  with Cons.prems(1) obtain w2 where
    c: "checkSideEffects h (testOptions h options dir t) ?w1 = (Inr (res t), w2)"
    and f2: "fs w2 = tree"
    by (metis list.set_intros(1))
  from Cons.prems(2) f2 have e: "loadExpectedOutput w2 (expectedOutputPath h options t) = Inr (base t)"
    by simp
  have step: "runTest h options dir t failed w0 =
                (Inr (if res t \<noteq> Some (base t) then failed @ [esModulesDescription t] else failed), w2)"
    using nup by (simp add: runTest_returned[OF c e])
  have ext': "\<forall>t\<in>set ts. \<forall>w1. fs w1 = tree \<longrightarrow>
                (\<exists>w2. checkSideEffects h (testOptions h options dir t) w1 = (Inr (res t), w2) \<and>
                      fs w2 = tree)"
    using Cons.prems(1) by simp
  have base': "\<forall>t\<in>set ts. \<forall>w1. fs w1 = tree \<longrightarrow>
                 loadExpectedOutput w1 (expectedOutputPath h options t) = Inr (base t)"
    using Cons.prems(2) by simp
  show ?case
  proof (cases "res t \<noteq> Some (base t)")
    case True
    from Cons.IH[OF ext' base' f2, of "failed @ [esModulesDescription t]"] step True
    show ?thesis by simp
  next
    case False
    from Cons.IH[OF ext' base' f2, of failed] step False
    show ?thesis by simp
  qed
qed

text \<open>
  C5. Outside update mode, for a suite in which every extraction returns (with result
  \<open>res t\<close>, leaving the file tree as it found it) and every baseline can be loaded (as
  \<open>base t\<close>), every test is run, and the batch throws if and only if some result differs
  from its baseline; the message then lists the descriptions of exactly the mismatching
  tests, in order. If none mismatches, \<open>main\<close> returns.
\<close>

theorem batch_fails_iff_some_mismatch:
  assumes "\<not> arg_update options" and "\<not> arg_help options"
    and "arg_test options = Some tf" and "tf \<noteq> []"
    and "readFileSync w (resolve h (arg_cwd options) tf) = Inr text"
    and "JSON_parse_tests h text = Inr tests"
    and "\<forall>t\<in>set tests. \<forall>w1. fs w1 = fs w \<longrightarrow>
           (\<exists>w2. checkSideEffects h
                   (testOptions h options (dirname h (resolve h (arg_cwd options) tf)) t) w1 =
                   (Inr (res t), w2) \<and>
                 fs w2 = fs w)"
    and "\<forall>t\<in>set tests. loadExpectedOutput w (expectedOutputPath h options t) = Inr (base t)"
  shows "fst (main h options w) =
           (if \<forall>t\<in>set tests. res t = Some (base t) then Inr None
            else Inl (Thrown
              (''Tests failed for modules:'' @ [CHR 0x0A] @
               js_join [CHR 0x0A]
                 (map (\<lambda>t. ''  '' @ esModulesDescription t)
                    (filter (\<lambda>t. res t \<noteq> Some (base t)) tests)) @
               [CHR 0x0A] @ [CHR 0x0A] @
               ''To update the expectations, run this command again with the --update flag.'' @
               [CHR 0x0A])))"
proof -
  let ?tfp = "resolve h (arg_cwd options) tf"
  let ?w1 = "console_log (''Loading tests from '' @ ?tfp @ [CHR 0x0A]) w"
  let ?bad = "filter (\<lambda>t. res t \<noteq> Some (base t)) tests"
  from assms(5) have ex: "existsSync w ?tfp"
    by (auto simp: readFileSync_def existsSync_def split: option.splits)
  from assms(5) have rd: "readFileSync ?w1 ?tfp = Inr text"
    by (simp add: readFileSync_def)
  have base': "\<forall>t\<in>set tests. \<forall>w1. fs w1 = fs w \<longrightarrow>
                 loadExpectedOutput w1 (expectedOutputPath h options t) = Inr (base t)"
    using assms(8) loadExpectedOutput_fs by metis
  have "fs ?w1 = fs w" by simp
  from runTests_compare_only[OF assms(1) assms(7) base' this, of "[]"] obtain w' where
    loop: "runTests h options (dirname h ?tfp) tests [] ?w1 =
             (Inr (map esModulesDescription ?bad), w')"
    by auto
  have m: "main h options w = reportTests options (map esModulesDescription ?bad) w'"
    using assms(2,3,4,6) ex rd loop by (simp add: main_def truthy_def Let_def)
  show ?thesis
  proof (cases "\<forall>t\<in>set tests. res t = Some (base t)")
    case True
    then have "?bad = []" by (simp add: filter_empty_conv)
    with True show ?thesis
      by (simp add: m reportTests_def Let_def)
  next
    case False
    then have "?bad \<noteq> []" by (simp add: filter_empty_conv)
    then have "length (map esModulesDescription ?bad) > 0" by simp
    with assms(1) have "fst (reportTests options (map esModulesDescription ?bad) w') =
      Inl (Thrown (testsFailedMessage (map esModulesDescription ?bad)))"
      by (simp only: reportTests_def Let_def if_True if_False fst_conv)
    with False show ?thesis
      by (simp only: m testsFailedMessage_def failedExpectationsDescription_def
            if_False map_map comp_def)
  qed
qed

lemma testOptions_update [simp]:
  "testOptions h (options\<lparr>arg_update := b\<rparr>) dir t = testOptions h options dir t"
  by (simp add: testOptions_def testCheckerOptions_def split: option.splits)

lemma expectedOutputPath_update [simp]:
  "expectedOutputPath h (options\<lparr>arg_update := b\<rparr>) t = expectedOutputPath h options t"
  by (simp add: expectedOutputPath_def)

lemma reportTests_update:
  "arg_update options \<Longrightarrow> 0 < length failed \<Longrightarrow>
   reportTests options failed w =
     (Inr None, console_log (testsUpdatedMessage failed) (console_log [] w))"
  by (simp add: reportTests_def Let_def)

lemma update_step:
  assumes up: "arg_update options"
    and ext: "checkSideEffects h (testOptions h options dir t)
                (console_log (''Testing '' @ esModulesDescription t) w) = (Inr (Some r), w2)"
    and exp: "loadExpectedOutput w2 (expectedOutputPath h options t) = Inr e"
    and diff: "r \<noteq> e"
    and anc: "lookup w2 ((dirname h ^^ Suc n) (expectedOutputPath h options t)) = Some Dir"
    and miss: "\<forall>k<n. lookup w2 ((dirname h ^^ Suc k) (expectedOutputPath h options t)) = None"
    and stack: "n < stack_frames h"
  shows "\<exists>w4. runTest h options dir t failed w = (Inr (failed @ [esModulesDescription t]), w4) \<and>
           (\<forall>q. lookup w4 q =
                  (if q = expectedOutputPath h options t then Some (File r)
                   else if \<exists>k<n. q = (dirname h ^^ Suc k) (expectedOutputPath h options t)
                        then Some Dir
                   else lookup w2 q))"
proof -
  let ?p = "expectedOutputPath h options t"
  let ?d = "dirname h ?p"
  have a: "lookup w2 ((dirname h ^^ n) ?d) = Some Dir"
    using anc by (simp add: funpow_swap1)
  have b: "\<forall>k<n. lookup w2 ((dirname h ^^ k) ?d) = None"
    using miss by (simp add: funpow_swap1)
  from recursiveMkDir_creates[OF a b stack] obtain w3 where
    mk: "recursiveMkDir h (stack_frames h) ?d w2 = (Inr (), w3)"
    and l3: "\<forall>q. lookup w3 q = (if \<exists>k<n. q = (dirname h ^^ k) ?d then Some Dir else lookup w2 q)"
    by blast
  from exp have notdir: "lookup w2 ?p \<noteq> Some Dir"
    by (auto simp: loadExpectedOutput_def existsSync_def readFileSync_def
             split: if_splits option.splits entry.splits)
  have notcreated: "\<not> (\<exists>k<n. ?p = (dirname h ^^ k) ?d)"
  proof
    assume "\<exists>k<n. ?p = (dirname h ^^ k) ?d"
    then obtain k where k: "k < n" "(dirname h ^^ Suc k) ?p = ?p" by (auto simp: funpow_swap1)
    from funpow_cycle_contradiction[where f="dirname h" and j="Suc k" and d="?p" and n="Suc n"] k
    have "(dirname h ^^ Suc n) ?p = (dirname h ^^ (Suc n - Suc k)) ?p" by simp
    moreover from k have "\<exists>m<n. Suc n - Suc k = Suc m"
      by (intro exI[of _ "n - Suc k"]) auto
    ultimately obtain m where "m < n" "(dirname h ^^ Suc n) ?p = (dirname h ^^ Suc m) ?p"
      by metis
    with miss anc show False by simp
  qed
  with l3 notdir have p3: "lookup w3 ?p \<noteq> Some Dir" by simp
  have d3: "lookup w3 ?d = Some Dir"
  proof (cases n)
    case 0
    with l3 a show ?thesis by simp
  next
    case (Suc m)
    then have "\<exists>k<n. ?d = (dirname h ^^ k) ?d" by (intro exI[of _ 0]) simp
    with l3 show ?thesis by simp
  qed
  from writeFileSync_ok[OF p3 d3, of r] obtain w4 where
    wr: "writeFileSync h ?p r w3 = (Inr (), w4)"
    and l4: "\<forall>q. lookup w4 q = (if q = ?p then Some (File r) else lookup w3 q)"
    by blast
  have "runTest h options dir t failed w = (Inr (failed @ [esModulesDescription t]), w4)"
    using up diff mk wr by (simp add: runTest_returned[OF ext exp] writeResultSync_def)
  moreover have "lookup w4 q =
                  (if q = ?p then Some (File r)
                   else if \<exists>k<n. q = (dirname h ^^ Suc k) ?p then Some Dir
                   else lookup w2 q)" for q
    using l4 l3 by (simp add: funpow_swap1)
  ultimately show ?thesis by blast
qed

lemma readFileSync_File: "readFileSync w p = Inr c \<longleftrightarrow> lookup w p = Some (File c)"
  by (auto simp: readFileSync_def split: option.splits entry.splits)

lemma update_case:
  assumes up: "arg_update options"
    and ext: "checkSideEffects h (testOptions h options dir t)
                (console_log (''Testing '' @ esModulesDescription t) w) = (Inr (Some r), w2)"
    and exp: "loadExpectedOutput w2 (expectedOutputPath h options t) = Inr e"
    and diff: "r \<noteq> e"
    and anc: "lookup w2 ((dirname h ^^ Suc n) (expectedOutputPath h options t)) = Some Dir"
    and miss: "\<forall>k<n. lookup w2 ((dirname h ^^ Suc k) (expectedOutputPath h options t)) = None"
    and stack: "n < stack_frames h"
  shows "\<exists>w4.
           runTests h options dir (t # ts) failed w =
             runTests h options dir ts (failed @ [esModulesDescription t]) w4 \<and>
           readFileSync w4 (expectedOutputPath h options t) = Inr r \<and>
           (\<forall>k\<le>n. lookup w4 ((dirname h ^^ Suc k) (expectedOutputPath h options t)) = Some Dir) \<and>
           (\<forall>w5. reportTests options (failed @ [esModulesDescription t]) w5 =
                   (Inr None,
                    console_log (testsUpdatedMessage (failed @ [esModulesDescription t]))
                      (console_log [] w5)))"
proof -
  let ?p = "expectedOutputPath h options t"
  let ?desc = "esModulesDescription t"
  from update_step[OF up ext exp diff anc miss stack, of failed] obtain w4 where
    step: "runTest h options dir t failed w = (Inr (failed @ [?desc]), w4)"
    and l4: "\<forall>q. lookup w4 q =
                  (if q = ?p then Some (File r)
                   else if \<exists>k<n. q = (dirname h ^^ Suc k) ?p then Some Dir
                   else lookup w2 q)"
    by blast
  have loop: "runTests h options dir (t # ts) failed w = runTests h options dir ts (failed @ [?desc]) w4"
    by (simp add: step)
  have rd: "readFileSync w4 ?p = Inr r"
    using l4 by (simp add: readFileSync_File)
  from exp have notdir: "lookup w2 ?p \<noteq> Some Dir"
    by (auto simp: loadExpectedOutput_def existsSync_def readFileSync_def
             split: if_splits option.splits entry.splits)
  have dirs: "\<forall>k\<le>n. lookup w4 ((dirname h ^^ Suc k) ?p) = Some Dir"
  proof (intro allI impI)
    fix k assume k: "k \<le> n"
    show "lookup w4 ((dirname h ^^ Suc k) ?p) = Some Dir"
    proof (cases "k < n")
      case True
      have "(dirname h ^^ Suc k) ?p \<noteq> ?p"
      proof
        assume c: "(dirname h ^^ Suc k) ?p = ?p"
        from funpow_cycle_contradiction[where f="dirname h" and j="Suc k" and d="?p" and n="Suc n"] c k
        have "(dirname h ^^ Suc n) ?p = (dirname h ^^ (Suc n - Suc k)) ?p" by simp
        moreover from True have "\<exists>m<n. Suc n - Suc k = Suc m"
          by (intro exI[of _ "n - Suc k"]) auto
        ultimately obtain m where "m < n" "(dirname h ^^ Suc n) ?p = (dirname h ^^ Suc m) ?p"
          by metis
        with miss anc show False by simp
      qed
      with l4 True show ?thesis by auto
    next
      case False
      with k have kn: "k = n" by simp
      from anc notdir have "(dirname h ^^ Suc n) ?p \<noteq> ?p" by auto
      with l4 anc kn show ?thesis by auto
    qed
  qed
  have rep: "\<forall>w5. reportTests options (failed @ [?desc]) w5 =
                   (Inr None, console_log (testsUpdatedMessage (failed @ [?desc])) (console_log [] w5))"
    using up by (simp add: reportTests_update)
  from loop rd dirs rep show ?thesis by blast
qed

section \<open>The harness on the example project\<close>

lemmas harness_example_defs =
  example_cli_def test_a_def test_b_def test_c_def test_d_def suite_host_def suite_tree_def
  suite_world_def

lemmas harness_defs =
  testOptions_def testCheckerOptions_def unresolvedEsModules_def esModulesDescription_def
  expectedOutputPath_def loadExpectedOutput_def readFileSync_def

lemma suite_extraction_a:
  assumes "fs w1 = suite_tree"
  shows "\<exists>w2. checkSideEffects (suite_host ts) (testOptions (suite_host ts) example_cli ''/proj'' test_a) w1 =
          (Inr (Some (''import '' @ [CHR 0x27] @ ''/proj/a.js'' @ [CHR 0x27] @ '';'')), w2) \<and> fs w2 = suite_tree"
  using assms
  by (simp add: harness_example_defs harness_defs example_defs checker_defs Let_def)

lemma suite_extraction_b:
  assumes "fs w1 = suite_tree"
  shows "\<exists>w2. checkSideEffects (suite_host ts) (testOptions (suite_host ts) example_cli ''/proj'' test_b) w1 =
          (Inr (Some (''import '' @ [CHR 0x27] @ ''/proj/a.js'' @ [CHR 0x27] @ '';'' @ [CHR 0x0A] @
                      ''import '' @ [CHR 0x27] @ ''/proj/b.js'' @ [CHR 0x27] @ '';'')), w2) \<and>
          fs w2 = suite_tree"
  using assms
  by (simp add: harness_example_defs harness_defs example_defs checker_defs Let_def)

lemma test_b_ne_a: "test_b \<noteq> test_a"
  by (simp add: test_a_def test_b_def)

lemma suite_test_file: "readFileSync suite_world (resolve (suite_host ts) (arg_cwd example_cli) ''tests.json'') = Inr ''{}''"
    by (simp add: harness_example_defs harness_defs example_defs lookup_def)

lemma suite_test_dir: "dirname (suite_host ts) (resolve (suite_host ts) (arg_cwd example_cli) ''tests.json'') = ''/proj''"
    by (simp add: harness_example_defs example_defs)

lemma suite_baseline_a: "loadExpectedOutput suite_world (expectedOutputPath (suite_host ts) example_cli test_a) =
   Inr (''import '' @ [CHR 0x27] @ ''/proj/a.js'' @ [CHR 0x27] @ '';'')"
  by (simp add: harness_example_defs harness_defs example_defs existsSync_def lookup_def)

lemma suite_baseline_b: "loadExpectedOutput suite_world (expectedOutputPath (suite_host ts) example_cli test_b) = Inr []"
  by (simp add: harness_example_defs harness_defs example_defs existsSync_def lookup_def)

theorem batch_fails_iff_some_mismatch_witness:
  "\<not> arg_update example_cli \<and>
   readFileSync suite_world (resolve (suite_host [test_a, test_b]) (arg_cwd example_cli) ''tests.json'')
     = Inr ''{}'' \<and>
   fst (main (suite_host [test_a, test_b]) example_cli suite_world) =
     Inl (Thrown (''Tests failed for modules:'' @ [CHR 0x0A] @ ''  a.js ./b.js'' @ [CHR 0x0A] @
                  [CHR 0x0A] @
                  ''To update the expectations, run this command again with the --update flag.'' @
                  [CHR 0x0A]))"
proof -
  let ?h = "suite_host [test_a, test_b]"
  let ?A = "''import '' @ [CHR 0x27] @ ''/proj/a.js'' @ [CHR 0x27] @ '';''"
  let ?B = "''import '' @ [CHR 0x27] @ ''/proj/a.js'' @ [CHR 0x27] @ '';'' @ [CHR 0x0A] @
            ''import '' @ [CHR 0x27] @ ''/proj/b.js'' @ [CHR 0x27] @ '';''"
  let ?res = "\<lambda>t. if t = test_a then Some ?A else Some ?B"
  let ?base = "\<lambda>t. if t = test_a then ?A else []"
  have 1: "\<not> arg_update example_cli" and 2: "\<not> arg_help example_cli"
    and 3: "arg_test example_cli = Some ''tests.json''" and 4: "''tests.json'' \<noteq> []"
    by (simp_all add: example_cli_def)
  note 5 = suite_test_file[of "[test_a, test_b]"]
  have 6: "JSON_parse_tests ?h ''{}'' = Inr [test_a, test_b]"
    by (simp add: suite_host_def)
  have 7: "\<forall>t\<in>set [test_a, test_b]. \<forall>w1. fs w1 = fs suite_world \<longrightarrow>
           (\<exists>w2. checkSideEffects ?h
                   (testOptions ?h example_cli
                      (dirname ?h (resolve ?h (arg_cwd example_cli) ''tests.json'')) t) w1 =
                   (Inr (?res t), w2) \<and>
                 fs w2 = fs suite_world)"
  proof -
    have f: "fs suite_world = suite_tree" by (simp add: suite_world_def)
    show ?thesis
      unfolding suite_test_dir f
      using suite_extraction_a[of _ "[test_a, test_b]"] suite_extraction_b[of _ "[test_a, test_b]"]
      by (simp only: list.set ball_simps test_b_ne_a if_True if_False simp_thms) blast
  qed
  have 8: "\<forall>t\<in>set [test_a, test_b].
             loadExpectedOutput suite_world (expectedOutputPath ?h example_cli t) = Inr (?base t)"
    by (simp only: list.set ball_simps test_b_ne_a if_True if_False simp_thms suite_baseline_a suite_baseline_b)
  have bad: "filter (\<lambda>t. ?res t \<noteq> Some (?base t)) [test_a, test_b] = [test_b]"
    by (simp add: test_b_ne_a)
  have all: "\<not> (\<forall>t\<in>set [test_a, test_b]. ?res t = Some (?base t))"
    by (simp add: test_b_ne_a)
  have d: "esModulesDescription test_b = ''a.js ./b.js''"
    by (simp add: esModulesDescription_def unresolvedEsModules_def test_b_def)
  from batch_fails_iff_some_mismatch[OF 1 2 3 4 5 6 7 8]
  have "fst (main ?h example_cli suite_world) =
     Inl (Thrown (''Tests failed for modules:'' @ [CHR 0x0A] @
                  js_join [CHR 0x0A] (map (\<lambda>t. ''  '' @ esModulesDescription t) [test_b]) @
                  [CHR 0x0A] @ [CHR 0x0A] @
                  ''To update the expectations, run this command again with the --update flag.'' @
                  [CHR 0x0A]))"
    by (simp only: all bad if_False)
  with 1 5 show ?thesis
    by (simp add: d)
qed

theorem missing_baseline_is_empty_expected_witness:
  "\<not> existsSync
       (snd (checkSideEffects (suite_host [test_b])
               (testOptions (suite_host [test_b]) example_cli ''/proj'' test_b)
               (console_log (''Testing '' @ esModulesDescription test_b) suite_world)))
       (expectedOutputPath (suite_host [test_b]) example_cli test_b) \<and>
   expectedOutputPath (suite_host [test_b]) example_cli test_b = ''/proj/new/out/b.txt'' \<and>
   fst (runTests (suite_host [test_b]) example_cli ''/proj'' [test_b] [] suite_world) =
     Inr [''a.js ./b.js'']"
proof -
  let ?h = "suite_host [test_b]"
  let ?B = "''import '' @ [CHR 0x27] @ ''/proj/a.js'' @ [CHR 0x27] @ '';'' @ [CHR 0x0A] @
            ''import '' @ [CHR 0x27] @ ''/proj/b.js'' @ [CHR 0x27] @ '';''"
  let ?run = "checkSideEffects ?h (testOptions ?h example_cli ''/proj'' test_b)
               (console_log (''Testing '' @ esModulesDescription test_b) suite_world)"
  have "fst ?run = Inr (Some ?B)" by code_simp
  then have run: "?run = (Inr (Some ?B), snd ?run)" by (metis prod.collapse)
  have miss: "\<not> existsSync (snd ?run) (expectedOutputPath ?h example_cli test_b)" by code_simp
  have p: "expectedOutputPath ?h example_cli test_b = ''/proj/new/out/b.txt''" by code_simp
  have nu: "\<not> arg_update example_cli" by (simp add: example_cli_def)
  have d: "esModulesDescription test_b = ''a.js ./b.js''" by code_simp
  from missing_baseline_is_empty_expected[OF run miss, of "[]" "[]"] nu
  have "runTests ?h example_cli ''/proj'' [test_b] [] suite_world =
          (Inr [''a.js ./b.js''], snd ?run)"
    by (simp add: d)
  with miss p show ?thesis by (simp del: runTests.simps)
qed

theorem matching_baseline_not_written_witness:
  "arg_update (example_cli\<lparr>arg_update := True\<rparr>) \<and>
   fst (checkSideEffects (suite_host [test_a])
          (testOptions (suite_host [test_a]) (example_cli\<lparr>arg_update := True\<rparr>) ''/proj'' test_a)
          (console_log (''Testing '' @ esModulesDescription test_a) suite_world)) =
     Inr (Some (''import '' @ [CHR 0x27] @ ''/proj/a.js'' @ [CHR 0x27] @ '';'')) \<and>
   readFileSync suite_world ''/proj/expected/a.txt'' =
     Inr (''import '' @ [CHR 0x27] @ ''/proj/a.js'' @ [CHR 0x27] @ '';'') \<and>
   runTest (suite_host [test_a]) (example_cli\<lparr>arg_update := True\<rparr>) ''/proj'' test_a [] suite_world =
     (Inr [],
      snd (checkSideEffects (suite_host [test_a])
          (testOptions (suite_host [test_a]) (example_cli\<lparr>arg_update := True\<rparr>) ''/proj'' test_a)
          (console_log (''Testing '' @ esModulesDescription test_a) suite_world)))"
proof -
  let ?h = "suite_host [test_a]"
  let ?o = "example_cli\<lparr>arg_update := True\<rparr>"
  let ?A = "''import '' @ [CHR 0x27] @ ''/proj/a.js'' @ [CHR 0x27] @ '';''"
  let ?run = "checkSideEffects ?h (testOptions ?h ?o ''/proj'' test_a)
               (console_log (''Testing '' @ esModulesDescription test_a) suite_world)"
  have up: "arg_update ?o" by simp
  have r: "fst ?run = Inr (Some ?A)" by code_simp
  then have run: "?run = (Inr (Some ?A), snd ?run)" by (metis prod.collapse)
  have e: "loadExpectedOutput (snd ?run) (expectedOutputPath ?h ?o test_a) = Inr ?A" by code_simp
  have b: "readFileSync suite_world ''/proj/expected/a.txt'' = Inr ?A" by code_simp
  from matching_baseline_not_written[OF up run e, of "[]" "[]"]
  have "runTest ?h ?o ''/proj'' test_a [] suite_world = (Inr [], snd ?run)"
    by simp
  with up r b show ?thesis by simp
qed

section \<open>Updating the baselines of a suite\<close>

lemma loadExpectedOutput_lookup:
  "lookup w1 p = lookup w2 p \<Longrightarrow> loadExpectedOutput w1 p = loadExpectedOutput w2 p"
  by (simp add: loadExpectedOutput_def existsSync_def readFileSync_def)

lemma checkSideEffects_in_memory_frame:
  assumes "checkSideEffects h opts w = (Inr (Some r), w')"
    and "q \<noteq> resolve h (join h (tmpdir h) ''check-side-effects-'' @ mkdtemp_suffix h w) ''./index.js''"
  shows "lookup w' q = lookup w q"
proof -
  from assms(1) obtain w1 w2 b w3 outputs w4 w5 w6 d where
    mm: "missingModules h opts w = []"
    and mk: "mkdtempSync h (join h (tmpdir h) ''check-side-effects-'') w = (Inr d, w1)"
    and wr: "writeFileSync h (resolve h d ''./index.js'') (entrySource (resolvedEsModules h opts)) w1 = (Inr (), w2)"
    and ro: "rollup h (inputOptions opts (resolve h d ''./index.js'')) (fs w2) = Inr b"
    and w3: "w3 = (if withDefault False (printDependencies opts)
           then foldl (\<lambda>w' f. console_log f w') w2 (watchFiles b) else w2)"
    and out: "case outputFilePath h opts of
       Some out \<Rightarrow> \<exists>fs'. bundle_write b (outputOptions h opts) (fs w3) = (None, fs') \<and> outputs = None \<and>
                  w4 = w3\<lparr>fs := fs', journal := journal w3 @ [BundleWrite (Some out)]\<rparr>
     | None \<Rightarrow> \<exists>outs. generate b (outputOptions h opts) = Inr outs \<and> outputs = Some outs \<and> w4 = w3"
    and un: "unlinkSync (resolve h d ''./index.js'') w4 = (Inr (), w5)"
    and rm: "rmdirSync h d w5 = (Inr (), w6)"
    and fin: "case outputs of None \<Rightarrow> Some r = None \<and> w' = console_log sourceMapInstructions w6
       | Some outs \<Rightarrow> Some r = Some (chunkCode outs) \<and> w' = w6"
    by (rule checkSideEffects_returns)
  let ?f = "resolve h d ''./index.js''"
  from mkdtempSync_Inr[OF mk] have d: "d = join h (tmpdir h) ''check-side-effects-'' @ mkdtemp_suffix h w"
    and f1: "fs w1 = AList.update d Dir (fs w)" and dn: "lookup w d = None" by blast+
  from writeFileSync_Inr[OF wr] have f2: "fs w2 = AList.update ?f (File (entrySource (resolvedEsModules h opts))) (fs w1)"
    by simp
  from w3 have f3: "fs w3 = fs w2" by simp
  from fin obtain outs where o: "outputs = Some outs" and w': "w' = w6" by (cases outputs) auto
  with out have "w4 = w3" by (cases "outputFilePath h opts") auto
  with f3 have f4: "fs w4 = fs w2" by simp
  from assms(2) d have qf: "q \<noteq> ?f" by simp
  show ?thesis
  proof (cases "q = d")
    case True
    have "lookup w6 d = None" using lookup_rmdirSync[OF rm, of d] by simp
    with True w' dn show ?thesis by simp
  next
    case False
    have "lookup w6 q = lookup w5 q" using lookup_rmdirSync[OF rm, of q] False by simp
    also have "\<dots> = lookup w4 q" using lookup_unlinkSync[OF un, of q] qf by simp
    also have "\<dots> = lookup w q" using f4 f2 f1 qf False by (simp add: lookup_def update_conv')
    finally show ?thesis using w' by simp
  qed
qed

lemma writeFileSync_frame:
  "writeFileSync h p c w = (x, w') \<Longrightarrow> q \<noteq> p \<Longrightarrow> lookup w' q = lookup w q"
  by (auto simp: writeFileSync_def lookup_def update_conv' split: option.splits entry.splits)

lemma writeFileSync_written:
  "writeFileSync h p c w = (Inr u, w') \<Longrightarrow> lookup w' p = Some (File c)"
  by (auto simp: writeFileSync_def lookup_def update_conv' split: option.splits entry.splits)

lemma main_test_mode_cases:
  assumes "\<not> arg_help options" and "arg_test options = Some tf" and "tf \<noteq> []"
    and "readFileSync w0 (resolve h (arg_cwd options) tf) = Inr content"
    and "JSON_parse_tests h content = Inr tests"
  shows "main h options w0 =
     (case runTests h options (dirname h (resolve h (arg_cwd options) tf)) tests []
             (console_log (''Loading tests from '' @ resolve h (arg_cwd options) tf @ [CHR 0x0A]) w0) of
        (Inl e, w2) \<Rightarrow> (Inl e, w2)
      | (Inr failed, w2) \<Rightarrow> reportTests options failed w2)"
proof -
  let ?tfp = "resolve h (arg_cwd options) tf"
  let ?w1 = "console_log (''Loading tests from '' @ ?tfp @ [CHR 0x0A]) w0"
  from assms(4) have ex: "existsSync w0 ?tfp"
    by (simp add: readFileSync_File existsSync_def)
  from assms(4) have rd: "readFileSync ?w1 ?tfp = Inr content"
    by (simp add: readFileSync_def)
  show ?thesis
    using assms(1,2,3,5) ex rd by (simp add: main_def truthy_def Let_def)
qed

lemma fs_reportTests: "fs (snd (reportTests options failed w)) = fs w"
  by (simp add: reportTests_def Let_def)

lemma mkdirSync_changes:
  "mkdirSync h p w = (x, w') \<Longrightarrow>
   lookup w' q = lookup w q \<or> (q = p \<and> lookup w' q = Some Dir)"
  by (auto simp: mkdirSync_def lookup_def update_conv' split: if_splits option.splits entry.splits)

lemma recursiveMkDir_changes:
  "recursiveMkDir h fr d w = (x, w') \<Longrightarrow>
   lookup w' q = lookup w q \<or> (lookup w' q = Some Dir \<and> (\<exists>k. q = (dirname h ^^ k) d))"
proof (induction fr arbitrary: d w x w')
  case 0
  then show ?case by simp
next
  case (Suc fr)
  show ?case
  proof (cases "existsSync w d")
    case True
    with Suc.prems show ?thesis by simp
  next
    case False
    obtain y w1 where r: "recursiveMkDir h fr (dirname h d) w = (y, w1)"
      by (cases "recursiveMkDir h fr (dirname h d) w")
    from Suc.IH[OF r] have l1:
      "lookup w1 q = lookup w q \<or>
       (lookup w1 q = Some Dir \<and> (\<exists>k. q = (dirname h ^^ k) (dirname h d)))" .
    have up: "(\<exists>k. q = (dirname h ^^ k) (dirname h d)) \<Longrightarrow> (\<exists>k. q = (dirname h ^^ k) d)"
    proof -
      assume "\<exists>k. q = (dirname h ^^ k) (dirname h d)"
      then obtain k where "q = (dirname h ^^ k) (dirname h d)" by blast
      then have "q = (dirname h ^^ Suc k) d" by (simp add: funpow_swap1)
      then show ?thesis by blast
    qed
    show ?thesis
    proof (cases y)
      case (Inl e)
      with Suc.prems False r have "w' = w1" by simp
      with l1 up show ?thesis by blast
    next
      case (Inr u)
      with Suc.prems False r have m: "mkdirSync h d w1 = (x, w')" by simp
      from mkdirSync_changes[OF m, of q]
      show ?thesis
      proof
        assume "lookup w' q = lookup w1 q"
        with l1 up show ?thesis by auto
      next
        assume "q = d \<and> lookup w' q = Some Dir"
        then have "lookup w' q = Some Dir \<and> q = (dirname h ^^ 0) d" by auto
        then show ?thesis by blast
      qed
    qed
  qed
qed

lemma checkSideEffects_in_memory_changes:
  assumes "checkSideEffects h opts w = (Inr (Some r), w')"
  shows "lookup w' q = lookup w q \<or>
         (lookup w' q = None \<and>
          q = resolve h (join h (tmpdir h) ''check-side-effects-'' @ mkdtemp_suffix h w) ''./index.js'')"
proof -
  from assms obtain w1 w2 b w3 outputs w4 w5 w6 d where
    mm: "missingModules h opts w = []"
    and mk: "mkdtempSync h (join h (tmpdir h) ''check-side-effects-'') w = (Inr d, w1)"
    and wr: "writeFileSync h (resolve h d ''./index.js'') (entrySource (resolvedEsModules h opts)) w1 = (Inr (), w2)"
    and ro: "rollup h (inputOptions opts (resolve h d ''./index.js'')) (fs w2) = Inr b"
    and w3: "w3 = (if withDefault False (printDependencies opts)
           then foldl (\<lambda>w' f. console_log f w') w2 (watchFiles b) else w2)"
    and out: "case outputFilePath h opts of
       Some out \<Rightarrow> \<exists>fs'. bundle_write b (outputOptions h opts) (fs w3) = (None, fs') \<and> outputs = None \<and>
                  w4 = w3\<lparr>fs := fs', journal := journal w3 @ [BundleWrite (Some out)]\<rparr>
     | None \<Rightarrow> \<exists>outs. generate b (outputOptions h opts) = Inr outs \<and> outputs = Some outs \<and> w4 = w3"
    and un: "unlinkSync (resolve h d ''./index.js'') w4 = (Inr (), w5)"
    and rm: "rmdirSync h d w5 = (Inr (), w6)"
    and fin: "case outputs of None \<Rightarrow> Some r = None \<and> w' = console_log sourceMapInstructions w6
       | Some outs \<Rightarrow> Some r = Some (chunkCode outs) \<and> w' = w6"
    by (rule checkSideEffects_returns)
  let ?f = "resolve h d ''./index.js''"
  from mkdtempSync_Inr[OF mk] have d: "d = join h (tmpdir h) ''check-side-effects-'' @ mkdtemp_suffix h w"
    and dn: "lookup w d = None" by blast+
  from fin obtain outs where o: "outputs = Some outs" and w': "w' = w6" by (cases outputs) auto
  show ?thesis
  proof (cases "q = ?f")
    case True
    have "lookup w5 ?f = None" using lookup_unlinkSync[OF un, of ?f] by simp
    moreover have "lookup w6 ?f = (if ?f = d then None else lookup w5 ?f)"
      using lookup_rmdirSync[OF rm, of ?f] by simp
    ultimately have "lookup w' q = None" using True w' by simp
    with True d show ?thesis by simp
  next
    case False
    with d have "q \<noteq> resolve h (join h (tmpdir h) ''check-side-effects-'' @ mkdtemp_suffix h w) ''./index.js''"
      by simp
    from checkSideEffects_in_memory_frame[OF assms this] show ?thesis by simp
  qed
qed

lemma runTest_update_changes:
  assumes up: "arg_update options"
    and run: "runTest h options dir t failed w = (Inr failed', w1)"
    and ext: "checkSideEffects h (testOptions h options dir t)
                (console_log (''Testing '' @ esModulesDescription t) w) = (Inr (Some r), w2)"
  shows "loadExpectedOutput w1 (expectedOutputPath h options t) = Inr r \<and>
         (\<forall>q. lookup w1 q = lookup w q \<or>
              (q = expectedOutputPath h options t \<and> lookup w1 q = Some (File r)) \<or>
              (lookup w1 q = Some Dir \<and>
               (\<exists>k. q = (dirname h ^^ Suc k) (expectedOutputPath h options t))) \<or>
              (lookup w1 q = None \<and>
               (\<exists>w'. q = resolve h (join h (tmpdir h) ''check-side-effects-'' @
                                      mkdtemp_suffix h w') ''./index.js'')))"
proof -
  let ?p = "expectedOutputPath h options t"
  let ?win = "console_log (''Testing '' @ esModulesDescription t) w"
  have ch2: "lookup w2 q = lookup w q \<or>
             (lookup w2 q = None \<and>
              (\<exists>w'. q = resolve h (join h (tmpdir h) ''check-side-effects-'' @
                                     mkdtemp_suffix h w') ''./index.js''))" for q
    using checkSideEffects_in_memory_changes[OF ext, of q] by auto
  obtain y where y: "loadExpectedOutput w2 ?p = y" by simp
  with run ext obtain e where e: "loadExpectedOutput w2 ?p = Inr e"
    by (cases y) (auto simp: runTest_def Let_def)
  note step = runTest_returned[OF ext e, of failed]
  show ?thesis
  proof (cases "r = e")
    case True
    with step run have w12: "w1 = w2" by simp
    have "lookup w1 q = lookup w q \<or>
              (q = ?p \<and> lookup w1 q = Some (File r)) \<or>
              (lookup w1 q = Some Dir \<and> (\<exists>k. q = (dirname h ^^ Suc k) ?p)) \<or>
              (lookup w1 q = None \<and>
               (\<exists>w'. q = resolve h (join h (tmpdir h) ''check-side-effects-'' @
                                      mkdtemp_suffix h w') ''./index.js''))" for q
      using ch2[of q] w12 by auto
    with True e w12 show ?thesis by simp
  next
    case False
    obtain z w3 where mk: "recursiveMkDir h (stack_frames h) (dirname h ?p) w2 = (z, w3)"
      by (cases "recursiveMkDir h (stack_frames h) (dirname h ?p) w2")
    with step run False up obtain u where z: "z = Inr u"
      by (cases z) auto
    obtain v w4 where wr: "writeFileSync h ?p r w3 = (v, w4)"
      by (cases "writeFileSync h ?p r w3")
    with step run False up mk z have v: "v = Inr ()" and w4: "w4 = w1"
      by (cases v; simp add: writeResultSync_def)+
    from wr v w4 have written: "lookup w1 ?p = Some (File r)"
      using writeFileSync_written by simp
    then have a: "loadExpectedOutput w1 ?p = Inr r"
      by (simp add: loadExpectedOutput_def existsSync_def readFileSync_def)
    have b: "lookup w1 q = lookup w q \<or>
              (q = ?p \<and> lookup w1 q = Some (File r)) \<or>
              (lookup w1 q = Some Dir \<and> (\<exists>k. q = (dirname h ^^ Suc k) ?p)) \<or>
              (lookup w1 q = None \<and>
               (\<exists>w'. q = resolve h (join h (tmpdir h) ''check-side-effects-'' @
                                      mkdtemp_suffix h w') ''./index.js''))" for q
    proof (cases "q = ?p")
      case True
      with written show ?thesis by simp
    next
      case qp: False
      from writeFileSync_frame[OF wr qp] w4 have l13: "lookup w1 q = lookup w3 q" by simp
      from recursiveMkDir_changes[OF mk, of q]
      have "lookup w3 q = lookup w2 q \<or>
            (lookup w3 q = Some Dir \<and> (\<exists>k. q = (dirname h ^^ Suc k) ?p))"
        by (auto simp: funpow_swap1)
      with l13 ch2[of q] show ?thesis by auto
    qed
    from a b show ?thesis by blast
  qed
qed

lemma runTests_update_changes:
  assumes up: "arg_update options"
    and run: "runTests h options dir tests failed w = (Inr failed', w')"
    and all: "all = done @ tests"
    and donebase: "\<forall>t\<in>set done. loadExpectedOutput w (expectedOutputPath h options t) = Inr (res t)"
    and agree: "\<forall>q. lookup w q = lookup w0 q \<or>
              (\<exists>t'\<in>set all. q = expectedOutputPath h options t' \<and>
                               lookup w q = Some (File (res t'))) \<or>
              (lookup w q = Some Dir \<and>
               (\<exists>t'\<in>set all. \<exists>k. q = (dirname h ^^ Suc k) (expectedOutputPath h options t'))) \<or>
              (lookup w q = None \<and>
               (\<exists>w'. q = resolve h (join h (tmpdir h) ''check-side-effects-'' @
                                      mkdtemp_suffix h w') ''./index.js''))"
    and repro: "\<forall>t\<in>set all. \<forall>w1.
           (\<forall>q. lookup w1 q = lookup w0 q \<or>
              (\<exists>t'\<in>set all. q = expectedOutputPath h options t' \<and>
                               lookup w1 q = Some (File (res t'))) \<or>
              (lookup w1 q = Some Dir \<and>
               (\<exists>t'\<in>set all. \<exists>k. q = (dirname h ^^ Suc k) (expectedOutputPath h options t'))) \<or>
              (lookup w1 q = None \<and>
               (\<exists>w'. q = resolve h (join h (tmpdir h) ''check-side-effects-'' @
                                      mkdtemp_suffix h w') ''./index.js''))) \<longrightarrow>
           (\<exists>w3. checkSideEffects h (testOptions h options dir t) w1 = (Inr (Some (res t)), w3))"
    and dist: "distinct (map (expectedOutputPath h options) all)"
    and noanc: "\<forall>t\<in>set all. \<forall>t'\<in>set all. \<forall>k.
                  expectedOutputPath h options t \<noteq>
                  (dirname h ^^ Suc k) (expectedOutputPath h options t')"
    and scr: "\<forall>t\<in>set all. \<forall>w1.
                expectedOutputPath h options t \<noteq>
                resolve h (join h (tmpdir h) ''check-side-effects-'' @ mkdtemp_suffix h w1)
                  ''./index.js''"
  shows "(\<forall>t\<in>set all. loadExpectedOutput w' (expectedOutputPath h options t) = Inr (res t)) \<and>
         (\<forall>q. lookup w' q = lookup w0 q \<or>
              (\<exists>t'\<in>set all. q = expectedOutputPath h options t' \<and>
                               lookup w' q = Some (File (res t'))) \<or>
              (lookup w' q = Some Dir \<and>
               (\<exists>t'\<in>set all. \<exists>k. q = (dirname h ^^ Suc k) (expectedOutputPath h options t'))) \<or>
              (lookup w' q = None \<and>
               (\<exists>w'. q = resolve h (join h (tmpdir h) ''check-side-effects-'' @
                                      mkdtemp_suffix h w') ''./index.js'')))"
  using run all donebase agree
proof (induction tests arbitrary: failed w "done")
  case Nil
  then show ?case by simp
next
  case (Cons t ts)
  let ?p = "expectedOutputPath h options"
  let ?S = "\<lambda>q. \<exists>w'. q = resolve h (join h (tmpdir h) ''check-side-effects-'' @
                                      mkdtemp_suffix h w') ''./index.js''"
  let ?win = "console_log (''Testing '' @ esModulesDescription t) w"
  from Cons.prems(2) have tin: "t \<in> set all" and din: "set done \<subseteq> set all" by auto
  obtain x w1 where s: "runTest h options dir t failed w = (x, w1)"
    by (cases "runTest h options dir t failed w")
  with Cons.prems(1) obtain f1 where x: "x = Inr f1"
    by (cases x) auto
  with s Cons.prems(1) have rest: "runTests h options dir ts f1 w1 = (Inr failed', w')"
    by simp
  have "\<forall>q. lookup ?win q = lookup w0 q \<or>
              (\<exists>t'\<in>set all. q = ?p t' \<and> lookup ?win q = Some (File (res t'))) \<or>
              (lookup ?win q = Some Dir \<and> (\<exists>t'\<in>set all. \<exists>k. q = (dirname h ^^ Suc k) (?p t'))) \<or>
              (lookup ?win q = None \<and> ?S q)"
    using Cons.prems(4) by simp
  with repro tin obtain w2 where
    ext: "checkSideEffects h (testOptions h options dir t) ?win = (Inr (Some (res t)), w2)"
    by blast
  from runTest_update_changes[OF up s[unfolded x] ext] have
    a1: "loadExpectedOutput w1 (?p t) = Inr (res t)"
    and c1: "\<forall>q. lookup w1 q = lookup w q \<or>
              (q = ?p t \<and> lookup w1 q = Some (File (res t))) \<or>
              (lookup w1 q = Some Dir \<and> (\<exists>k. q = (dirname h ^^ Suc k) (?p t))) \<or>
              (lookup w1 q = None \<and> ?S q)"
    by blast+
  have all': "all = (done @ [t]) @ ts" using Cons.prems(2) by simp
  have done': "\<forall>u\<in>set (done @ [t]). loadExpectedOutput w1 (?p u) = Inr (res u)"
  proof
    fix u assume u: "u \<in> set (done @ [t])"
    show "loadExpectedOutput w1 (?p u) = Inr (res u)"
    proof (cases "u \<in> set done")
      case True
      from True din have uin: "u \<in> set all" by blast
      from dist Cons.prems(2) have "distinct (map ?p (done @ t # ts))" by simp
      then have "?p t \<notin> ?p ` set done" by simp
      with True have ne: "?p u \<noteq> ?p t" by (metis imageI)
      from noanc[rule_format, OF uin tin] have na: "\<And>k. ?p u \<noteq> (dirname h ^^ Suc k) (?p t)" .
      from scr[rule_format, OF uin] have ns: "\<And>w'. ?p u \<noteq> resolve h (join h (tmpdir h)
            ''check-side-effects-'' @ mkdtemp_suffix h w') ''./index.js''" .
      from c1[rule_format, of "?p u"] ne na ns have "lookup w1 (?p u) = lookup w (?p u)" by auto
      from loadExpectedOutput_lookup[OF this] Cons.prems(3) True show ?thesis by simp
    next
      case False
      with u have "u = t" by simp
      with a1 show ?thesis by simp
    qed
  qed
  have agree': "\<forall>q. lookup w1 q = lookup w0 q \<or>
              (\<exists>t'\<in>set all. q = ?p t' \<and> lookup w1 q = Some (File (res t'))) \<or>
              (lookup w1 q = Some Dir \<and> (\<exists>t'\<in>set all. \<exists>k. q = (dirname h ^^ Suc k) (?p t'))) \<or>
              (lookup w1 q = None \<and> ?S q)"
  proof
    fix q
    from c1 have "lookup w1 q = lookup w q \<or>
              (q = ?p t \<and> lookup w1 q = Some (File (res t))) \<or>
              (lookup w1 q = Some Dir \<and> (\<exists>k. q = (dirname h ^^ Suc k) (?p t))) \<or>
              (lookup w1 q = None \<and> ?S q)" by blast
    then show "lookup w1 q = lookup w0 q \<or>
              (\<exists>t'\<in>set all. q = ?p t' \<and> lookup w1 q = Some (File (res t'))) \<or>
              (lookup w1 q = Some Dir \<and> (\<exists>t'\<in>set all. \<exists>k. q = (dirname h ^^ Suc k) (?p t'))) \<or>
              (lookup w1 q = None \<and> ?S q)"
    proof (elim disjE)
      assume "lookup w1 q = lookup w q"
      with Cons.prems(4)[rule_format, of q] show ?thesis by simp
    next
      assume "q = ?p t \<and> lookup w1 q = Some (File (res t))"
      with tin show ?thesis by blast
    next
      assume "lookup w1 q = Some Dir \<and> (\<exists>k. q = (dirname h ^^ Suc k) (?p t))"
      with tin show ?thesis by blast
    next
      assume "lookup w1 q = None \<and> ?S q"
      then show ?thesis by blast
    qed
  qed
  from Cons.IH[OF rest all' done' agree'] show ?case .
qed

lemma runTests_rerun_passes:
  assumes sub: "set tests \<subseteq> set all"
    and base: "\<forall>t\<in>set all. loadExpectedOutput w (expectedOutputPath h options t) = Inr (res t)"
    and agree: "\<forall>q. lookup w q = lookup w0 q \<or>
              (\<exists>t'\<in>set all. q = expectedOutputPath h options t' \<and>
                               lookup w q = Some (File (res t'))) \<or>
              (lookup w q = Some Dir \<and>
               (\<exists>t'\<in>set all. \<exists>k. q = (dirname h ^^ Suc k) (expectedOutputPath h options t'))) \<or>
              (lookup w q = None \<and>
               (\<exists>w'. q = resolve h (join h (tmpdir h) ''check-side-effects-'' @
                                      mkdtemp_suffix h w') ''./index.js''))"
    and repro: "\<forall>t\<in>set all. \<forall>w1.
           (\<forall>q. lookup w1 q = lookup w0 q \<or>
              (\<exists>t'\<in>set all. q = expectedOutputPath h options t' \<and>
                               lookup w1 q = Some (File (res t'))) \<or>
              (lookup w1 q = Some Dir \<and>
               (\<exists>t'\<in>set all. \<exists>k. q = (dirname h ^^ Suc k) (expectedOutputPath h options t'))) \<or>
              (lookup w1 q = None \<and>
               (\<exists>w'. q = resolve h (join h (tmpdir h) ''check-side-effects-'' @
                                      mkdtemp_suffix h w') ''./index.js''))) \<longrightarrow>
           (\<exists>w3. checkSideEffects h (testOptions h options dir t) w1 = (Inr (Some (res t)), w3))"
    and scr: "\<forall>t\<in>set all. \<forall>w1.
                expectedOutputPath h options t \<noteq>
                resolve h (join h (tmpdir h) ''check-side-effects-'' @ mkdtemp_suffix h w1)
                  ''./index.js''"
  shows "\<exists>w'. runTests h (options\<lparr>arg_update := False\<rparr>) dir tests failed w = (Inr failed, w')"
  using sub base agree
proof (induction tests arbitrary: w)
  case Nil
  then show ?case by simp
next
  case (Cons t ts)
  let ?p = "expectedOutputPath h options"
  let ?o = "options\<lparr>arg_update := False\<rparr>"
  let ?S = "\<lambda>q. \<exists>w'. q = resolve h (join h (tmpdir h) ''check-side-effects-'' @
                                      mkdtemp_suffix h w') ''./index.js''"
  let ?win = "console_log (''Testing '' @ esModulesDescription t) w"
  from Cons.prems(1) have tin: "t \<in> set all" and sub': "set ts \<subseteq> set all" by auto
  have "\<forall>q. lookup ?win q = lookup w0 q \<or>
              (\<exists>t'\<in>set all. q = ?p t' \<and> lookup ?win q = Some (File (res t'))) \<or>
              (lookup ?win q = Some Dir \<and> (\<exists>t'\<in>set all. \<exists>k. q = (dirname h ^^ Suc k) (?p t'))) \<or>
              (lookup ?win q = None \<and> ?S q)"
    using Cons.prems(3) by simp
  with repro tin obtain w2 where
    ext: "checkSideEffects h (testOptions h options dir t) ?win = (Inr (Some (res t)), w2)"
    by blast
  have ch: "lookup w2 q = lookup w q \<or> (lookup w2 q = None \<and> ?S q)" for q
    using checkSideEffects_in_memory_changes[OF ext, of q] by auto
  have keep: "lookup w2 (?p u) = lookup w (?p u)" if "u \<in> set all" for u
    using ch[of "?p u"] scr that by blast
  have base2: "\<forall>u\<in>set all. loadExpectedOutput w2 (?p u) = Inr (res u)"
  proof
    fix u assume u: "u \<in> set all"
    from loadExpectedOutput_lookup[OF keep[OF u]] Cons.prems(2) u
    show "loadExpectedOutput w2 (?p u) = Inr (res u)" by simp
  qed
  have agree2: "\<forall>q. lookup w2 q = lookup w0 q \<or>
              (\<exists>t'\<in>set all. q = ?p t' \<and> lookup w2 q = Some (File (res t'))) \<or>
              (lookup w2 q = Some Dir \<and> (\<exists>t'\<in>set all. \<exists>k. q = (dirname h ^^ Suc k) (?p t'))) \<or>
              (lookup w2 q = None \<and> ?S q)"
  proof
    fix q
    from ch[of q] show "lookup w2 q = lookup w0 q \<or>
              (\<exists>t'\<in>set all. q = ?p t' \<and> lookup w2 q = Some (File (res t'))) \<or>
              (lookup w2 q = Some Dir \<and> (\<exists>t'\<in>set all. \<exists>k. q = (dirname h ^^ Suc k) (?p t'))) \<or>
              (lookup w2 q = None \<and> ?S q)"
    proof
      assume "lookup w2 q = lookup w q"
      with Cons.prems(3)[rule_format, of q] show ?thesis by simp
    next
      assume "lookup w2 q = None \<and> ?S q"
      then show ?thesis by blast
    qed
  qed
  have ext': "checkSideEffects h (testOptions h ?o dir t) ?win = (Inr (Some (res t)), w2)"
    using ext by simp
  have e': "loadExpectedOutput w2 (expectedOutputPath h ?o t) = Inr (res t)"
    using base2 tin by simp
  have "runTest h ?o dir t failed w = (Inr failed, w2)"
    by (subst runTest_returned[OF ext' e']) simp
  then have "runTests h ?o dir (t # ts) failed w = runTests h ?o dir ts failed w2" by simp
  with Cons.IH[OF sub' base2 agree2] show ?case by simp
qed

lemma lookup_fs_eq: "fs w1 = fs w2 \<Longrightarrow> lookup w1 = lookup w2"
  by (rule ext) (simp add: lookup_def)

lemma update_then_rerun:
  assumes up: "arg_update options" and nh: "\<not> arg_help options"
    and tf: "arg_test options = Some tf" "tf \<noteq> []"
    and rd0: "readFileSync w0 (resolve h (arg_cwd options) tf) = Inr content"
    and parse: "JSON_parse_tests h content = Inr tests"
    and first: "main h options w0 = (Inr None, wU)"
    and intact: "readFileSync wU (resolve h (arg_cwd options) tf) = Inr content"
    and dist: "distinct (map (expectedOutputPath h options) tests)"
    and noanc: "\<forall>t\<in>set tests. \<forall>t'\<in>set tests. \<forall>k.
                  expectedOutputPath h options t \<noteq>
                  (dirname h ^^ Suc k) (expectedOutputPath h options t')"
    and scr: "\<forall>t\<in>set tests. \<forall>w1.
                expectedOutputPath h options t \<noteq>
                resolve h (join h (tmpdir h) ''check-side-effects-'' @ mkdtemp_suffix h w1)
                  ''./index.js''"
    and repro: "\<forall>t\<in>set tests. \<forall>w1.
           (\<forall>q. lookup w1 q = lookup w0 q \<or>
              (\<exists>t'\<in>set tests. q = expectedOutputPath h options t' \<and>
                                 lookup w1 q = Some (File (res t'))) \<or>
              (lookup w1 q = Some Dir \<and>
               (\<exists>t'\<in>set tests. \<exists>k. q = (dirname h ^^ Suc k) (expectedOutputPath h options t'))) \<or>
              (lookup w1 q = None \<and>
               (\<exists>w'. q = resolve h (join h (tmpdir h) ''check-side-effects-'' @
                                      mkdtemp_suffix h w') ''./index.js''))) \<longrightarrow>
           (\<exists>w3. checkSideEffects h
                    (testOptions h options (dirname h (resolve h (arg_cwd options) tf)) t) w1 =
                  (Inr (Some (res t)), w3))"
  shows "(\<forall>t\<in>set tests. loadExpectedOutput wU (expectedOutputPath h options t) = Inr (res t)) \<and>
         fst (main h (options\<lparr>arg_update := False\<rparr>) wU) = Inr None"
proof -
  let ?tfp = "resolve h (arg_cwd options) tf"
  let ?dir = "dirname h ?tfp"
  let ?w1 = "console_log (''Loading tests from '' @ ?tfp @ [CHR 0x0A]) w0"
  let ?o = "options\<lparr>arg_update := False\<rparr>"
  let ?p = "expectedOutputPath h options"
  note m = main_test_mode_cases[OF nh tf rd0 parse]
  obtain x w' where rt: "runTests h options ?dir tests [] ?w1 = (x, w')"
    by (cases "runTests h options ?dir tests [] ?w1")
  with m first obtain failed where x: "x = Inr failed"
    by (cases x) auto
  with m rt first have rep: "reportTests options failed w' = (Inr None, wU)" by simp
  have "fs (snd (reportTests options failed w')) = fs w'" by (rule fs_reportTests)
  with rep have fsU: "fs wU = fs w'" by simp
  have all0: "tests = [] @ tests" by simp
  have done0: "\<forall>t\<in>set []. loadExpectedOutput ?w1 (?p t) = Inr (res t)" by simp
  have agree0: "\<forall>q. lookup ?w1 q = lookup w0 q \<or>
              (\<exists>t'\<in>set tests. q = ?p t' \<and> lookup ?w1 q = Some (File (res t'))) \<or>
              (lookup ?w1 q = Some Dir \<and>
               (\<exists>t'\<in>set tests. \<exists>k. q = (dirname h ^^ Suc k) (?p t'))) \<or>
              (lookup ?w1 q = None \<and>
               (\<exists>w'. q = resolve h (join h (tmpdir h) ''check-side-effects-'' @
                                      mkdtemp_suffix h w') ''./index.js''))"
    by simp
  note inv = runTests_update_changes[where res=res and ?w0.0=w0,
               OF up rt[unfolded x] all0 done0 agree0 repro dist noanc scr]
  let ?wL = "console_log (''Loading tests from '' @ resolve h (arg_cwd ?o) tf @ [CHR 0x0A]) wU"
  have lU: "lookup wU = lookup w'" by (rule lookup_fs_eq[OF fsU])
  have lL: "lookup ?wL = lookup w'" by (rule ext) (simp add: lU)
  from inv have baseU: "\<forall>t\<in>set tests. loadExpectedOutput wU (?p t) = Inr (res t)"
    using loadExpectedOutput_fs[OF fsU] by simp
  then have baseL: "\<forall>t\<in>set tests. loadExpectedOutput ?wL (?p t) = Inr (res t)"
    using loadExpectedOutput_fs[of ?wL wU] by simp
  from inv have agreeL: "\<forall>q. lookup ?wL q = lookup w0 q \<or>
              (\<exists>t'\<in>set tests. q = ?p t' \<and> lookup ?wL q = Some (File (res t'))) \<or>
              (lookup ?wL q = Some Dir \<and>
               (\<exists>t'\<in>set tests. \<exists>k. q = (dirname h ^^ Suc k) (?p t'))) \<or>
              (lookup ?wL q = None \<and>
               (\<exists>w'. q = resolve h (join h (tmpdir h) ''check-side-effects-'' @
                                      mkdtemp_suffix h w') ''./index.js''))"
    unfolding lL by (rule conjunct2)
  from runTests_rerun_passes[where res=res and ?w0.0=w0, OF subset_refl baseL agreeL repro scr, of "[]"]
  obtain w'' where loop2: "runTests h ?o ?dir tests [] ?wL = (Inr [], w'')"
    by blast
  have "main h ?o wU =
     (case runTests h ?o (dirname h (resolve h (arg_cwd ?o) tf)) tests [] ?wL of
        (Inl e, w2) \<Rightarrow> (Inl e, w2)
      | (Inr failed, w2) \<Rightarrow> reportTests ?o failed w2)"
    by (rule main_test_mode_cases[where content=content]) (use nh tf intact parse in simp_all)
  with loop2 have "main h ?o wU = reportTests ?o [] w''" by simp
  then have "fst (main h ?o wU) = Inr None"
    by (simp add: reportTests_def Let_def)
  with baseU show ?thesis by blast
qed

text \<open>
  C6, as amended. In update mode, for a test whose extraction returns a text that differs
  from its baseline, the harness creates the missing parent directories of the baseline
  path (from the nearest existing ancestor directory down), writes the result there, goes
  on with the next test having recorded the description, and the report after the loop
  logs the updated descriptions and returns instead of throwing. When an update run over
  a suite has returned and the test file is still there, every baseline holds its test's
  result and a following run without update returns as well, provided that the
  expected-output paths of the suite are pairwise distinct, none of them is an ancestor
  directory of one of them or the entry file of a scratch directory, and every extraction
  is reproducible: it returns the same text on every file tree that differs from the
  starting one only in baselines that hold their results, in directories above baselines,
  and in scratch entry files that are gone. A bundler that reads the modules' text meets
  the last condition when it reads no baseline and no directory above one: the example
  below runs on such a bundler. The lemmas after the counterexample show what happens when a
  condition is dropped.
\<close>

theorem update_rewrites_baseline:
  assumes up: "arg_update options"
    and ext: "checkSideEffects h (testOptions h options dir t)
                (console_log (''Testing '' @ esModulesDescription t) w) = (Inr (Some r), w2)"
    and exp: "loadExpectedOutput w2 (expectedOutputPath h options t) = Inr e"
    and diff: "r \<noteq> e"
    and anc: "lookup w2 ((dirname h ^^ Suc n) (expectedOutputPath h options t)) = Some Dir"
    and miss: "\<forall>k<n. lookup w2 ((dirname h ^^ Suc k) (expectedOutputPath h options t)) = None"
    and stack: "n < stack_frames h"
  shows "(\<exists>w4.
           runTests h options dir (t # ts) failed w =
             runTests h options dir ts (failed @ [esModulesDescription t]) w4 \<and>
           readFileSync w4 (expectedOutputPath h options t) = Inr r \<and>
           (\<forall>k\<le>n. lookup w4 ((dirname h ^^ Suc k) (expectedOutputPath h options t)) = Some Dir) \<and>
           (\<forall>w5. reportTests options (failed @ [esModulesDescription t]) w5 =
                   (Inr None,
                    console_log (testsUpdatedMessage (failed @ [esModulesDescription t]))
                      (console_log [] w5)))) \<and>
         (\<forall>tests w0 wU tf content res.
            \<not> arg_help options \<and> arg_test options = Some tf \<and> tf \<noteq> [] \<and>
            readFileSync w0 (resolve h (arg_cwd options) tf) = Inr content \<and>
            JSON_parse_tests h content = Inr tests \<and>
            main h options w0 = (Inr None, wU) \<and>
            readFileSync wU (resolve h (arg_cwd options) tf) = Inr content \<and>
            distinct (map (expectedOutputPath h options) tests) \<and>
            (\<forall>t\<in>set tests. \<forall>t'\<in>set tests. \<forall>k.
               expectedOutputPath h options t \<noteq>
               (dirname h ^^ Suc k) (expectedOutputPath h options t')) \<and>
            (\<forall>t\<in>set tests. \<forall>w1.
               expectedOutputPath h options t \<noteq>
               resolve h (join h (tmpdir h) ''check-side-effects-'' @ mkdtemp_suffix h w1)
                 ''./index.js'') \<and>
            (\<forall>t\<in>set tests. \<forall>w1.
               (\<forall>q. lookup w1 q = lookup w0 q \<or>
                    (\<exists>t'\<in>set tests. q = expectedOutputPath h options t' \<and>
                                       lookup w1 q = Some (File (res t'))) \<or>
                    (lookup w1 q = Some Dir \<and>
                     (\<exists>t'\<in>set tests. \<exists>k.
                        q = (dirname h ^^ Suc k) (expectedOutputPath h options t'))) \<or>
                    (lookup w1 q = None \<and>
                     (\<exists>w'. q = resolve h (join h (tmpdir h) ''check-side-effects-'' @
                                            mkdtemp_suffix h w') ''./index.js''))) \<longrightarrow>
               (\<exists>w3. checkSideEffects h
                        (testOptions h options (dirname h (resolve h (arg_cwd options) tf)) t)
                        w1 = (Inr (Some (res t)), w3)))
            \<longrightarrow>
            (\<forall>t\<in>set tests.
               loadExpectedOutput wU (expectedOutputPath h options t) = Inr (res t)) \<and>
            fst (main h (options\<lparr>arg_update := False\<rparr>) wU) = Inr None)"
proof (rule conjI)
  from update_case[OF up ext exp diff anc miss stack, of ts failed]
  show "\<exists>w4.
           runTests h options dir (t # ts) failed w =
             runTests h options dir ts (failed @ [esModulesDescription t]) w4 \<and>
           readFileSync w4 (expectedOutputPath h options t) = Inr r \<and>
           (\<forall>k\<le>n. lookup w4 ((dirname h ^^ Suc k) (expectedOutputPath h options t)) = Some Dir) \<and>
           (\<forall>w5. reportTests options (failed @ [esModulesDescription t]) w5 =
                   (Inr None,
                    console_log (testsUpdatedMessage (failed @ [esModulesDescription t]))
                      (console_log [] w5)))"
    by blast
next
  show "\<forall>tests w0 wU tf content res.
            \<not> arg_help options \<and> arg_test options = Some tf \<and> tf \<noteq> [] \<and>
            readFileSync w0 (resolve h (arg_cwd options) tf) = Inr content \<and>
            JSON_parse_tests h content = Inr tests \<and>
            main h options w0 = (Inr None, wU) \<and>
            readFileSync wU (resolve h (arg_cwd options) tf) = Inr content \<and>
            distinct (map (expectedOutputPath h options) tests) \<and>
            (\<forall>t\<in>set tests. \<forall>t'\<in>set tests. \<forall>k.
               expectedOutputPath h options t \<noteq>
               (dirname h ^^ Suc k) (expectedOutputPath h options t')) \<and>
            (\<forall>t\<in>set tests. \<forall>w1.
               expectedOutputPath h options t \<noteq>
               resolve h (join h (tmpdir h) ''check-side-effects-'' @ mkdtemp_suffix h w1)
                 ''./index.js'') \<and>
            (\<forall>t\<in>set tests. \<forall>w1.
               (\<forall>q. lookup w1 q = lookup w0 q \<or>
                    (\<exists>t'\<in>set tests. q = expectedOutputPath h options t' \<and>
                                       lookup w1 q = Some (File (res t'))) \<or>
                    (lookup w1 q = Some Dir \<and>
                     (\<exists>t'\<in>set tests. \<exists>k.
                        q = (dirname h ^^ Suc k) (expectedOutputPath h options t'))) \<or>
                    (lookup w1 q = None \<and>
                     (\<exists>w'. q = resolve h (join h (tmpdir h) ''check-side-effects-'' @
                                            mkdtemp_suffix h w') ''./index.js''))) \<longrightarrow>
               (\<exists>w3. checkSideEffects h
                        (testOptions h options (dirname h (resolve h (arg_cwd options) tf)) t)
                        w1 = (Inr (Some (res t)), w3)))
            \<longrightarrow>
            (\<forall>t\<in>set tests.
               loadExpectedOutput wU (expectedOutputPath h options t) = Inr (res t)) \<and>
            fst (main h (options\<lparr>arg_update := False\<rparr>) wU) = Inr None"
  proof (intro allI impI)
    fix tests w0 wU tf content res
    assume a: "\<not> arg_help options \<and> arg_test options = Some tf \<and> tf \<noteq> [] \<and>
            readFileSync w0 (resolve h (arg_cwd options) tf) = Inr content \<and>
            JSON_parse_tests h content = Inr tests \<and>
            main h options w0 = (Inr None, wU) \<and>
            readFileSync wU (resolve h (arg_cwd options) tf) = Inr content \<and>
            distinct (map (expectedOutputPath h options) tests) \<and>
            (\<forall>t\<in>set tests. \<forall>t'\<in>set tests. \<forall>k.
               expectedOutputPath h options t \<noteq>
               (dirname h ^^ Suc k) (expectedOutputPath h options t')) \<and>
            (\<forall>t\<in>set tests. \<forall>w1.
               expectedOutputPath h options t \<noteq>
               resolve h (join h (tmpdir h) ''check-side-effects-'' @ mkdtemp_suffix h w1)
                 ''./index.js'') \<and>
            (\<forall>t\<in>set tests. \<forall>w1.
               (\<forall>q. lookup w1 q = lookup w0 q \<or>
                    (\<exists>t'\<in>set tests. q = expectedOutputPath h options t' \<and>
                                       lookup w1 q = Some (File (res t'))) \<or>
                    (lookup w1 q = Some Dir \<and>
                     (\<exists>t'\<in>set tests. \<exists>k.
                        q = (dirname h ^^ Suc k) (expectedOutputPath h options t'))) \<or>
                    (lookup w1 q = None \<and>
                     (\<exists>w'. q = resolve h (join h (tmpdir h) ''check-side-effects-'' @
                                            mkdtemp_suffix h w') ''./index.js''))) \<longrightarrow>
               (\<exists>w3. checkSideEffects h
                        (testOptions h options (dirname h (resolve h (arg_cwd options) tf)) t)
                        w1 = (Inr (Some (res t)), w3)))"
    from a have 1: "\<not> arg_help options" by (rule conjunct1)
    from a have a2: "arg_test options = Some tf \<and> tf \<noteq> [] \<and>
            readFileSync w0 (resolve h (arg_cwd options) tf) = Inr content \<and>
            JSON_parse_tests h content = Inr tests \<and>
            main h options w0 = (Inr None, wU) \<and>
            readFileSync wU (resolve h (arg_cwd options) tf) = Inr content \<and>
            distinct (map (expectedOutputPath h options) tests) \<and>
            (\<forall>t\<in>set tests. \<forall>t'\<in>set tests. \<forall>k.
               expectedOutputPath h options t \<noteq>
               (dirname h ^^ Suc k) (expectedOutputPath h options t')) \<and>
            (\<forall>t\<in>set tests. \<forall>w1.
               expectedOutputPath h options t \<noteq>
               resolve h (join h (tmpdir h) ''check-side-effects-'' @ mkdtemp_suffix h w1)
                 ''./index.js'') \<and>
            (\<forall>t\<in>set tests. \<forall>w1.
               (\<forall>q. lookup w1 q = lookup w0 q \<or>
                    (\<exists>t'\<in>set tests. q = expectedOutputPath h options t' \<and>
                                       lookup w1 q = Some (File (res t'))) \<or>
                    (lookup w1 q = Some Dir \<and>
                     (\<exists>t'\<in>set tests. \<exists>k.
                        q = (dirname h ^^ Suc k) (expectedOutputPath h options t'))) \<or>
                    (lookup w1 q = None \<and>
                     (\<exists>w'. q = resolve h (join h (tmpdir h) ''check-side-effects-'' @
                                            mkdtemp_suffix h w') ''./index.js''))) \<longrightarrow>
               (\<exists>w3. checkSideEffects h
                        (testOptions h options (dirname h (resolve h (arg_cwd options) tf)) t)
                        w1 = (Inr (Some (res t)), w3)))" by (rule conjunct2)
    note c = a2[THEN conjunct1] a2[THEN conjunct2, THEN conjunct1]
      a2[THEN conjunct2, THEN conjunct2, THEN conjunct1]
      a2[THEN conjunct2, THEN conjunct2, THEN conjunct2, THEN conjunct1]
      a2[THEN conjunct2, THEN conjunct2, THEN conjunct2, THEN conjunct2, THEN conjunct1]
      a2[THEN conjunct2, THEN conjunct2, THEN conjunct2, THEN conjunct2, THEN conjunct2, THEN conjunct1]
      a2[THEN conjunct2, THEN conjunct2, THEN conjunct2, THEN conjunct2, THEN conjunct2, THEN conjunct2,
         THEN conjunct1]
      a2[THEN conjunct2, THEN conjunct2, THEN conjunct2, THEN conjunct2, THEN conjunct2, THEN conjunct2,
         THEN conjunct2, THEN conjunct1]
      a2[THEN conjunct2, THEN conjunct2, THEN conjunct2, THEN conjunct2, THEN conjunct2, THEN conjunct2,
         THEN conjunct2, THEN conjunct2, THEN conjunct1]
      a2[THEN conjunct2, THEN conjunct2, THEN conjunct2, THEN conjunct2, THEN conjunct2, THEN conjunct2,
         THEN conjunct2, THEN conjunct2, THEN conjunct2]
    show "(\<forall>t\<in>set tests.
               loadExpectedOutput wU (expectedOutputPath h options t) = Inr (res t)) \<and>
            fst (main h (options\<lparr>arg_update := False\<rparr>) wU) = Inr None"
      by (rule update_then_rerun[where res=res, OF up 1 c])
  qed
qed

subsection \<open>The update run on the example project, with a bundler that reads the modules\<close>

lemma checkSideEffects_in_memory_total:
  assumes mm: "missingModules h opts w = []"
    and d: "d = join h (tmpdir h) ''check-side-effects-'' @ mkdtemp_suffix h w"
    and dn: "lookup w d = None" and par: "lookup w (dirname h d) = Some Dir"
    and f: "f = resolve h d ''./index.js''" and fd: "dirname h f = d" and fne: "f \<noteq> d"
    and fnd: "lookup w f \<noteq> Some Dir"
    and ro: "rollup h (inputOptions opts f)
               (AList.update f (File (entrySource (resolvedEsModules h opts)))
                  (AList.update d Dir (fs w))) = Inr b"
    and out: "outputFilePath h opts = None"
    and gen: "generate b (outputOptions h opts) = Inr outs"
    and kids: "\<forall>q. lookup w q \<noteq> None \<longrightarrow> q \<noteq> f \<longrightarrow> q \<noteq> d \<longrightarrow> dirname h q \<noteq> d"
  shows "\<exists>w'. checkSideEffects h opts w = (Inr (Some (chunkCode outs)), w')"
proof -
  let ?src = "entrySource (resolvedEsModules h opts)"
  let ?T = "AList.update f (File ?src) (AList.update d Dir (fs w))"
  let ?w1 = "w\<lparr>fs := AList.update d Dir (fs w), journal := journal w @ [Mkdtemp d]\<rparr>"
  have mk: "mkdtempSync h (join h (tmpdir h) ''check-side-effects-'') w = (Inr d, ?w1)"
    using dn par d by (simp add: mkdtempSync_def Let_def existsSync_def)
  have l1: "lookup ?w1 q = (if q = d then Some Dir else lookup w q)" for q
    by (simp add: lookup_def update_conv')
  let ?w2 = "?w1\<lparr>fs := ?T, journal := journal ?w1 @ [WriteFile f ?src]\<rparr>"
  have wr: "writeFileSync h f ?src ?w1 = (Inr (), ?w2)"
    using fnd fne fd l1[of f] l1[of d]
    by (cases "lookup w f") (auto simp: writeFileSync_def split: entry.splits)
  have l3: "lookup w3 q = (if q = f then Some (File ?src) else if q = d then Some Dir else lookup w q)"
    if "fs w3 = ?T" for q and w3 :: world
    using that by (simp add: lookup_def update_conv')
  have un: "unlinkSync f w3 =
      (Inr (), w3\<lparr>fs := AList.delete f ?T, journal := journal w3 @ [Unlink f]\<rparr>)"
    if "fs w3 = ?T" for w3 :: world
    using l3[OF that, of f] that by (simp add: unlinkSync_def)
  have l5: "lookup w5 q = (if q = f then None else if q = d then Some Dir else lookup w q)"
    if "fs w5 = AList.delete f ?T" for q and w5 :: world
    using that by (simp add: lookup_def delete_conv' update_conv')
  have nokids: "\<not> hasChildren h w5 d" if w5: "fs w5 = AList.delete f ?T" for w5 :: world
  proof
    assume "hasChildren h w5 d"
    then obtain q x where qx: "(q, x) \<in> set (fs w5)" and qd: "q \<noteq> d" and dq: "dirname h q = d"
      by (auto simp: hasChildren_def list_ex_iff)
    from qx have "q \<in> fst ` set (fs w5)" by force
    then have "map_of (fs w5) q \<noteq> None" by (simp add: map_of_eq_None_iff)
    then have "lookup w5 q \<noteq> None" by (simp add: lookup_def)
    with l5[OF w5, of q] qd have "q \<noteq> f" "lookup w q \<noteq> None" by (auto split: if_splits)
    with kids qd dq show False by blast
  qed
  have rm: "rmdirSync h d w5 =
      (Inr (), w5\<lparr>fs := AList.delete d (fs w5), journal := journal w5 @ [Rmdir d]\<rparr>)"
    if w5: "fs w5 = AList.delete f ?T" for w5 :: world
    using l5[OF w5, of d] fne nokids[OF w5] by (simp add: rmdirSync_def)
  show ?thesis
    unfolding checkSideEffects_def
    using mm mk wr ro out gen
    by (simp add: Let_def f[symmetric] un rm)
qed

lemma example_ancestors_a:
  "(example_dirname ^^ Suc k) ''/proj/expected/a.txt'' \<in> {''/proj/expected'', ''/proj'', ''/''}"
proof (induction k)
  case 0
  show ?case by (simp add: example_dirname_def)
next
  case (Suc k)
  have "(example_dirname ^^ Suc (Suc k)) ''/proj/expected/a.txt'' =
        example_dirname ((example_dirname ^^ Suc k) ''/proj/expected/a.txt'')" by simp
  moreover have "example_dirname q \<in> {''/proj/expected'', ''/proj'', ''/''}"
    if "q \<in> {''/proj/expected'', ''/proj'', ''/''}" for q
    using that by (auto simp: example_dirname_def)
  ultimately show ?case using Suc by simp
qed

lemma example_ancestors_b:
  "(example_dirname ^^ Suc k) ''/proj/new/out/b.txt'' \<in>
     {''/proj/new/out'', ''/proj/new'', ''/proj'', ''/''}"
proof (induction k)
  case 0
  show ?case by (simp add: example_dirname_def)
next
  case (Suc k)
  have "(example_dirname ^^ Suc (Suc k)) ''/proj/new/out/b.txt'' =
        example_dirname ((example_dirname ^^ Suc k) ''/proj/new/out/b.txt'')" by simp
  moreover have "example_dirname q \<in> {''/proj/new/out'', ''/proj/new'', ''/proj'', ''/''}"
    if "q \<in> {''/proj/new/out'', ''/proj/new'', ''/proj'', ''/''}" for q
    using that by (auto simp: example_dirname_def)
  ultimately show ?case using Suc by simp
qed

lemma suite_world_entries:
  "lookup suite_world q \<noteq> None \<Longrightarrow>
   q \<in> {''/'', ''/tmp'', ''/proj'', ''/proj/a.js'', ''/proj/b.js'', ''/proj/tests.json'',
        ''/proj/expected'', ''/proj/expected/a.txt''}"
  by (simp add: lookup_def suite_world_def suite_tree_def split: if_splits)

lemma reading_host_fields:
  "dirname (reading_host ts) = example_dirname"
  "resolve (reading_host ts) = example_resolve"
  "join (reading_host ts) = (\<lambda>a b. a @ ''/'' @ b)"
  "tmpdir (reading_host ts) = ''/tmp''"
  "mkdtemp_suffix (reading_host ts) = (\<lambda>w. ''Ab12Cd'')"
  "rollup (reading_host ts) = reading_rollup"
  "JSON_parse_tests (reading_host ts) = (\<lambda>text. Inr ts)"
  "stack_frames (reading_host ts) = 100"
  by (simp_all add: reading_host_def suite_host_def example_host_def)

lemma reading_extraction:
  assumes agree: "\<forall>q. lookup w1 q = lookup suite_world q \<or>
       (q \<in> {''/proj/expected/a.txt'', ''/proj/new/out/b.txt''} \<and> lookup w1 q = Some (File ''a.b;'')) \<or>
       (lookup w1 q = Some Dir \<and>
        q \<in> {''/proj/expected'', ''/proj'', ''/'', ''/proj/new/out'', ''/proj/new''}) \<or>
       (lookup w1 q = None \<and> q = ''/tmp/check-side-effects-Ab12Cd/index.js'')"
    and t: "t = test_a \<or> t = test_b"
  shows "\<exists>w3. checkSideEffects (reading_host [test_a, test_b])
                 (testOptions (reading_host [test_a, test_b]) (example_cli\<lparr>arg_update := True\<rparr>)
                    ''/proj'' t) w1 = (Inr (Some ''a.b;''), w3)"
proof -
  let ?h = "reading_host [test_a, test_b]"
  let ?opts = "testOptions ?h (example_cli\<lparr>arg_update := True\<rparr>) ''/proj'' t"
  let ?d = "''/tmp/check-side-effects-Ab12Cd''"
  let ?f = "''/tmp/check-side-effects-Ab12Cd/index.js''"
  let ?src = "entrySource (resolvedEsModules ?h ?opts)"
  let ?T = "AList.update ?f (File ?src) (AList.update ?d Dir (fs w1))"
  have la: "lookup w1 ''/proj/a.js'' = Some (File ''a.b;'')"
    using agree[rule_format, of "''/proj/a.js''"]
    by (auto simp: lookup_def suite_world_def suite_tree_def)
  have lb: "lookup w1 ''/proj/b.js'' = Some (File '''')"
    using agree[rule_format, of "''/proj/b.js''"]
    by (auto simp: lookup_def suite_world_def suite_tree_def)
  have ld: "lookup w1 ?d = None"
    using agree[rule_format, of ?d]
    by (auto simp: lookup_def suite_world_def suite_tree_def)
  have lt: "lookup w1 ''/tmp'' = Some Dir"
    using agree[rule_format, of "''/tmp''"]
    by (auto simp: lookup_def suite_world_def suite_tree_def)
  have lf: "lookup w1 ?f \<noteq> Some Dir"
    using agree[rule_format, of ?f]
    by (auto simp: lookup_def suite_world_def suite_tree_def)
  note hd = reading_host_fields(1) and hr = reading_host_fields(2)
    and hj = reading_host_fields(3) and ht = reading_host_fields(4)
    and hs = reading_host_fields(5) and hro = reading_host_fields(6)
  have mods: "resolvedEsModules ?h ?opts = [''/proj/a.js''] \<or>
              resolvedEsModules ?h ?opts = [''/proj/a.js'', ''/proj/b.js'']"
    using t
    by (auto simp: resolvedEsModules_def testOptions_def testCheckerOptions_def
          unresolvedEsModules_def test_a_def test_b_def cwdOf_def withDefault_def hr
          example_resolve_def example_cli_def replace_backslashes_def)
  have mm: "missingModules ?h ?opts w1 = []"
    using mods la lb by (auto simp: missingModules_def existsSync_def)
  have d: "?d = join ?h (tmpdir ?h) ''check-side-effects-'' @ mkdtemp_suffix ?h w1"
    by (simp add: hj ht hs)
  have par: "lookup w1 (dirname ?h ?d) = Some Dir"
    using lt by (simp add: hd example_dirname_def)
  have f: "?f = resolve ?h ?d ''./index.js''"
    by (simp add: hr example_resolve_def)
  have fd: "dirname ?h ?f = ?d" by (simp add: hd example_dirname_def)
  have fne: "?f \<noteq> ?d" by simp
  have imp: "imported_paths ?src = resolvedEsModules ?h ?opts"
    using mods by (auto simp: entrySource_def imported_paths_def)
  have ta: "module_text ?T ''/proj/a.js'' = Some ''a.b;''"
    and tb: "module_text ?T ''/proj/b.js'' = Some ''''"
    using la lb by (simp_all add: module_text_def update_conv' lookup_def)
  have texts: "\<exists>texts. those (map (module_text ?T) (imported_paths ?src)) = Some texts \<and>
                       concat texts = ''a.b;''"
    unfolding imp using mods ta tb by auto
  then obtain texts where th: "those (map (module_text ?T) (imported_paths ?src)) = Some texts"
    and cc: "concat texts = ''a.b;''" by blast
  have "map_of ?T ?f = Some (File ?src)" by (simp add: update_conv')
  with th obtain b where ro: "rollup ?h (inputOptions ?opts ?f) ?T = Inr b"
    and gb: "generate b = (\<lambda>oo. Inr [OutputChunk (concat texts)])"
    by (simp add: hro reading_rollup_def inputOptions_def)
  have out: "outputFilePath ?h ?opts = None"
    using t by (auto simp: outputFilePath_def testOptions_def testCheckerOptions_def
                      test_a_def test_b_def)
  have gen: "generate b (outputOptions ?h ?opts) = Inr [OutputChunk ''a.b;'']"
    by (simp add: gb cc)
  have kids: "\<forall>q. lookup w1 q \<noteq> None \<longrightarrow> q \<noteq> ?f \<longrightarrow> q \<noteq> ?d \<longrightarrow> dirname ?h q \<noteq> ?d"
  proof (intro allI impI)
    fix q assume q: "lookup w1 q \<noteq> None" "q \<noteq> ?f" "q \<noteq> ?d"
    have "q \<in> {''/'', ''/tmp'', ''/proj'', ''/proj/a.js'', ''/proj/b.js'', ''/proj/tests.json'',
        ''/proj/expected'', ''/proj/expected/a.txt'', ''/proj/new/out/b.txt'',
        ''/proj/new/out'', ''/proj/new''}"
      using agree[rule_format, of q] q(1) suite_world_entries[of q] by auto
    then show "dirname ?h q \<noteq> ?d"
      unfolding hd by (auto simp: example_dirname_def)
  qed
  from checkSideEffects_in_memory_total[OF mm d ld par f fd fne lf ro out gen kids]
  show ?thesis by (simp add: chunkCode_def)
qed

theorem update_rewrites_baseline_witness:
  "arg_update (example_cli\<lparr>arg_update := True\<rparr>) \<and>
   fst (main (reading_host [test_a, test_b]) (example_cli\<lparr>arg_update := True\<rparr>) suite_world) =
     Inr None \<and>
   readFileSync
     (snd (main (reading_host [test_a, test_b]) (example_cli\<lparr>arg_update := True\<rparr>) suite_world))
     ''/proj/expected/a.txt'' = Inr ''a.b;'' \<and>
   readFileSync
     (snd (main (reading_host [test_a, test_b]) (example_cli\<lparr>arg_update := True\<rparr>) suite_world))
     ''/proj/new/out/b.txt'' = Inr ''a.b;'' \<and>
   \<not> existsSync suite_world ''/proj/new'' \<and>
   lookup (snd (main (reading_host [test_a, test_b]) (example_cli\<lparr>arg_update := True\<rparr>) suite_world))
     ''/proj/new/out'' = Some Dir \<and>
   fst (main (reading_host [test_a, test_b]) (example_cli\<lparr>arg_update := True, arg_update := False\<rparr>)
          (snd (main (reading_host [test_a, test_b]) (example_cli\<lparr>arg_update := True\<rparr>)
                  suite_world))) =
     Inr None"
proof -
  let ?h = "reading_host [test_a, test_b]"
  let ?o = "example_cli\<lparr>arg_update := True\<rparr>"
  let ?res = "\<lambda>t :: Test. ''a.b;''"
  let ?tfp = "resolve ?h (arg_cwd ?o) ''tests.json''"
  let ?w = "console_log (''Loading tests from '' @ ?tfp @ [CHR 0x0A]) suite_world"
  let ?p = "expectedOutputPath ?h ?o test_b"
  let ?run = "checkSideEffects ?h (testOptions ?h ?o ''/proj'' test_b)
               (console_log (''Testing '' @ esModulesDescription test_b) ?w)"
  let ?wU = "snd (main ?h ?o suite_world)"
  let ?f = "''/tmp/check-side-effects-Ab12Cd/index.js''"
  have up: "arg_update ?o" by simp
  have "fst ?run = Inr (Some ''a.b;'')" by code_simp
  then have ext: "?run = (Inr (Some ''a.b;''), snd ?run)" by (metis prod.collapse)
  have exp: "loadExpectedOutput (snd ?run) ?p = Inr []" by code_simp
  have diff: "''a.b;'' \<noteq> []" by simp
  have anc: "lookup (snd ?run) ((dirname ?h ^^ Suc 2) ?p) = Some Dir" by code_simp
  have m0: "lookup (snd ?run) ((dirname ?h ^^ Suc 0) ?p) = None" by code_simp
  have m1: "lookup (snd ?run) ((dirname ?h ^^ Suc 1) ?p) = None" by code_simp
  have miss: "\<forall>k<2. lookup (snd ?run) ((dirname ?h ^^ Suc k) ?p) = None"
  proof (intro allI impI)
    fix k :: nat assume "k < 2"
    then have "k = 0 \<or> k = 1" by auto
    with m0 m1 show "lookup (snd ?run) ((dirname ?h ^^ Suc k) ?p) = None" by auto
  qed
  have stack: "2 < stack_frames ?h" by code_simp
  note inst = update_rewrites_baseline[OF up ext exp diff anc miss stack, of "[]" "[]"]
  note rerun = inst[THEN conjunct2, rule_format,
                    of "''tests.json''" suite_world "''{}''" "[test_a, test_b]" ?wU ?res]
  have a: "\<not> arg_help ?o" "arg_test ?o = Some ''tests.json''" "''tests.json'' \<noteq> []"
    by (simp_all add: example_cli_def)
  have b: "readFileSync suite_world ?tfp = Inr ''{}''" by code_simp
  have c: "JSON_parse_tests ?h ''{}'' = Inr [test_a, test_b]" by (simp add: reading_host_fields)
  have first: "fst (main ?h ?o suite_world) = Inr None" by code_simp
  then have d: "main ?h ?o suite_world = (Inr None, ?wU)" by (metis prod.collapse)
  have e: "readFileSync ?wU ?tfp = Inr ''{}''" by code_simp
  have dir: "dirname ?h ?tfp = ''/proj''" by code_simp
  have pa: "expectedOutputPath ?h ?o test_a = ''/proj/expected/a.txt''"
    and pb: "expectedOutputPath ?h ?o test_b = ''/proj/new/out/b.txt''"
    by code_simp+
  have pa': "expectedOutputPath ?h example_cli test_a = ''/proj/expected/a.txt''"
    and pb': "expectedOutputPath ?h example_cli test_b = ''/proj/new/out/b.txt''"
    by code_simp+
  have g: "distinct (map (expectedOutputPath ?h ?o) [test_a, test_b])"
    by (simp add: pa' pb')
  have dn: "dirname ?h = example_dirname" by (rule reading_host_fields)
  have na: "q \<noteq> (example_dirname ^^ Suc k) ''/proj/expected/a.txt''"
    if "q = ''/proj/expected/a.txt'' \<or> q = ''/proj/new/out/b.txt''" for q k
    using example_ancestors_a[of k] that by auto
  have nb: "q \<noteq> (example_dirname ^^ Suc k) ''/proj/new/out/b.txt''"
    if "q = ''/proj/expected/a.txt'' \<or> q = ''/proj/new/out/b.txt''" for q k
    using example_ancestors_b[of k] that by auto
  have i: "\<forall>t\<in>set [test_a, test_b]. \<forall>t'\<in>set [test_a, test_b]. \<forall>k.
               expectedOutputPath ?h ?o t \<noteq> (dirname ?h ^^ Suc k) (expectedOutputPath ?h ?o t')"
    unfolding dn
    by (simp only: list.set ball_simps pa pb simp_thms) (intro conjI allI na nb; simp)
  have scratch: "resolve ?h (join ?h (tmpdir ?h) ''check-side-effects-'' @ mkdtemp_suffix ?h w1)
                   ''./index.js'' = ?f" for w1
    by (simp add: reading_host_fields example_resolve_def)
  have j: "\<forall>t\<in>set [test_a, test_b]. \<forall>w1.
               expectedOutputPath ?h ?o t \<noteq>
               resolve ?h (join ?h (tmpdir ?h) ''check-side-effects-'' @ mkdtemp_suffix ?h w1)
                 ''./index.js''"
    unfolding scratch by (simp add: pa' pb')
  have k: "\<forall>t\<in>set [test_a, test_b]. \<forall>w1.
               (\<forall>q. lookup w1 q = lookup suite_world q \<or>
                    (\<exists>t'\<in>set [test_a, test_b]. q = expectedOutputPath ?h ?o t' \<and>
                                       lookup w1 q = Some (File (?res t'))) \<or>
                    (lookup w1 q = Some Dir \<and>
                     (\<exists>t'\<in>set [test_a, test_b]. \<exists>k.
                        q = (dirname ?h ^^ Suc k) (expectedOutputPath ?h ?o t'))) \<or>
                    (lookup w1 q = None \<and>
                     (\<exists>w'. q = resolve ?h (join ?h (tmpdir ?h) ''check-side-effects-'' @
                                            mkdtemp_suffix ?h w') ''./index.js''))) \<longrightarrow>
               (\<exists>w3. checkSideEffects ?h (testOptions ?h ?o (dirname ?h ?tfp) t) w1 =
                        (Inr (Some (?res t)), w3))"
  proof (intro ballI allI impI)
    fix t and w1 :: world
    assume t: "t \<in> set [test_a, test_b]"
      and A: "\<forall>q. lookup w1 q = lookup suite_world q \<or>
                    (\<exists>t'\<in>set [test_a, test_b]. q = expectedOutputPath ?h ?o t' \<and>
                                       lookup w1 q = Some (File (?res t'))) \<or>
                    (lookup w1 q = Some Dir \<and>
                     (\<exists>t'\<in>set [test_a, test_b]. \<exists>k.
                        q = (dirname ?h ^^ Suc k) (expectedOutputPath ?h ?o t'))) \<or>
                    (lookup w1 q = None \<and>
                     (\<exists>w'. q = resolve ?h (join ?h (tmpdir ?h) ''check-side-effects-'' @
                                            mkdtemp_suffix ?h w') ''./index.js''))"
    from t have t': "t = test_a \<or> t = test_b" by simp
    have B: "\<forall>q. lookup w1 q = lookup suite_world q \<or>
       (q \<in> {''/proj/expected/a.txt'', ''/proj/new/out/b.txt''} \<and> lookup w1 q = Some (File ''a.b;'')) \<or>
       (lookup w1 q = Some Dir \<and>
        q \<in> {''/proj/expected'', ''/proj'', ''/'', ''/proj/new/out'', ''/proj/new''}) \<or>
       (lookup w1 q = None \<and> q = ?f)"
    proof
      fix q
      have s5a: "(example_dirname ^^ Suc k) ''/proj/expected/a.txt'' \<in>
                   {''/proj/expected'', ''/proj'', ''/'', ''/proj/new/out'', ''/proj/new''}" for k
        using example_ancestors_a[of k] by auto
      have s5b: "(example_dirname ^^ Suc k) ''/proj/new/out/b.txt'' \<in>
                   {''/proj/expected'', ''/proj'', ''/'', ''/proj/new/out'', ''/proj/new''}" for k
        using example_ancestors_b[of k] by auto
      from A[rule_format, of q, unfolded scratch dn]
      have F: "lookup w1 q = lookup suite_world q \<or>
            ((q = ''/proj/expected/a.txt'' \<or> q = ''/proj/new/out/b.txt'') \<and>
             lookup w1 q = Some (File ''a.b;'')) \<or>
            (lookup w1 q = Some Dir \<and>
             ((\<exists>k. q = (example_dirname ^^ Suc k) ''/proj/expected/a.txt'') \<or>
              (\<exists>k. q = (example_dirname ^^ Suc k) ''/proj/new/out/b.txt''))) \<or>
            (lookup w1 q = None \<and> q = ?f)"
        by (simp only: list.set bex_simps pa pb simp_thms)
      show "lookup w1 q = lookup suite_world q \<or>
       (q \<in> {''/proj/expected/a.txt'', ''/proj/new/out/b.txt''} \<and> lookup w1 q = Some (File ''a.b;'')) \<or>
       (lookup w1 q = Some Dir \<and>
        q \<in> {''/proj/expected'', ''/proj'', ''/'', ''/proj/new/out'', ''/proj/new''}) \<or>
       (lookup w1 q = None \<and> q = ?f)"
        using F
      proof (elim disjE conjE exE)
        assume "lookup w1 q = lookup suite_world q"
        then show ?thesis by (rule disjI1)
      next
        assume "q = ''/proj/expected/a.txt''" "lookup w1 q = Some (File ''a.b;'')"
        then show ?thesis by simp
      next
        assume "q = ''/proj/new/out/b.txt''" "lookup w1 q = Some (File ''a.b;'')"
        then show ?thesis by simp
      next
        fix k assume "lookup w1 q = Some Dir" "q = (example_dirname ^^ Suc k) ''/proj/expected/a.txt''"
        with s5a[of k] have "lookup w1 q = Some Dir \<and>
          q \<in> {''/proj/expected'', ''/proj'', ''/'', ''/proj/new/out'', ''/proj/new''}" by simp
        then show ?thesis by (intro disjI2 disjI1)
      next
        fix k assume "lookup w1 q = Some Dir" "q = (example_dirname ^^ Suc k) ''/proj/new/out/b.txt''"
        with s5b[of k] have "lookup w1 q = Some Dir \<and>
          q \<in> {''/proj/expected'', ''/proj'', ''/'', ''/proj/new/out'', ''/proj/new''}" by simp
        then show ?thesis by (intro disjI2 disjI1)
      next
        assume "lookup w1 q = None" "q = ?f"
        then show ?thesis by simp
      qed
    qed
    from reading_extraction[OF B t']
    show "\<exists>w3. checkSideEffects ?h (testOptions ?h ?o (dirname ?h ?tfp) t) w1 =
                        (Inr (Some (?res t)), w3)"
      by (simp only: dir)
  qed
  have hyp: "\<not> arg_help ?o \<and> arg_test ?o = Some ''tests.json'' \<and> ''tests.json'' \<noteq> [] \<and>
            readFileSync suite_world ?tfp = Inr ''{}'' \<and>
            JSON_parse_tests ?h ''{}'' = Inr [test_a, test_b] \<and>
            main ?h ?o suite_world = (Inr None, ?wU) \<and>
            readFileSync ?wU ?tfp = Inr ''{}'' \<and>
            distinct (map (expectedOutputPath ?h ?o) [test_a, test_b]) \<and>
            (\<forall>t\<in>set [test_a, test_b]. \<forall>t'\<in>set [test_a, test_b]. \<forall>k.
               expectedOutputPath ?h ?o t \<noteq> (dirname ?h ^^ Suc k) (expectedOutputPath ?h ?o t')) \<and>
            (\<forall>t\<in>set [test_a, test_b]. \<forall>w1.
               expectedOutputPath ?h ?o t \<noteq>
               resolve ?h (join ?h (tmpdir ?h) ''check-side-effects-'' @ mkdtemp_suffix ?h w1)
                 ''./index.js'') \<and>
            (\<forall>t\<in>set [test_a, test_b]. \<forall>w1.
               (\<forall>q. lookup w1 q = lookup suite_world q \<or>
                    (\<exists>t'\<in>set [test_a, test_b]. q = expectedOutputPath ?h ?o t' \<and>
                                       lookup w1 q = Some (File (?res t'))) \<or>
                    (lookup w1 q = Some Dir \<and>
                     (\<exists>t'\<in>set [test_a, test_b]. \<exists>k.
                        q = (dirname ?h ^^ Suc k) (expectedOutputPath ?h ?o t'))) \<or>
                    (lookup w1 q = None \<and>
                     (\<exists>w'. q = resolve ?h (join ?h (tmpdir ?h) ''check-side-effects-'' @
                                            mkdtemp_suffix ?h w') ''./index.js''))) \<longrightarrow>
               (\<exists>w3. checkSideEffects ?h (testOptions ?h ?o (dirname ?h ?tfp) t) w1 =
                        (Inr (Some (?res t)), w3)))"
    using a b c d e g i j k by (intro conjI)
  from rerun[OF hyp]
  have two: "fst (main ?h (?o\<lparr>arg_update := False\<rparr>) ?wU) = Inr None"
    by (rule conjunct2)
  have l: "readFileSync ?wU ''/proj/new/out/b.txt'' = Inr ''a.b;''" by code_simp
  have l': "readFileSync ?wU ''/proj/expected/a.txt'' = Inr ''a.b;''" by code_simp
  have m: "\<not> existsSync suite_world ''/proj/new''" by code_simp
  have n: "lookup ?wU ''/proj/new/out'' = Some Dir" by code_simp
  from up first two l l' m n show ?thesis by simp
qed

text \<open>
  C6 as stated fails on a suite in which two tests name the same expected-output file: in
  update mode both differ from the baseline and both are written, the second over the
  first, and the following run without update throws for the first test.
\<close>

theorem shared_baseline_rerun_fails:
  "fst (main (suite_host [test_c, test_d]) (example_cli\<lparr>arg_update := True\<rparr>) suite_world) = Inr None \<and>
   readFileSync
     (snd (main (suite_host [test_c, test_d]) (example_cli\<lparr>arg_update := True\<rparr>) suite_world))
     ''/proj/shared.txt'' = Inr (''import '' @ [CHR 0x27] @ ''/proj/b.js'' @ [CHR 0x27] @ '';'') \<and>
   fst (main (suite_host [test_c, test_d]) example_cli
          (snd (main (suite_host [test_c, test_d]) (example_cli\<lparr>arg_update := True\<rparr>) suite_world))) =
     Inl (Thrown (''Tests failed for modules:'' @ [CHR 0x0A] @ ''  a.js'' @ [CHR 0x0A] @
                  [CHR 0x0A] @
                  ''To update the expectations, run this command again with the --update flag.'' @
                  [CHR 0x0A]))"
  by code_simp

subsection \<open>What the conditions of the update scenario exclude\<close>

text \<open>
  A test that asks for the bundle on disk has no text as its result: in update mode its
  baseline receives what \<open>writeFileSync\<close> makes of \<open>undefined\<close> (or the write throws), and the
  following run without update fails, \<open>undefined\<close> being different from every string.
\<close>

lemma on_disk_case_rerun_fails:
  "fst (main (suite_host [test_on_disk]) (example_cli\<lparr>arg_update := True\<rparr>) suite_world) = Inr None \<and>
   readFileSync
     (snd (main (suite_host [test_on_disk]) (example_cli\<lparr>arg_update := True\<rparr>) suite_world))
     ''/proj/expected/e.txt'' = Inr ''undefined'' \<and>
   fst (main (suite_host [test_on_disk]) example_cli
          (snd (main (suite_host [test_on_disk]) (example_cli\<lparr>arg_update := True\<rparr>) suite_world))) =
     Inl (Thrown (''Tests failed for modules:'' @ [CHR 0x0A] @ ''  a.js'' @ [CHR 0x0A] @
                  [CHR 0x0A] @
                  ''To update the expectations, run this command again with the --update flag.'' @
                  [CHR 0x0A])) \<and>
   fst (main ((suite_host [test_on_disk])\<lparr>undefined_data := Inl TypeError\<rparr>)
          (example_cli\<lparr>arg_update := True\<rparr>) suite_world) = Inl TypeError"
  by code_simp

text \<open>
  When the nearest existing ancestor of the expected-output path is a file, or when the path
  has no existing ancestor at all, the update run throws instead of reporting the test as
  updated.
\<close>

lemma file_ancestor_update_throws:
  "lookup suite_world ''/proj/a.js'' = Some (File ''a.b;'') \<and>
   fst (main (suite_host [test_under_file]) (example_cli\<lparr>arg_update := True\<rparr>) suite_world) =
     Inl (ENOTDIR ''/proj/a.js/f.txt'')"
  by code_simp

lemma unrooted_baseline_update_throws:
  "fst (main (suite_host [test_unrooted]) (example_cli\<lparr>arg_update := True\<rparr>)
          (suite_world\<lparr>fs := tl suite_tree\<rparr>)) = Inl RangeError"
  by code_simp

text \<open>
  When the expected-output path of a test with an empty result is the directory of another
  test's expected-output file, the update run makes that directory and the following run
  throws on reading it.
\<close>

lemma nested_baseline_rerun_fails:
  "fst (main (reading_host [test_empty, test_below]) (example_cli\<lparr>arg_update := True\<rparr>) suite_world) =
     Inr None \<and>
   lookup
     (snd (main (reading_host [test_empty, test_below]) (example_cli\<lparr>arg_update := True\<rparr>)
             suite_world))
     ''/proj/out'' = Some Dir \<and>
   fst (main (reading_host [test_empty, test_below]) example_cli
          (snd (main (reading_host [test_empty, test_below]) (example_cli\<lparr>arg_update := True\<rparr>)
                  suite_world))) =
     Inl (EISDIR ''/proj/out'')"
  by code_simp

text \<open>
  When the expected-output path is the scratch entry file, the update run leaves a directory
  with the scratch directory's name; on a host where \<open>mkdtempSync\<close> settles on the same
  suffix again, the following run throws.
\<close>

lemma scratch_baseline_rerun_fails:
  "fst (main (suite_host [test_in_scratch]) (example_cli\<lparr>arg_update := True\<rparr>) suite_world) =
     Inr None \<and>
   fst (main (suite_host [test_in_scratch]) example_cli
          (snd (main (suite_host [test_in_scratch]) (example_cli\<lparr>arg_update := True\<rparr>)
                  suite_world))) =
     Inl (EEXIST ''/tmp/check-side-effects-Ab12Cd'')"
  by code_simp

text \<open>
  When the expected-output file of one test is a module that another test reads, the update
  run changes the result of that other test, and the following run fails for it.
\<close>

lemma module_baseline_rerun_fails:
  "fst (main (reading_host [test_reads_b, test_writes_b]) (example_cli\<lparr>arg_update := True\<rparr>)
          suite_world) = Inr None \<and>
   readFileSync
     (snd (main (reading_host [test_reads_b, test_writes_b]) (example_cli\<lparr>arg_update := True\<rparr>)
             suite_world))
     ''/proj/b.js'' = Inr ''a.b;'' \<and>
   fst (main (reading_host [test_reads_b, test_writes_b]) example_cli
          (snd (main (reading_host [test_reads_b, test_writes_b]) (example_cli\<lparr>arg_update := True\<rparr>)
                  suite_world))) =
     Inl (Thrown (''Tests failed for modules:'' @ [CHR 0x0A] @ ''  b.js'' @ [CHR 0x0A] @
                  [CHR 0x0A] @
                  ''To update the expectations, run this command again with the --update flag.'' @
                  [CHR 0x0A]))"
  by code_simp

section \<open>The earlier version of the checker\<close>

lemmas checker_v1_defs =
  checkSideEffects_v1_def missingModules_v1_def resolvedEsModules_v1_def outputFilePath_v1_def
  outputGiven_v1_def inputOptions_v1_def outputOptions_v1_def terserConfig_v1_def
  default_options_v1_def

text \<open>
  The earlier version validates the module references in the same way, before it writes
  anything.
\<close>

lemma missing_modules_fail_before_entry_v1:
  assumes "\<exists>m\<in>set (v1_esModules opts).
             \<not> existsSync w (replace_backslashes (resolve h (v1_cwd opts) m))"
  shows "checkSideEffects_v1 h opts w =
           (Inl (Thrown (missingModulesMessage
              (filter (\<lambda>p. \<not> existsSync w p)
                 (map (\<lambda>m. replace_backslashes (resolve h (v1_cwd opts) m))
                    (v1_esModules opts))))), w)"
proof -
  from assms have "missingModules_v1 h opts w \<noteq> []"
    by (auto simp: missingModules_v1_def resolvedEsModules_v1_def filter_empty_conv)
  then have "checkSideEffects_v1 h opts w =
               (Inl (Thrown (missingModulesMessage (missingModules_v1 h opts w))), w)"
    by (simp add: checkSideEffects_v1_def)
  then show ?thesis
    by (simp only: missingModules_v1_def resolvedEsModules_v1_def)
qed

text \<open>It writes the same text, to a file in the working directory.\<close>

lemma entry_file_v1:
  assumes "checkSideEffects_v1 h opts w = (r, w')"
  shows "\<exists>evs. journal w' = journal w @ evs \<and>
           (\<forall>p c. WriteFile p c \<in> set evs \<longrightarrow>
              p = resolve h (v1_cwd opts) ''./check-side-effects.tmp-input.js'' \<and>
              c = entrySource (map (\<lambda>m. replace_backslashes (resolve h (v1_cwd opts) m))
                                 (v1_esModules opts))) \<and>
           ((\<exists>x. r = Inr x) \<longrightarrow>
              WriteFile (resolve h (v1_cwd opts) ''./check-side-effects.tmp-input.js'')
                (entrySource (map (\<lambda>m. replace_backslashes (resolve h (v1_cwd opts) m))
                                 (v1_esModules opts))) \<in> set evs)"
  using assms unfolding checkSideEffects_v1_def resolvedEsModules_v1_def
  by (auto simp: Let_def
           dest!: writeFileSync_journal unlinkSync_journal
           split: if_splits prod.splits sum.splits option.splits)

text \<open>It returns the residual text only when no output path is given.\<close>

lemma residual_text_only_in_memory_v1:
  assumes "checkSideEffects_v1 h opts w = (Inr r, w')"
  shows "if outputGiven_v1 h opts then r = None
         else \<exists>io tree b outs.
                rollup h io tree = Inr b \<and> generate b (outputOptions_v1 h opts) = Inr outs \<and>
                r = Some (chunkCode outs)"
  using assms unfolding checkSideEffects_v1_def
  by (auto simp: Let_def split: if_splits prod.splits sum.splits option.splits)

text \<open>
  Without an output path it returns with the entry file still in the working directory;
  with one, the file is removed. The current version removes it in both modes.
\<close>

lemma entry_file_left_in_memory_v1:
  "fst (checkSideEffects_v1 example_host (default_options_v1 ''/proj'' [''a.js'']) example_world) =
     Inr (Some (''import '' @ [CHR 0x27] @ ''/proj/a.js'' @ [CHR 0x27] @ '';'')) \<and>
   existsSync
     (snd (checkSideEffects_v1 example_host (default_options_v1 ''/proj'' [''a.js'']) example_world))
     ''/proj/check-side-effects.tmp-input.js'' \<and>
   fst (checkSideEffects_v1 example_host
          ((default_options_v1 ''/proj'' [''a.js''])\<lparr>v1_outputFilePath := Some ''out.js''\<rparr>)
          example_world) = Inr None \<and>
   \<not> existsSync
     (snd (checkSideEffects_v1 example_host
          ((default_options_v1 ''/proj'' [''a.js''])\<lparr>v1_outputFilePath := Some ''out.js''\<rparr>)
          example_world))
     ''/proj/check-side-effects.tmp-input.js''"
  by code_simp

end
